(* ===== verification/Prelude.thy ===== *)
theory Prelude
  imports Main
begin

text \<open>
  Shared vocabulary of the development: the types that name the Go values of the
  model (byte strings, nanosecond timestamps), the int64 range that Go's
  \<open>time\<close> and \<open>strconv\<close> packages work in, the byte search \<open>bytes.LastIndex\<close>
  used by the token codec, and the collection \<open>go_simps\<close> of characteristic
  equations that the component proofs hand to \<open>simp\<close>.
\<close>

named_theorems go_simps "characteristic equations of the modelled Go library calls"

type_synonym bytes = string
type_synonym nanos = int

section \<open>The int64 range\<close>

definition int64_min :: int where
  "int64_min = - (2 ^ 63)"

definition int64_max :: int where
  "int64_max = 2 ^ 63 - 1"

definition in_int64 :: "int \<Rightarrow> bool" where
  "in_int64 x \<longleftrightarrow> int64_min \<le> x \<and> x \<le> int64_max"

section \<open>bytes.LastIndex for a one-byte separator\<close>

text \<open>
  \<open>bytes.LastIndex data [c]\<close> is the index of the last occurrence of \<open>c\<close> in
  \<open>data\<close>, or -1 (here \<open>None\<close>) when there is none.
\<close>

fun last_index :: "'a \<Rightarrow> 'a list \<Rightarrow> nat option" where
  "last_index c [] = None"
| "last_index c (x # xs) =
     (case last_index c xs of
        Some i \<Rightarrow> Some (Suc i)
      | None \<Rightarrow> (if x = c then Some 0 else None))"

section \<open>ASCII bytes of HTTP\<close>

text \<open>
  The byte classes \<open>net/http\<close> and \<open>net/textproto\<close> share: the case mappings
  of ASCII letters (other bytes unchanged) and \<open>httpguts.IsTokenRune\<close>, the
  characters of an RFC 7230 token (header names, cookie names).
\<close>

definition ascii_lower :: "char \<Rightarrow> char" where
  "ascii_lower c = (if 65 \<le> (of_char c :: nat) \<and> (of_char c :: nat) \<le> 90 then char_of (of_char c + (32::nat)) else c)"

definition ascii_upper :: "char \<Rightarrow> char" where
  "ascii_upper c = (if 97 \<le> (of_char c :: nat) \<and> (of_char c :: nat) \<le> 122 then char_of (of_char c - (32::nat)) else c)"

definition is_token_char :: "char \<Rightarrow> bool" where
  "is_token_char c \<longleftrightarrow>
     33 \<le> (of_char c :: nat) \<and> (of_char c :: nat) < 127 \<and>
     c \<notin> set (''()<>@,;:/[]?={}'' @ [CHR 0x22, CHR 0x5C])"

section \<open>Splitting and joining at a separator byte\<close>

text \<open>
  \<open>strings.Split(s, sep)\<close> for a one-byte separator: the pieces between the
  separators, one more than there are separators; and its inverse
  \<open>strings.Join\<close>.
\<close>

fun split_on :: "char \<Rightarrow> string \<Rightarrow> string list" where
  "split_on c [] = [[]]"
| "split_on c (x # xs) =
     (if x = c then [] # split_on c xs
      else (case split_on c xs of [] \<Rightarrow> [[x]] | p # ps \<Rightarrow> (x # p) # ps))"

fun join_on :: "char \<Rightarrow> string list \<Rightarrow> string" where
  "join_on c [] = []"
| "join_on c [p] = p"
| "join_on c (p # ps) = p @ c # join_on c ps"

lemma in_int64_0 [simp]: "in_int64 0"
  by (simp add: in_int64_def int64_min_def int64_max_def)

lemma last_index_None_iff: "last_index c xs = None \<longleftrightarrow> c \<notin> set xs"
  by (induction xs) (auto split: option.splits)

lemma last_index_append_sep [go_simps]:
  "c \<notin> set ys \<Longrightarrow> last_index c (xs @ c # ys) = Some (length xs)"
proof (induction xs)
  case Nil
  then show ?case by (simp add: last_index_None_iff [THEN iffD2])
next
  case (Cons x xs)
  then show ?case by simp
qed

lemma last_index_Some:
  "last_index c xs = Some i \<Longrightarrow> i < length xs \<and> xs ! i = c \<and> c \<notin> set (drop (Suc i) xs)"
proof (induction xs arbitrary: i)
  case Nil
  then show ?case by simp
next
  case (Cons x xs)
  show ?case
  proof (cases "last_index c xs")
    case None
    with Cons.prems show ?thesis by (auto simp: last_index_None_iff split: if_splits)
  next
    case (Some j)
    with Cons.prems Cons.IH [of j] show ?thesis by auto
  qed
qed

lemma last_index_split:
  assumes "last_index c xs = Some i"
  shows "xs = take i xs @ c # drop (Suc i) xs \<and> c \<notin> set (drop (Suc i) xs)"
proof -
  from last_index_Some [OF assms]
  have i: "i < length xs" and c: "xs ! i = c" and nd: "c \<notin> set (drop (Suc i) xs)"
    by auto
  from i have "xs = take i xs @ xs ! i # drop (Suc i) xs"
    by (simp add: id_take_nth_drop)
  with c nd show ?thesis by simp
qed

section \<open>Lists and arithmetic shared by the encoders\<close>

text \<open>The position of an element of a list without duplicates, as a search finds it.\<close>

lemma takeWhile_neq_nth:
  "distinct xs \<Longrightarrow> n < length xs \<Longrightarrow> length (takeWhile (\<lambda>x. x \<noteq> xs ! n) xs) = n"
proof (induction xs arbitrary: n)
  case Nil
  then show ?case by simp
next
  case (Cons x xs)
  show ?case
  proof (cases n)
    case 0
    then show ?thesis by simp
  next
    case (Suc m)
    with Cons.prems have "xs ! m \<noteq> x" and "m < length xs"
      by (auto simp: nth_mem)
    with Cons.prems Cons.IH [of m] Suc show ?thesis by simp
  qed
qed

text \<open>A digit block of a positional number: quotient and remainder.\<close>

lemma block_div_mod:
  fixes q r m :: nat
  assumes "r < m"
  shows "(q * m + r) div m = q \<and> (q * m + r) mod m = r"
  using assms by simp

section \<open>Splitting at a separator\<close>

text \<open>
  A separator that does not occur in the fields splits a concatenation uniquely:
  at its first occurrence when the left field is free of it, at its last when
  the right field is.
\<close>

lemma trim_while_id:
  assumes "s \<noteq> []" and "\<not> P (hd s)" and "\<not> P (last s)"
  shows "rev (dropWhile P (rev (dropWhile P s))) = s"
proof -
  have "dropWhile P s = s" using assms(2) by (simp add: dropWhile_eq_self_iff)
  moreover have "dropWhile P (rev s) = rev s" using assms by (simp add: dropWhile_eq_self_iff hd_rev)
  ultimately show ?thesis by simp
qed

lemma split_on_notin: "c \<notin> set xs \<Longrightarrow> split_on c xs = [xs]"
  by (induction xs) auto

lemma split_on_append: "c \<notin> set xs \<Longrightarrow> split_on c (xs @ c # ys) = xs # split_on c ys"
  by (induction xs) (auto split: list.splits)

lemma split_on_join: "ps \<noteq> [] \<Longrightarrow> \<forall>p\<in>set ps. c \<notin> set p \<Longrightarrow> split_on c (join_on c ps) = ps"
  by (induction c ps rule: join_on.induct) (simp_all add: split_on_notin split_on_append)

lemma sep_split_first:
  "c \<notin> set xs \<Longrightarrow> c \<notin> set xs' \<Longrightarrow> xs @ c # ys = xs' @ c # ys' \<Longrightarrow> xs = xs' \<and> ys = ys'"
proof (induction xs arbitrary: xs')
  case Nil
  then show ?case by (cases xs') auto
next
  case (Cons x xs)
  then show ?case by (cases xs') auto
qed

lemma sep_split_last:
  assumes "c \<notin> set ys" "c \<notin> set ys'" "xs @ c # ys = xs' @ c # ys'"
  shows "xs = xs' \<and> ys = ys'"
proof -
  from assms have "Some (length xs) = Some (length xs')"
    by (metis last_index_append_sep)
  with assms(3) show ?thesis by (simp add: append_eq_append_conv)
qed

end
