(* ===== verification/Decimal.thy ===== *)
theory Decimal
  imports Prelude
begin

text \<open>
  Decimal text of int64 values as the token codec writes and reads it:
  \<open>fmt.Sprintf("%d", n)\<close> prints, \<open>strconv.ParseInt(s, 10, 64)\<close> parses.
  Both are Go library functions that the codec calls; they are modelled from
  their documented behaviour. The main fact is the roundtrip
  \<open>parse_int64 (show_int t) = Some t\<close> on the int64 range, and that printed
  numbers contain no colon (the codec's field separator).
\<close>

section \<open>Printing: fmt %d\<close>

definition digit_char :: "nat \<Rightarrow> char" where
  "digit_char d = char_of (48 + d)"

fun show_nat :: "nat \<Rightarrow> bytes" where
  "show_nat n =
     (if n < 10 then [digit_char n] else show_nat (n div 10) @ [digit_char (n mod 10)])"

declare show_nat.simps [simp del]

definition show_int :: "int \<Rightarrow> bytes" where
  "show_int i = (if i < 0 then CHR ''-'' # show_nat (nat (- i)) else show_nat (nat i))"

section \<open>Parsing: strconv.ParseInt(s, 10, 64)\<close>

definition is_dec_digit :: "char \<Rightarrow> bool" where
  "is_dec_digit c \<longleftrightarrow> (48::nat) \<le> of_char c \<and> of_char c \<le> (57::nat)"

definition digit_val :: "char \<Rightarrow> nat" where
  "digit_val c = of_char c - 48"

text \<open>\<open>strconv.ParseUint\<close> in base 10: an empty string or a non-digit is a syntax error.\<close>

definition parse_digits :: "bytes \<Rightarrow> nat option" where
  "parse_digits s =
     (if s = [] then None
      else if list_all is_dec_digit s then Some (foldl (\<lambda>acc c. 10 * acc + digit_val c) 0 s)
      else None)"

text \<open>
  \<open>strconv.ParseInt\<close>: an empty string is a syntax error; one leading sign is
  picked off; the rest is parsed as unsigned; a value outside the int64 range is
  a range error. Every error is \<open>None\<close>.
\<close>

definition parse_int64 :: "bytes \<Rightarrow> int option" where
  "parse_int64 s =
     (case s of
        [] \<Rightarrow> None
      | c # cs \<Rightarrow>
          (let (neg, ds) = (if c = CHR ''+'' then (False, cs)
                            else if c = CHR ''-'' then (True, cs) else (False, s))
           in case parse_digits ds of
                None \<Rightarrow> None
              | Some n \<Rightarrow> (let v = (if neg then - int n else int n)
                           in if in_int64 v then Some v else None)))"

section \<open>Properties of printing\<close>

lemma digit_char_props:
  "d < 10 \<Longrightarrow> is_dec_digit (digit_char d) \<and> digit_val (digit_char d) = d"
  by (simp add: digit_char_def is_dec_digit_def digit_val_def)

lemma show_nat_digits: "show_nat n \<noteq> [] \<and> list_all is_dec_digit (show_nat n)"
proof (induction n rule: show_nat.induct)
  case (1 n)
  then show ?case
    by (simp add: show_nat.simps [of n] digit_char_props)
qed

lemma foldl_digits_snoc:
  "foldl (\<lambda>acc c. 10 * acc + digit_val c) 0 (xs @ [x]) =
     10 * foldl (\<lambda>acc c. 10 * acc + digit_val c) 0 xs + digit_val x"
  by simp

lemma foldl_show_nat: "foldl (\<lambda>acc c. 10 * acc + digit_val c) 0 (show_nat n) = n"
proof (induction n rule: show_nat.induct)
  case (1 n)
  show ?case
  proof (cases "n < 10")
    case True
    then show ?thesis by (simp add: show_nat.simps [of n] digit_char_props)
  next
    case False
    with "1.IH" have "foldl (\<lambda>acc c. 10 * acc + digit_val c) 0 (show_nat (n div 10)) = n div 10"
      by simp
    with False show ?thesis
      by (simp add: show_nat.simps [of n] digit_char_props)
  qed
qed

lemma parse_digits_show_nat [go_simps]: "parse_digits (show_nat n) = Some n"
  using show_nat_digits [of n] by (simp add: parse_digits_def foldl_show_nat)

lemma digit_not_sign:
  "is_dec_digit c \<Longrightarrow> c \<noteq> CHR ''+'' \<and> c \<noteq> CHR ''-'' \<and> c \<noteq> CHR '':''"
  by (auto simp: is_dec_digit_def)

lemma show_nat_Cons: "\<exists>c cs. show_nat n = c # cs \<and> is_dec_digit c"
  using show_nat_digits [of n] by (cases "show_nat n") auto

lemma colon_notin_show_int [go_simps]: "CHR '':'' \<notin> set (show_int i)"
proof -
  have "\<forall>c \<in> set (show_nat m). c \<noteq> CHR '':''" for m
    using show_nat_digits [of m] digit_not_sign by (auto simp: list_all_iff)
  then show ?thesis by (auto simp: show_int_def)
qed

section \<open>The roundtrip\<close>

lemma parse_int64_show_int [go_simps]:
  assumes "in_int64 t"
  shows "parse_int64 (show_int t) = Some t"
proof (cases "t < 0")
  case True
  then have "show_int t = CHR ''-'' # show_nat (nat (- t))"
    by (simp add: show_int_def)
  with True assms show ?thesis
    by (simp add: parse_int64_def parse_digits_show_nat)
next
  case False
  obtain c cs where sn: "show_nat (nat t) = c # cs" and d: "is_dec_digit c"
    using show_nat_Cons by blast
  from False sn have si: "show_int t = c # cs"
    by (simp add: show_int_def)
  from sn have pd: "parse_digits (c # cs) = Some (nat t)"
    by (metis parse_digits_show_nat)
  from d have "c \<noteq> CHR ''+'' \<and> c \<noteq> CHR ''-''"
    by (simp add: digit_not_sign)
  with False assms si pd show ?thesis
    by (simp add: parse_int64_def)
qed

lemma parse_int64_range: "parse_int64 s = Some v \<Longrightarrow> in_int64 v"
  by (auto simp: parse_int64_def Let_def split: list.splits option.splits if_splits prod.splits)

section \<open>Length of the decimal text\<close>

lemma length_show_nat_le: "n < 10 ^ k \<Longrightarrow> 0 < k \<Longrightarrow> length (show_nat n) \<le> k"
proof (induction n arbitrary: k rule: show_nat.induct)
  case (1 n)
  show ?case
  proof (cases "n < 10")
    case True
    with 1 show ?thesis by (simp add: show_nat.simps [of n])
  next
    case False
    obtain k' where k: "k = Suc k'" using 1(3) by (cases k) auto
    with False 1(2) have "0 < k'" by (cases k') auto
    moreover from 1(2) k have "n div 10 < 10 ^ k'"
      by (simp add: less_mult_imp_div_less mult.commute)
    ultimately show ?thesis
      using 1(1) [OF False] False k by (simp add: show_nat.simps [of n])
  qed
qed

lemma length_show_int:
  assumes "in_int64 t"
  shows "1 \<le> length (show_int t) \<and> length (show_int t) \<le> 20"
proof -
  have ne: "\<And>n. 1 \<le> length (show_nat n)"
    using show_nat_digits by (simp add: Suc_le_eq)
  have b: "nat \<bar>t\<bar> < 10 ^ 19"
    using assms by (auto simp: in_int64_def int64_min_def int64_max_def)
  have "length (show_nat (nat \<bar>t\<bar>)) \<le> 19"
    using length_show_nat_le [OF b] by simp
  then show ?thesis
    using ne by (auto simp: show_int_def)
qed

end
