(* ===== verification/Base64.thy ===== *)
theory Base64
  imports Prelude
begin

text \<open>
  The URL-safe base64 encoding with padding (\<open>base64.URLEncoding\<close> of Go's
  \<open>encoding/base64\<close>), the outer layer of every token: \<open>EncodeToString\<close>
  turns each group of three bytes into four alphabet characters and pads the
  last group with \<open>=\<close>; \<open>DecodeString\<close> inverts it and fails on a
  character outside the alphabet, on misplaced padding and on a length that is
  not a multiple of four. The decoder, like Go's non-strict one, ignores the
  unused low bits of a padded group. The main fact is the roundtrip
  \<open>b64_decode (b64_encode s) = Some s\<close>.
\<close>

section \<open>The alphabet\<close>

definition b64_alphabet :: bytes where
  "b64_alphabet = ''ABCDEFGHIJKLMNOPQRSTUVWXYZabcdefghijklmnopqrstuvwxyz0123456789-_''"

definition b64_pad :: char where
  "b64_pad = CHR ''=''"

definition b64_enc_char :: "nat \<Rightarrow> char" where
  "b64_enc_char n = b64_alphabet ! n"

text \<open>Go's \<open>decodeMap\<close>: the position of a character in the alphabet, if any.\<close>

definition b64_dec_char :: "char \<Rightarrow> nat option" where
  "b64_dec_char c =
     (let i = length (takeWhile (\<lambda>x. x \<noteq> c) b64_alphabet) in if i < 64 then Some i else None)"

section \<open>Encoding\<close>

text \<open>\<open>val := uint(src[0])<<16 | uint(src[1])<<8 | uint(src[2])\<close>, then four 6-bit slices.\<close>

definition b64_quantum :: "char \<Rightarrow> char \<Rightarrow> char \<Rightarrow> bytes" where
  "b64_quantum a b c =
     (let v = of_char a * 65536 + of_char b * 256 + of_char c :: nat
      in [b64_enc_char (v div 262144 mod 64), b64_enc_char (v div 4096 mod 64),
          b64_enc_char (v div 64 mod 64), b64_enc_char (v mod 64)])"

fun b64_encode :: "bytes \<Rightarrow> bytes" where
  "b64_encode (a # b # c # rest) = b64_quantum a b c @ b64_encode rest"
| "b64_encode [a, b] = take 3 (b64_quantum a b (char_of (0::nat))) @ [b64_pad]"
| "b64_encode [a] = take 2 (b64_quantum a (char_of (0::nat)) (char_of (0::nat))) @ [b64_pad, b64_pad]"
| "b64_encode [] = []"

section \<open>Decoding\<close>

text \<open>
  \<open>dst[0] = dbuf[0]<<2 | dbuf[1]>>4\<close>, \<open>dst[1] = dbuf[1]<<4 | dbuf[2]>>2\<close>,
  \<open>dst[2] = dbuf[2]<<6 | dbuf[3]\<close> on bytes; \<open>char_of\<close> keeps the low eight bits.
\<close>

fun b64_decode :: "bytes \<Rightarrow> bytes option" where
  "b64_decode [] = Some []"
| "b64_decode (w # x # y # z # rest) =
     (case (b64_dec_char w, b64_dec_char x) of
        (Some v0, Some v1) \<Rightarrow>
          (if rest = [] \<and> y = b64_pad \<and> z = b64_pad
           then Some [char_of (v0 * 4 + v1 div 16)]
           else if rest = [] \<and> z = b64_pad
           then (case b64_dec_char y of
                   None \<Rightarrow> None
                 | Some v2 \<Rightarrow> Some [char_of (v0 * 4 + v1 div 16), char_of (v1 * 16 + v2 div 4)])
           else (case (b64_dec_char y, b64_dec_char z) of
                   (Some v2, Some v3) \<Rightarrow>
                     map_option
                       (\<lambda>r. [char_of (v0 * 4 + v1 div 16), char_of (v1 * 16 + v2 div 4),
                             char_of (v2 * 64 + v3)] @ r)
                       (b64_decode rest)
                 | _ \<Rightarrow> None))
      | _ \<Rightarrow> None)"
| "b64_decode _ = None"

section \<open>The alphabet is a bijection onto 0..63\<close>

lemma b64_alphabet_props: "distinct b64_alphabet \<and> length b64_alphabet = 64"
  by (simp add: b64_alphabet_def)

lemma b64_dec_enc_char [go_simps]: "n < 64 \<Longrightarrow> b64_dec_char (b64_enc_char n) = Some n"
  using takeWhile_neq_nth [of b64_alphabet n] b64_alphabet_props
  by (simp add: b64_dec_char_def b64_enc_char_def)

lemma b64_dec_pad [go_simps]: "b64_dec_char b64_pad = None"
  by (simp add: b64_dec_char_def b64_pad_def b64_alphabet_def)

lemma b64_enc_char_not_pad [go_simps]: "n < 64 \<Longrightarrow> b64_enc_char n \<noteq> b64_pad"
  using b64_dec_enc_char b64_dec_pad by fastforce

section \<open>The roundtrip\<close>


lemma digits64:
  fixes d0 d1 d2 d3 :: nat
  assumes "d1 < 64" "d2 < 64" "d3 < 64"
  defines "v \<equiv> ((d0 * 64 + d1) * 64 + d2) * 64 + d3"
  shows "v div 262144 = d0 \<and> v div 4096 mod 64 = d1 \<and> v div 64 mod 64 = d2 \<and> v mod 64 = d3"
proof -
  have a: "v div 64 = (d0 * 64 + d1) * 64 + d2 \<and> v mod 64 = d3"
    unfolding v_def using assms(3) by (rule block_div_mod)
  have b: "v div 64 div 64 = d0 * 64 + d1 \<and> v div 64 mod 64 = d2"
    unfolding a [THEN conjunct1] using assms(2) by (rule block_div_mod)
  have c: "v div 64 div 64 div 64 = d0 \<and> v div 64 div 64 mod 64 = d1"
    unfolding b [THEN conjunct1] using assms(1) by (rule block_div_mod)
  have "v div 4096 = v div 64 div 64" "v div 262144 = v div 64 div 64 div 64"
    by (simp_all add: div_mult2_eq [symmetric])
  with a b c show ?thesis by simp
qed

lemma bytes_as_digits64:
  fixes A B C :: nat
  shows "A * 65536 + B * 256 + C =
    ((A div 4 * 64 + (A mod 4 * 16 + B div 16)) * 64 + (B mod 16 * 4 + C div 64)) * 64 + C mod 64"
proof -
  have "((A div 4 * 64 + (A mod 4 * 16 + B div 16)) * 64 + (B mod 16 * 4 + C div 64)) * 64 + C mod 64
      = A div 4 * 262144 + A mod 4 * 65536 + B div 16 * 4096 + B mod 16 * 256 + C div 64 * 64 + C mod 64"
    by (simp add: algebra_simps)
  moreover have "A = A div 4 * 4 + A mod 4" "B = B div 16 * 16 + B mod 16" "C = C div 64 * 64 + C mod 64"
    by simp_all
  ultimately show ?thesis by linarith
qed

text \<open>Go's shift-and-mask formula slices the three bytes into four 6-bit digits.\<close>

lemma b64_quantum_slices:
  fixes a b c :: char
  defines "A \<equiv> of_char a :: nat" and "B \<equiv> of_char b :: nat" and "C \<equiv> of_char c :: nat"
  shows "b64_quantum a b c =
    [b64_enc_char (A div 4), b64_enc_char (A mod 4 * 16 + B div 16),
     b64_enc_char (B mod 16 * 4 + C div 64), b64_enc_char (C mod 64)]"
proof -
  have "A div 4 < 64" "A mod 4 * 16 + B div 16 < 64" "B mod 16 * 4 + C div 64 < 64" "C mod 64 < 64"
    unfolding A_def B_def C_def using nat_of_char_less_256 [of a] nat_of_char_less_256 [of b] nat_of_char_less_256 [of c]
    by linarith+
  then have "let v = A * 65536 + B * 256 + C in
      v div 262144 = A div 4 \<and> v div 4096 mod 64 = A mod 4 * 16 + B div 16 \<and>
      v div 64 mod 64 = B mod 16 * 4 + C div 64 \<and> v mod 64 = C mod 64"
    unfolding Let_def bytes_as_digits64 [of A B C] by (intro digits64) simp_all
  with \<open>A div 4 < 64\<close> show ?thesis
    by (simp add: b64_quantum_def A_def B_def C_def Let_def)
qed

text \<open>Reassembling the digits gives the bytes back.\<close>

lemma b64_regroup:
  fixes A B C :: nat
  assumes "A < 256" "B < 256" "C < 256"
  shows "(char_of (A div 4 * 4 + (A mod 4 * 16 + B div 16) div 16) :: char) = char_of A"
    and "(char_of ((A mod 4 * 16 + B div 16) * 16 + (B mod 16 * 4 + C div 64) div 4) :: char) = char_of B"
    and "(char_of ((B mod 16 * 4 + C div 64) * 64 + C mod 64) :: char) = char_of C"
proof -
  have "B div 16 < 16" "C div 64 < 4" using assms by linarith+
  then have d1: "(A mod 4 * 16 + B div 16) div 16 = A mod 4"
    and d2: "(B mod 16 * 4 + C div 64) div 4 = B mod 16"
    using block_div_mod by blast+
  show "(char_of (A div 4 * 4 + (A mod 4 * 16 + B div 16) div 16) :: char) = char_of A"
    by (simp add: d1)
  have "(A mod 4 * 16 + B div 16) * 16 + B mod 16 = A mod 4 * 256 + B"
  proof -
    have "B = B div 16 * 16 + B mod 16" by simp
    then show ?thesis by (simp add: algebra_simps)
  qed
  then show "(char_of ((A mod 4 * 16 + B div 16) * 16 + (B mod 16 * 4 + C div 64) div 4) :: char) = char_of B"
    using assms by (simp add: d2)
  have "(B mod 16 * 4 + C div 64) * 64 + C mod 64 = B mod 16 * 256 + C"
  proof -
    have "C = C div 64 * 64 + C mod 64" by simp
    then show ?thesis by (simp add: algebra_simps)
  qed
  then show "(char_of ((B mod 16 * 4 + C div 64) * 64 + C mod 64) :: char) = char_of C"
    using assms by simp
qed

lemma b64_digit_bounds:
  fixes a b c :: char
  shows "of_char a div 4 < (64::nat)" "of_char a mod 4 * 16 + of_char b div 16 < (64::nat)"
    "of_char b mod 16 * 4 + of_char c div 64 < (64::nat)" "of_char c mod 64 < (64::nat)"
  using nat_of_char_less_256 [of a] nat_of_char_less_256 [of b] nat_of_char_less_256 [of c]
  by linarith+

text \<open>The decoded digits of a quantum, named so that the simplifier keeps them whole.\<close>

lemma b64_quantum_digits:
  obtains d0 d1 d2 d3 where
    "b64_quantum a b c = [b64_enc_char d0, b64_enc_char d1, b64_enc_char d2, b64_enc_char d3]"
    "d0 < 64" "d1 < 64" "d2 < 64" "d3 < 64"
    "char_of (d0 * 4 + d1 div 16) = a" "char_of (d1 * 16 + d2 div 4) = b" "char_of (d2 * 64 + d3) = c"
proof
  show "b64_quantum a b c =
    [b64_enc_char (of_char a div 4), b64_enc_char (of_char a mod 4 * 16 + of_char b div 16),
     b64_enc_char (of_char b mod 16 * 4 + of_char c div 64), b64_enc_char (of_char c mod 64)]"
    by (rule b64_quantum_slices)
  show "of_char a div 4 < (64::nat)" "of_char a mod 4 * 16 + of_char b div 16 < (64::nat)"
    "of_char b mod 16 * 4 + of_char c div 64 < (64::nat)" "of_char c mod 64 < (64::nat)"
    by (rule b64_digit_bounds)+
  show "char_of ((of_char a::nat) div 4 * 4 + (of_char a mod 4 * 16 + of_char b div 16) div 16) = a"
    using b64_regroup(1) [of "of_char a" "of_char b" "of_char c"]
    by simp
  show "char_of (((of_char a::nat) mod 4 * 16 + of_char b div 16) * 16 + (of_char b mod 16 * 4 + of_char c div 64) div 4) = b"
    using b64_regroup(2) [of "of_char a" "of_char b" "of_char c"]
    by simp
  show "char_of (((of_char b::nat) mod 16 * 4 + of_char c div 64) * 64 + of_char c mod 64) = c"
    using b64_regroup(3) [of "of_char a" "of_char b" "of_char c"]
    by simp
qed

lemma b64_decode_quantum:
  "b64_decode (b64_quantum a b c @ r) = map_option (\<lambda>t. a # b # c # t) (b64_decode r)"
proof -
  obtain d0 d1 d2 d3 where q: "b64_quantum a b c = [b64_enc_char d0, b64_enc_char d1, b64_enc_char d2, b64_enc_char d3]"
    and d: "d0 < 64" "d1 < 64" "d2 < 64" "d3 < 64"
    and e: "char_of (d0 * 4 + d1 div 16) = a" "char_of (d1 * 16 + d2 div 4) = b" "char_of (d2 * 64 + d3) = c"
    by (rule b64_quantum_digits)
  show ?thesis
    by (simp only: q append.simps b64_decode.simps b64_dec_enc_char d b64_enc_char_not_pad
        option.case prod.case simp_thms if_False e) (cases "b64_decode r"; simp)
qed

lemma b64_decode_pair:
  "b64_decode (take 3 (b64_quantum a b (char_of (0::nat))) @ [b64_pad]) = Some [a, b]"
proof -
  obtain d0 d1 d2 d3 where q: "b64_quantum a b (char_of (0::nat)) =
      [b64_enc_char d0, b64_enc_char d1, b64_enc_char d2, b64_enc_char d3]"
    and d: "d0 < 64" "d1 < 64" "d2 < 64"
    and e: "char_of (d0 * 4 + d1 div 16) = a" "char_of (d1 * 16 + d2 div 4) = b"
    by (rule b64_quantum_digits)
  show ?thesis
    using d e by (simp add: q b64_dec_enc_char b64_enc_char_not_pad)
qed

lemma b64_decode_single:
  "b64_decode (take 2 (b64_quantum a (char_of (0::nat)) (char_of (0::nat))) @ [b64_pad, b64_pad]) = Some [a]"
proof -
  obtain d0 d1 d2 d3 where q: "b64_quantum a (char_of (0::nat)) (char_of (0::nat)) =
      [b64_enc_char d0, b64_enc_char d1, b64_enc_char d2, b64_enc_char d3]"
    and d: "d0 < 64" "d1 < 64"
    and e: "char_of (d0 * 4 + d1 div 16) = a"
    by (rule b64_quantum_digits)
  show ?thesis
    using d e by (simp add: q b64_dec_enc_char)
qed

lemma b64_decode_encode [go_simps]: "b64_decode (b64_encode s) = Some s"
proof (induction s rule: b64_encode.induct)
  case (1 a b c rest)
  then show ?case by (simp add: b64_decode_quantum)
next
  case (2 a b)
  then show ?case by (simp add: b64_decode_pair)
next
  case (3 a)
  then show ?case by (simp add: b64_decode_single)
next
  case 4
  then show ?case by simp
qed

lemma b64_encode_inj: "b64_encode x = b64_encode y \<Longrightarrow> x = y"
  by (metis b64_decode_encode option.inject)

lemma b64_encode_Nil_iff: "b64_encode x = [] \<longleftrightarrow> x = []"
  by (metis b64_decode.simps(1) b64_decode_encode b64_encode.simps(4) option.inject)

section \<open>Length and alphabet of the encoding\<close>

lemma length_b64_quantum [simp]: "length (b64_quantum a b c) = 4"
  by (simp add: b64_quantum_def Let_def)

lemma length_b64_encode: "length (b64_encode xs) = 4 * ((length xs + 2) div 3)"
  by (induction xs rule: b64_encode.induct) (simp_all, presburger)

lemma set_b64_quantum: "set (b64_quantum a b c) \<subseteq> set b64_alphabet"
  using b64_alphabet_props by (auto simp: b64_quantum_def b64_enc_char_def Let_def)

lemma b64_pad_notin_alphabet: "b64_pad \<notin> set b64_alphabet"
  by (simp add: b64_pad_def b64_alphabet_def)

lemma b64_encode_shape:
  "\<exists>e p. b64_encode xs = e @ replicate p b64_pad \<and> set e \<subseteq> set b64_alphabet \<and> p \<le> 2"
proof (induction xs rule: b64_encode.induct)
  case (1 a b c rest)
  then obtain e p where "b64_encode rest = e @ replicate p b64_pad" "set e \<subseteq> set b64_alphabet" "p \<le> 2"
    by blast
  then show ?case
    using set_b64_quantum [of a b c] by (intro exI [of _ "b64_quantum a b c @ e"] exI [of _ p]) auto
next
  case (2 a b)
  show ?case
    using set_b64_quantum [of a b "char_of (0::nat)"] set_take_subset [of 3 "b64_quantum a b (char_of (0::nat))"]
    by (intro exI [of _ "take 3 (b64_quantum a b (char_of (0::nat)))"] exI [of _ 1]) auto
next
  case (3 a)
  show ?case
    using set_b64_quantum [of a "char_of (0::nat)" "char_of (0::nat)"]
      set_take_subset [of 2 "b64_quantum a (char_of (0::nat)) (char_of (0::nat))"]
    by (intro exI [of _ "take 2 (b64_quantum a (char_of (0::nat)) (char_of (0::nat)))"] exI [of _ 2])
      (auto simp: numeral_2_eq_2)
qed simp

end
