(* ===== verification/TokenCodec.thy ===== *)
theory TokenCodec
  imports Decimal Base64
begin

text \<open>
  The token codec that \<open>src/csrf.go\<close> imports as \<open>xsrftoken\<close>
  (\<open>xsrftoken.Generate\<close> at line 140, \<open>xsrftoken.Valid\<close> at line 98). Its code
  is not part of the repository; it is modelled from the contract of spec 4.1
  and the package's documented token layout:
  \<open>token = base64url(mac(secret, clean(user) ":" clean(action) ":" t) ":" t)\<close>,
  where \<open>t\<close> is the issue time in nanoseconds printed in decimal and \<open>clean\<close>
  replaces every colon by an underscore. The keyed hash (HMAC-SHA1 in the
  package) is a parameter \<open>mac\<close> of type \<open>mac_fn\<close>: every lemma holds for any
  keyed function, and the binding lemmas assume only that \<open>mac key\<close> is
  injective, the idealisation of a collision-free MAC. The current time is an
  explicit argument \<open>now\<close> (Go's \<open>time.Now()\<close>).
\<close>

type_synonym mac_fn = "bytes \<Rightarrow> bytes \<Rightarrow> bytes"

section \<open>Definitions\<close>

text \<open>\<open>Timeout = 24 * time.Hour\<close>, in nanoseconds.\<close>

definition xsrf_timeout :: nanos where
  "xsrf_timeout = 24 * 60 * 60 * 1000000000"

text \<open>\<open>strings.Replace(s, ":", "_", -1)\<close>.\<close>

definition clean :: "bytes \<Rightarrow> bytes" where
  "clean s = map (\<lambda>c. if c = CHR '':'' then CHR ''_'' else c) s"

definition generate_at_time :: "mac_fn \<Rightarrow> bytes \<Rightarrow> bytes \<Rightarrow> bytes \<Rightarrow> nanos \<Rightarrow> bytes" where
  "generate_at_time mac key user action t =
     (let h = mac key (clean user @ CHR '':'' # clean action @ CHR '':'' # show_int t)
      in b64_encode (h @ CHR '':'' # show_int t))"

text \<open>
  \<open>time.Time.Sub\<close>: the difference as a \<open>time.Duration\<close> (an int64 of
  nanoseconds), saturated at the int64 bounds when it does not fit.
\<close>

definition duration_sub :: "nanos \<Rightarrow> nanos \<Rightarrow> nanos" where
  "duration_sub t u = max int64_min (min int64_max (t - u))"

text \<open>
  \<open>validAtTime\<close>: decode, split at the last colon, parse the issue time, reject
  an expired token, regenerate and compare (\<open>subtle.ConstantTimeCompare\<close> is
  equality of the byte strings). Every failure is \<open>False\<close>; nothing raises.
\<close>

definition valid_at_time :: "mac_fn \<Rightarrow> bytes \<Rightarrow> bytes \<Rightarrow> bytes \<Rightarrow> bytes \<Rightarrow> nanos \<Rightarrow> bool" where
  "valid_at_time mac token key user action now =
     (case b64_decode token of
        None \<Rightarrow> False
      | Some data \<Rightarrow>
          (case last_index CHR '':'' data of
             None \<Rightarrow> False
           | Some sep \<Rightarrow>
               (case parse_int64 (drop (Suc sep) data) of
                  None \<Rightarrow> False
                | Some issued \<Rightarrow>
                    (if xsrf_timeout \<le> duration_sub now issued then False
                     else token = generate_at_time mac key user action issued))))"

section \<open>Decoding a generated token\<close>


lemma duration_sub_timeout:
  "xsrf_timeout \<le> duration_sub now t \<longleftrightarrow> xsrf_timeout \<le> now - t"
  by (auto simp: duration_sub_def xsrf_timeout_def int64_min_def int64_max_def)

lemma colon_notin_clean: "CHR '':'' \<notin> set (clean s)"
  by (auto simp: clean_def)

lemma valid_generate_iff:
  assumes "in_int64 t"
  shows "valid_at_time mac (generate_at_time mac k u a t) k u a now \<longleftrightarrow> now - t < xsrf_timeout"
proof -
  obtain h where g: "generate_at_time mac k u a t = b64_encode (h @ CHR '':'' # show_int t)"
    by (simp add: generate_at_time_def)
  have "last_index CHR '':'' (h @ CHR '':'' # show_int t) = Some (length h)"
    by (simp add: last_index_append_sep colon_notin_show_int)
  with assms show ?thesis
    by (simp add: valid_at_time_def g b64_decode_encode parse_int64_show_int duration_sub_timeout not_le)
qed

lemma valid_at_time_derived:
  assumes "valid_at_time mac c k u a now"
  shows "\<exists>t. in_int64 t \<and> now - t < xsrf_timeout \<and> c = generate_at_time mac k u a t"
proof -
  obtain data where d: "b64_decode c = Some data"
    using assms by (cases "b64_decode c") (simp_all add: valid_at_time_def)
  obtain sep where s: "last_index CHR '':'' data = Some sep"
    using assms d by (cases "last_index CHR '':'' data") (simp_all add: valid_at_time_def)
  obtain t where p: "parse_int64 (drop (Suc sep) data) = Some t"
    using assms d s by (cases "parse_int64 (drop (Suc sep) data)") (simp_all add: valid_at_time_def)
  from assms d s p have "\<not> xsrf_timeout \<le> duration_sub now t \<and> c = generate_at_time mac k u a t"
    by (simp add: valid_at_time_def split: if_splits)
  moreover from p have "in_int64 t" by (rule parse_int64_range)
  ultimately show ?thesis
    by (auto simp: duration_sub_timeout)
qed

lemma generate_at_time_eq:
  assumes "inj (mac k)"
    and "generate_at_time mac k u1 a1 t1 = generate_at_time mac k u2 a2 t2"
  shows "clean u1 = clean u2 \<and> clean a1 = clean a2 \<and> show_int t1 = show_int t2"
proof -
  let ?m1 = "clean u1 @ CHR '':'' # clean a1 @ CHR '':'' # show_int t1"
  let ?m2 = "clean u2 @ CHR '':'' # clean a2 @ CHR '':'' # show_int t2"
  from assms(2) have "b64_encode (mac k ?m1 @ CHR '':'' # show_int t1) =
      b64_encode (mac k ?m2 @ CHR '':'' # show_int t2)"
    by (simp add: generate_at_time_def)
  then have "mac k ?m1 @ CHR '':'' # show_int t1 = mac k ?m2 @ CHR '':'' # show_int t2"
    by (rule b64_encode_inj)
  then have mm: "mac k ?m1 = mac k ?m2" and st: "show_int t1 = show_int t2"
    using sep_split_last [OF colon_notin_show_int colon_notin_show_int] by blast+
  from assms(1) mm have "?m1 = ?m2"
    by (rule injD)
  then have "clean u1 = clean u2 \<and> clean a1 @ CHR '':'' # show_int t1 = clean a2 @ CHR '':'' # show_int t2"
    by (intro sep_split_first [OF colon_notin_clean colon_notin_clean]) simp
  then have "clean u1 = clean u2 \<and> clean a1 = clean a2"
    using sep_split_first [OF colon_notin_clean colon_notin_clean] by blast
  with st show ?thesis by simp
qed

lemma generate_at_time_clean_user:
  "clean u1 = clean u2 \<Longrightarrow> generate_at_time mac k u1 a t = generate_at_time mac k u2 a t"
  by (simp add: generate_at_time_def)

lemma valid_at_time_clean_user:
  assumes "clean u1 = clean u2"
  shows "valid_at_time mac c k u1 a now = valid_at_time mac c k u2 a now"
proof -
  from assms have g: "\<And>t. generate_at_time mac k u1 a t = generate_at_time mac k u2 a t"
    by (rule generate_at_time_clean_user)
  show ?thesis by (simp only: valid_at_time_def g)
qed

section \<open>Properties of the codec\<close>

text \<open>
  What verification accepts: exactly the tokens generated for the same secret,
  subject and action at an int64 time less than 24 hours before \<open>now\<close>.
\<close>

lemma valid_at_time_iff:
  "valid_at_time mac token key user action now \<longleftrightarrow>
     (\<exists>t. in_int64 t \<and> now - t < xsrf_timeout \<and> token = generate_at_time mac key user action t)"
proof
  assume "valid_at_time mac token key user action now"
  then show "\<exists>t. in_int64 t \<and> now - t < xsrf_timeout \<and> token = generate_at_time mac key user action t"
    by (rule valid_at_time_derived)
next
  assume "\<exists>t. in_int64 t \<and> now - t < xsrf_timeout \<and> token = generate_at_time mac key user action t"
  then show "valid_at_time mac token key user action now"
    using valid_generate_iff by blast
qed

text \<open>With an injective keyed hash, a token binds the cleaned subject and action.\<close>

lemma valid_at_time_binding:
  assumes "inj (mac key)"
    and "valid_at_time mac (generate_at_time mac key u1 a1 t) key u2 a2 now"
  shows "clean u1 = clean u2 \<and> clean a1 = clean a2"
proof -
  from assms(2) obtain t' where "generate_at_time mac key u1 a1 t = generate_at_time mac key u2 a2 t'"
    by (auto dest: valid_at_time_derived)
  with assms(1) show ?thesis
    by (blast dest: generate_at_time_eq)
qed

lemma clean_colon_underscore: "clean ''a:b'' = clean ''a_b''"
  by (simp add: clean_def)

lemma duration_sub_in_int64: "in_int64 (duration_sub t u)"
  by (auto simp: in_int64_def duration_sub_def int64_min_def int64_max_def)

lemma generate_at_time_not_Nil: "generate_at_time mac key user action t \<noteq> []"
  by (simp add: generate_at_time_def b64_encode_Nil_iff)

end
