(* ===== verification/Http.thy ===== *)
theory Http
  imports Prelude
begin

text \<open>
  The HTTP and session collaborators of spec 6, as \<open>src/csrf.go\<close> uses them
  through Go's \<open>net/http\<close> and martini's \<open>sessions\<close>: a request (method,
  header lines, the parsed \<open>Cookie\<close> header, the parsed form, the host), a
  response writer (header lines, \<open>Set-Cookie\<close> cookies, status, body) passed
  and returned explicitly, and the session store as a partial map from keys to
  dynamically typed values. Header keys are canonicalised as
  \<open>net/textproto\<close> does: the code's \<open>X-CSRFToken\<close> is the key
  \<open>X-Csrftoken\<close>, whatever spelling a client sends. The form is what
  \<open>url.ParseQuery\<close> reads from an urlencoded body, with the browser's
  encoder and their round trip.
\<close>

section \<open>Requests\<close>

record request =
  req_method :: bytes
  req_header :: "(bytes \<times> bytes) list"
  req_cookies :: "(bytes \<times> bytes) list"
  req_form :: "(bytes \<times> bytes) list"
  req_host :: bytes

section \<open>Header names\<close>

text \<open>
  \<open>textproto.CanonicalMIMEHeaderKey\<close>: a key made of token bytes gets its first
  letter and every letter after a dash in upper case and all other letters in
  lower case; a key with any other byte is returned unchanged. (The quick
  check of the Go function returns the key itself when it is already
  canonical, which is what the rewrite gives too.)
\<close>

fun canon_scan :: "bool \<Rightarrow> bytes \<Rightarrow> bytes" where
  "canon_scan up [] = []"
| "canon_scan up (c # cs) =
     (let c' = (if up then ascii_upper c else ascii_lower c) in c' # canon_scan (c' = CHR ''-'') cs)"

definition canonical_key :: "bytes \<Rightarrow> bytes" where
  "canonical_key k = (if list_all is_token_char k then canon_scan True k else k)"

text \<open>
  A header is Go's \<open>map[string][]string\<close> as the list of its lines in order,
  keys canonical. \<open>Header.Get\<close>: the first value under the canonical form of
  the key, the empty string when there is none.
\<close>

definition header_get :: "(bytes \<times> bytes) list \<Rightarrow> bytes \<Rightarrow> bytes" where
  "header_get h k = (case map_of h (canonical_key k) of None \<Rightarrow> [] | Some v \<Rightarrow> v)"

text \<open>
  \<open>textproto.Reader.ReadMIMEHeader\<close>, as the server reads a request: each
  line (continuation lines aside) is trimmed of spaces and tabs, cut at its
  first colon; the name must be a non-empty token and is canonicalised, the
  value must hold no control byte but tab, and loses its leading blanks. Any
  malformed line fails the whole header (\<open>ProtocolError\<close>).
\<close>

definition is_ows :: "char \<Rightarrow> bool" where
  "is_ows c \<longleftrightarrow> c = CHR '' '' \<or> c = CHR 0x09"

definition trim_ows :: "bytes \<Rightarrow> bytes" where
  "trim_ows s = rev (dropWhile is_ows (rev (dropWhile is_ows s)))"

definition valid_header_value_byte :: "char \<Rightarrow> bool" where
  "valid_header_value_byte c \<longleftrightarrow> c = CHR 0x09 \<or> (32 \<le> (of_char c :: nat) \<and> (of_char c :: nat) \<noteq> 127)"

definition read_header_line :: "bytes \<Rightarrow> (bytes \<times> bytes) option" where
  "read_header_line l0 =
     (let l = trim_ows l0; k = takeWhile (\<lambda>c. c \<noteq> CHR '':'') l; v = drop (Suc (length k)) l
      in if CHR '':'' \<notin> set l then None
         else if k = [] then None
         else if \<not> list_all is_token_char k then None
         else if \<not> list_all valid_header_value_byte v then None
         else Some (canon_scan True k, dropWhile is_ows v))"

definition read_mime_header :: "bytes list \<Rightarrow> (bytes \<times> bytes) list option" where
  "read_mime_header ls = those (map read_header_line ls)"

text \<open>\<open>Request.Cookie\<close>: the first cookie of that name; \<open>ErrNoCookie\<close> is \<open>None\<close>.\<close>

definition request_cookie :: "request \<Rightarrow> bytes \<Rightarrow> bytes option" where
  "request_cookie r name = map_of (req_cookies r) name"

text \<open>\<open>Request.FormValue\<close>: the first value of the parsed form, or the empty string.\<close>

definition form_value :: "request \<Rightarrow> bytes \<Rightarrow> bytes" where
  "form_value r k = (case map_of (req_form r) k of None \<Rightarrow> [] | Some v \<Rightarrow> v)"

text \<open>
  The form behind \<open>FormValue\<close>: \<open>ParseForm\<close> parses a
  \<open>application/x-www-form-urlencoded\<close> body with \<open>url.ParseQuery\<close>. The
  body is split at \<open>&\<close>; a part holding \<open>;\<close> or empty is skipped; the
  rest is cut at its first \<open>=\<close> and both sides are \<open>QueryUnescape\<close>d
  (\<open>+\<close> is a space, \<open>%XX\<close> a byte); a part whose escape is malformed is
  skipped. \<open>req_form\<close> is the list of pairs in order, so \<open>form_value\<close>
  returns the first value of a key as \<open>url.Values.Get\<close> does.
\<close>

definition hex_val :: "char \<Rightarrow> nat option" where
  "hex_val c =
     (let n = (of_char c :: nat)
      in if 48 \<le> n \<and> n \<le> 57 then Some (n - 48)
         else if 97 \<le> n \<and> n \<le> 102 then Some (n - 87)
         else if 65 \<le> n \<and> n \<le> 70 then Some (n - 55)
         else None)"

fun query_unescape :: "bytes \<Rightarrow> bytes option" where
  "query_unescape [] = Some []"
| "query_unescape (c # cs) =
     (if c = CHR ''%'' then
        (case cs of
           a # b # rest \<Rightarrow>
             (case (hex_val a, hex_val b) of
                (Some x, Some y) \<Rightarrow> map_option (Cons (char_of (16 * x + y))) (query_unescape rest)
              | _ \<Rightarrow> None)
         | _ \<Rightarrow> None)
      else map_option (Cons (if c = CHR ''+'' then CHR '' '' else c)) (query_unescape cs))"

definition parse_query_part :: "bytes \<Rightarrow> (bytes \<times> bytes) list" where
  "parse_query_part p =
     (let k = takeWhile (\<lambda>c. c \<noteq> CHR ''='') p; v = drop (Suc (length k)) p
      in if CHR '';'' \<in> set p then []
         else if p = [] then []
         else (case query_unescape k of
                 None \<Rightarrow> []
               | Some k' \<Rightarrow> (case query_unescape v of None \<Rightarrow> [] | Some v' \<Rightarrow> [(k', v')])))"

definition parse_query :: "bytes \<Rightarrow> (bytes \<times> bytes) list" where
  "parse_query q = concat (map parse_query_part (split_on CHR ''&'' q))"

text \<open>
  The body a browser submits for a form (the HTML
  \<open>application/x-www-form-urlencoded\<close> serializer): letters, digits and
  \<open>*-._\<close> as they are, a space as \<open>+\<close>, every other byte as \<open>%XX\<close> in upper
  case hexadecimal; name and value joined by \<open>=\<close>, pairs by \<open>&\<close>.
\<close>

definition form_keep :: "char \<Rightarrow> bool" where
  "form_keep c \<longleftrightarrow>
     (let n = (of_char c :: nat)
      in (48 \<le> n \<and> n \<le> 57) \<or> (65 \<le> n \<and> n \<le> 90) \<or> (97 \<le> n \<and> n \<le> 122) \<or> c \<in> set ''*-._'')"

definition hex_digit :: "nat \<Rightarrow> char" where
  "hex_digit n = ''0123456789ABCDEF'' ! n"

definition form_enc_byte :: "char \<Rightarrow> bytes" where
  "form_enc_byte c =
     (if form_keep c then [c]
      else if c = CHR '' '' then ''+''
      else [CHR ''%'', hex_digit (of_char c div 16), hex_digit (of_char c mod 16)])"

definition form_enc :: "bytes \<Rightarrow> bytes" where
  "form_enc s = concat (map form_enc_byte s)"

definition form_encode :: "(bytes \<times> bytes) list \<Rightarrow> bytes" where
  "form_encode fs = join_on CHR ''&'' (map (\<lambda>(k, v). form_enc k @ CHR ''='' # form_enc v) fs)"

section \<open>Sessions\<close>

text \<open>
  \<open>sessions.Session.Get\<close> returns an \<open>interface{}\<close>: absent (\<open>nil\<close>), a Go
  string, or a value of another dynamic type.
\<close>

datatype session_value = SessString bytes | SessOther

type_synonym session = "bytes \<Rightarrow> session_value option"

section \<open>Responses\<close>

record cookie =
  cookie_name :: bytes
  cookie_value :: bytes
  cookie_path :: bytes
  cookie_domain :: bytes
  cookie_expires :: nanos
  cookie_max_age :: int
  cookie_secure :: bool
  cookie_http_only :: bool
  cookie_raw :: bytes
  cookie_unparsed :: "bytes list"

record response =
  resp_header :: "(bytes \<times> bytes) list"
  resp_cookies :: "cookie list"
  resp_status :: "nat option"
  resp_body :: bytes

definition empty_response :: response where
  "empty_response = \<lparr>resp_header = [], resp_cookies = [], resp_status = None, resp_body = []\<rparr>"

text \<open>\<open>w.Header().Add(k, v)\<close> appends a header line under the canonical key.\<close>

definition header_add :: "response \<Rightarrow> bytes \<Rightarrow> bytes \<Rightarrow> response" where
  "header_add w k v = w\<lparr>resp_header := resp_header w @ [(canonical_key k, v)]\<rparr>"

text \<open>\<open>http.SetCookie(w, c)\<close> appends a \<open>Set-Cookie\<close> line for \<open>c\<close>.\<close>

definition set_cookie :: "response \<Rightarrow> cookie \<Rightarrow> response" where
  "set_cookie w c = w\<lparr>resp_cookies := resp_cookies w @ [c]\<rparr>"

text \<open>
  \<open>http.Error(w, msg, code)\<close>: set the content type, write the status (a second
  \<open>WriteHeader\<close> is ignored) and write \<open>msg\<close> followed by a newline
  (\<open>fmt.Fprintln\<close>).
\<close>

definition http_error :: "response \<Rightarrow> bytes \<Rightarrow> nat \<Rightarrow> response" where
  "http_error w msg code =
     w\<lparr>resp_header := filter (\<lambda>(k, v). k \<noteq> ''Content-Type'') (resp_header w)
                       @ [(''Content-Type'', ''text/plain; charset=utf-8'')],
       resp_status := (case resp_status w of None \<Rightarrow> Some code | Some c \<Rightarrow> Some c),
       resp_body := resp_body w @ msg @ [char_of (10::nat)]\<rparr>"

text \<open>martini's \<open>ResponseWriter.Written()\<close>: a status has been written.\<close>

definition written :: "response \<Rightarrow> bool" where
  "written w \<longleftrightarrow> resp_status w \<noteq> None"

section \<open>Header keys are case-insensitive\<close>

lemma of_char_lt_256: "(of_char c :: nat) < 256"
  by (metis of_char_of char_of_char mod_less_divisor zero_less_numeral)

lemma of_char_ascii_lower:
  "(of_char (ascii_lower c) :: nat) = (if 65 \<le> (of_char c :: nat) \<and> (of_char c :: nat) \<le> 90 then of_char c + 32 else of_char c)"
  by (simp add: ascii_lower_def of_char_of)

lemma of_char_ascii_upper:
  "(of_char (ascii_upper c) :: nat) = (if 97 \<le> (of_char c :: nat) \<and> (of_char c :: nat) \<le> 122 then of_char c - 32 else of_char c)"
proof -
  have "(of_char c :: nat) - 32 < 256" using of_char_lt_256 [of c] by linarith
  then show ?thesis by (simp add: ascii_upper_def of_char_of)
qed

lemma ascii_lower_eq_iff: "ascii_lower c = ascii_lower d \<longleftrightarrow> (of_char (ascii_lower c) :: nat) = of_char (ascii_lower d)"
  by (simp add: of_char_eq_iff)

lemma ascii_same_case:
  assumes "ascii_lower c = ascii_lower d"
  shows "ascii_upper c = ascii_upper d" and "is_token_char c = is_token_char d"
proof -
  have e: "(if 65 \<le> (of_char c :: nat) \<and> (of_char c :: nat) \<le> 90 then (of_char c :: nat) + 32 else of_char c) =
           (if 65 \<le> (of_char d :: nat) \<and> (of_char d :: nat) \<le> 90 then (of_char d :: nat) + 32 else of_char d)"
    using assms by (simp only: of_char_ascii_lower [symmetric])
  have "(of_char (ascii_upper c) :: nat) = of_char (ascii_upper d)"
    unfolding of_char_ascii_upper using e by (auto split: if_splits)
  then show "ascii_upper c = ascii_upper d" by (simp add: of_char_eq_iff)
  show "is_token_char c = is_token_char d"
  proof (cases "c = d")
    case False
    then have "(of_char c :: nat) \<noteq> of_char d" by (simp add: of_char_eq_iff)
    with e have "(65 \<le> (of_char c :: nat) \<and> (of_char c :: nat) \<le> 90 \<or> 97 \<le> (of_char c :: nat) \<and> (of_char c :: nat) \<le> 122) \<and>
                 (65 \<le> (of_char d :: nat) \<and> (of_char d :: nat) \<le> 90 \<or> 97 \<le> (of_char d :: nat) \<and> (of_char d :: nat) \<le> 122)"
      by (auto split: if_splits)
    moreover have "is_token_char x" if "65 \<le> (of_char x :: nat) \<and> (of_char x :: nat) \<le> 90 \<or> 97 \<le> (of_char x :: nat) \<and> (of_char x :: nat) \<le> 122" for x
    proof -
      have "x \<notin> set (''()<>@,;:/[]?={}'' @ [CHR 0x22, CHR 0x5C])"
        using that by (auto simp del: of_char_eq_iff)
      moreover have "33 \<le> (of_char x :: nat) \<and> (of_char x :: nat) < 127" using that by linarith
      ultimately show ?thesis by (simp add: is_token_char_def)
    qed
    ultimately show ?thesis by blast
  qed simp
qed
lemma ascii_idem: "ascii_lower (ascii_lower c) = ascii_lower c" "ascii_upper (ascii_upper c) = ascii_upper c"
    "ascii_lower (ascii_upper c) = ascii_lower c"
  by (auto intro!: of_char_eqI [where 'a = nat] simp: of_char_ascii_lower of_char_ascii_upper)

lemma canon_scan_case: "map ascii_lower k1 = map ascii_lower k2 \<Longrightarrow> canon_scan b k1 = canon_scan b k2"
proof (induction k1 arbitrary: k2 b)
  case (Cons c cs)
  then obtain d ds where k2: "k2 = d # ds" and cd: "ascii_lower c = ascii_lower d"
      and ds: "map ascii_lower cs = map ascii_lower ds"
    by (cases k2) auto
  have "(if b then ascii_upper c else ascii_lower c) = (if b then ascii_upper d else ascii_lower d)"
    using ascii_same_case(1) [OF cd] cd by simp
  then show ?case using Cons.IH [OF ds] by (simp add: k2 Let_def)
qed simp

lemma token_case: "map ascii_lower k1 = map ascii_lower k2 \<Longrightarrow> list_all is_token_char k1 = list_all is_token_char k2"
proof (induction k1 arbitrary: k2)
  case (Cons c cs)
  then obtain d ds where k2: "k2 = d # ds" and cd: "ascii_lower c = ascii_lower d"
      and ds: "map ascii_lower cs = map ascii_lower ds"
    by (cases k2) auto
  show ?case using ascii_same_case(2) [OF cd] Cons.IH [OF ds] by (simp add: k2)
qed simp

lemma canon_scan_lower: "map ascii_lower (canon_scan b k) = map ascii_lower k"
  by (induction k arbitrary: b) (simp_all add: Let_def ascii_idem)

lemma canon_scan_idem: "canon_scan b (canon_scan b k) = canon_scan b k"
  by (induction k arbitrary: b) (simp_all add: Let_def ascii_idem)

lemma canonical_key_case:
  assumes "list_all is_token_char k1" and "map ascii_lower k1 = map ascii_lower k2"
  shows "canonical_key k1 = canonical_key k2"
proof -
  have "list_all is_token_char k2" using token_case [OF assms(2)] assms(1) by simp
  with assms(1) show ?thesis by (simp add: canonical_key_def canon_scan_case [OF assms(2)])
qed

lemma canonical_key_idem: "canonical_key (canonical_key k) = canonical_key k"
  using token_case [OF canon_scan_lower [of True k]] by (simp add: canonical_key_def canon_scan_idem)

lemma header_get_case:
  "list_all is_token_char k1 \<Longrightarrow> map ascii_lower k1 = map ascii_lower k2 \<Longrightarrow> header_get h k1 = header_get h k2"
  unfolding header_get_def using canonical_key_case [of k1 k2] by simp

lemma canonical_key_literals [simp]:
  "canonical_key ''X-CSRFToken'' = ''X-Csrftoken''" "canonical_key ''X-API-Key'' = ''X-Api-Key''"
  "canon_scan True ''x-csrftoken'' = ''X-Csrftoken''" "list_all is_token_char ''x-csrftoken''"
  "map ascii_lower ''x-csrftoken'' = ''x-csrftoken''"
  unfolding canonical_key_def is_token_char_def ascii_upper_def ascii_lower_def by code_simp+

lemma read_header_line_field:
  assumes "list_all is_token_char name" and "name \<noteq> []" and "v \<noteq> []"
    and "\<not> is_ows (hd v)" and "\<not> is_ows (last v)"
    and "read_header_line (name @ CHR '':'' # CHR '' '' # v) = Some (k, v')"
  shows "k = canon_scan True name \<and> v' = v"
proof -
  let ?l = "name @ CHR '':'' # CHR '' '' # v"
  have tok: "is_token_char (hd name)" "CHR '':'' \<notin> set name"
    using assms(1,2) by (auto simp: list_all_iff is_token_char_def)
  have "\<not> is_ows (hd name)" using tok(1) by (auto simp: is_ows_def is_token_char_def)
  then have "trim_ows ?l = ?l"
    unfolding trim_ows_def using assms(2,3,5) by (intro trim_while_id) simp_all
  moreover have "takeWhile (\<lambda>c. c \<noteq> CHR '':'') ?l = name"
    using tok(2) by (subst takeWhile_append2) auto
  moreover have "dropWhile is_ows (CHR '' '' # v) = v"
    using assms(4) by (simp add: is_ows_def dropWhile_eq_self_iff)
  ultimately show ?thesis using assms(6) by (auto simp: read_header_line_def Let_def split: if_splits)
qed

lemma read_header_line_key:
  "read_header_line l = Some (k, v) \<Longrightarrow> canonical_key k = k"
  using token_case [OF canon_scan_lower [of True]]
  by (auto simp: read_header_line_def Let_def canonical_key_def canon_scan_idem split: if_splits)

lemma read_mime_header_keys:
  "read_mime_header ls = Some h \<Longrightarrow> list_all (\<lambda>(k, v). canonical_key k = k) h"
proof (induction ls arbitrary: h)
  case (Cons l ls)
  then obtain k v h' where "read_header_line l = Some (k, v)" "read_mime_header ls = Some h'" "h = (k, v) # h'"
    by (auto simp: read_mime_header_def split: option.splits)
  with Cons.IH show ?case by (simp add: read_header_line_key)
qed (simp add: read_mime_header_def)

lemma empty_response_sel [simp]:
  "resp_header empty_response = []" "resp_cookies empty_response = []"
  "resp_status empty_response = None" "resp_body empty_response = []"
  by (simp_all add: empty_response_def)

lemma written_http_error [simp]: "written (http_error w msg code)"
  by (simp add: http_error_def written_def split: option.splits)

lemma http_error_fresh:
  "resp_status w = None \<Longrightarrow>
   resp_status (http_error w msg code) = Some code \<and>
   resp_body (http_error w msg code) = resp_body w @ msg @ [char_of (10::nat)]"
  by (simp add: http_error_def)

lemma written_header_add [simp]: "written (header_add w k v) = written w"
  by (simp add: header_add_def written_def)

lemma written_set_cookie [simp]: "written (set_cookie w c) = written w"
  by (simp add: set_cookie_def written_def)

section \<open>The form body round trip\<close>

lemma hex_digits: "list_all (\<lambda>n. hex_val (hex_digit n) = Some n) [0..<16]"
  unfolding hex_val_def hex_digit_def by code_simp

lemma hex_val_digit: "n < 16 \<Longrightarrow> hex_val (hex_digit n) = Some n"
  using hex_digits by (simp add: list_all_iff)

lemma form_enc_byte_chars:
  "x \<in> set (form_enc_byte c) \<Longrightarrow> x \<noteq> CHR ''&'' \<and> x \<noteq> CHR '';'' \<and> x \<noteq> CHR ''=''"
proof -
  have hd: "\<forall>n<16. hex_digit n \<noteq> CHR ''&'' \<and> hex_digit n \<noteq> CHR '';'' \<and> hex_digit n \<noteq> CHR ''=''"
  proof -
    have "list_all (\<lambda>n. hex_digit n \<noteq> CHR ''&'' \<and> hex_digit n \<noteq> CHR '';'' \<and> hex_digit n \<noteq> CHR ''='') [0..<16]"
      unfolding hex_digit_def by code_simp
    then show ?thesis by (simp add: list_all_iff)
  qed
  have "form_keep c \<Longrightarrow> c \<noteq> CHR ''&'' \<and> c \<noteq> CHR '';'' \<and> c \<noteq> CHR ''=''"
    by (auto simp: form_keep_def Let_def)
  moreover have "(of_char c :: nat) div 16 < 16" "(of_char c :: nat) mod 16 < 16"
    using of_char_lt_256 [of c] by (simp_all add: div_less_iff_less_mult)
  ultimately show "x \<in> set (form_enc_byte c) \<Longrightarrow> ?thesis"
    using hd by (auto simp: form_enc_byte_def split: if_splits)
qed

lemma query_unescape_form_enc:
  "query_unescape (form_enc s @ rest) = map_option ((@) s) (query_unescape rest)"
proof (induction s)
  case Nil
  then show ?case by (simp add: form_enc_def option.map_ident)
next
  case (Cons c s)
  have e: "form_enc (c # s) @ rest = form_enc_byte c @ (form_enc s @ rest)" by (simp add: form_enc_def)
  show ?case
  proof (cases "form_keep c")
    case True
    then have "c \<noteq> CHR ''%''" "c \<noteq> CHR ''+''" by (auto simp: form_keep_def Let_def)
    moreover have "form_enc_byte c = [c]" using True by (simp add: form_enc_byte_def)
    ultimately show ?thesis unfolding e using Cons.IH by (simp add: option.map_comp comp_def)
  next
    case False
    show ?thesis
    proof (cases "c = CHR '' ''")
      case True
      with False have "form_enc_byte c = ''+''" by (simp add: form_enc_byte_def)
      then show ?thesis unfolding e using Cons.IH True by (simp add: option.map_comp comp_def)
    next
      case sp: False
      let ?n = "of_char c :: nat"
      have h: "hex_val (hex_digit (?n div 16)) = Some (?n div 16)" "hex_val (hex_digit (?n mod 16)) = Some (?n mod 16)"
        using of_char_lt_256 [of c] by (simp_all add: hex_val_digit div_less_iff_less_mult)
      have ch: "char_of (16 * (?n div 16) + ?n mod 16) = c" by simp
      have "form_enc_byte c = [CHR ''%'', hex_digit (?n div 16), hex_digit (?n mod 16)]"
        using False sp by (simp add: form_enc_byte_def)
      then show ?thesis unfolding e using h ch Cons.IH by (simp add: option.map_comp comp_def)
    qed
  qed
qed

lemma form_enc_chars: "x \<in> set (form_enc s) \<Longrightarrow> x \<noteq> CHR ''&'' \<and> x \<noteq> CHR '';'' \<and> x \<noteq> CHR ''=''"
  by (auto simp: form_enc_def dest: form_enc_byte_chars)

lemma query_unescape_form_enc_id: "query_unescape (form_enc s) = Some s"
  using query_unescape_form_enc [of s "[]"] by simp

lemma parse_query_part_enc: "parse_query_part (form_enc k @ CHR ''='' # form_enc v) = [(k, v)]"
proof -
  have t: "takeWhile (\<lambda>c. c \<noteq> CHR ''='') (form_enc k @ CHR ''='' # form_enc v) = form_enc k"
    using form_enc_chars [of _ k] by (subst takeWhile_append2) auto
  have "CHR '';'' \<notin> set (form_enc k @ CHR ''='' # form_enc v)" using form_enc_chars by fastforce
  with t show ?thesis by (simp add: parse_query_part_def query_unescape_form_enc_id)
qed

lemma parse_query_form_encode [simp]: "parse_query (form_encode fs) = fs"
proof (cases "fs = []")
  case True
  then show ?thesis by (simp add: parse_query_def form_encode_def parse_query_part_def)
next
  case False
  have "\<forall>p\<in>set (map (\<lambda>(k, v). form_enc k @ CHR ''='' # form_enc v) fs). CHR ''&'' \<notin> set p"
    using form_enc_chars by fastforce
  with False have "split_on CHR ''&'' (form_encode fs) = map (\<lambda>(k, v). form_enc k @ CHR ''='' # form_enc v) fs"
    by (simp add: form_encode_def split_on_join)
  then show ?thesis by (simp add: parse_query_def comp_def case_prod_beta parse_query_part_enc)
qed

end
