(* ===== verification/CsrfContext.thy ===== *)
theory CsrfContext
  imports TokenCodec Http
begin

text \<open>
  The per-request context of \<open>src/csrf.go\<close> (lines 73-99): the struct
  \<open>csrf\<close> with its token, subject id and secret, its two methods
  \<open>GetToken\<close> and \<open>ValidToken\<close>, and the interface \<open>Csrf\<close> through which
  martini hands it to \<open>Validate\<close> and to the application's handlers.
  \<open>ValidToken\<close> reads the clock; the model takes the time \<open>now\<close> and the
  keyed hash \<open>mac\<close> of the codec as arguments.
\<close>

section \<open>The context and its methods\<close>

record csrf =
  csrf_token :: bytes
  csrf_id :: bytes
  csrf_secret :: bytes

definition GetToken :: "csrf \<Rightarrow> bytes" where
  "GetToken x = csrf_token x"

definition ValidToken :: "mac_fn \<Rightarrow> nanos \<Rightarrow> csrf \<Rightarrow> bytes \<Rightarrow> bool" where
  "ValidToken mac now x t = valid_at_time mac t (csrf_secret x) (csrf_id x) ''POST'' now"

text \<open>The interface \<open>Csrf\<close>: the two methods a handler may call.\<close>

record csrf_iface =
  iface_get_token :: bytes
  iface_valid_token :: "bytes \<Rightarrow> bool"

text \<open>\<open>c.MapTo(x, (*Csrf)(nil))\<close>: the pointer \<open>x\<close> seen through \<open>Csrf\<close>.\<close>

definition csrf_iface_of :: "mac_fn \<Rightarrow> nanos \<Rightarrow> csrf \<Rightarrow> csrf_iface" where
  "csrf_iface_of mac now x = \<lparr>iface_get_token = GetToken x, iface_valid_token = ValidToken mac now x\<rparr>"

section \<open>Validation through the context\<close>

text \<open>\<open>ValidToken\<close> is the codec's verification with the context's secret and subject.\<close>

lemma ValidToken_iff:
  "ValidToken mac now x c \<longleftrightarrow>
     (\<exists>t. in_int64 t \<and> now - t < xsrf_timeout \<and>
          c = generate_at_time mac (csrf_secret x) (csrf_id x) ''POST'' t)"
  by (simp add: ValidToken_def valid_at_time_iff)

text \<open>
  Claim C8. A token generated with the context's secret and subject id for the
  action \<open>POST\<close> at an int64 time \<open>t\<close> passes \<open>ValidToken\<close> exactly when fewer
  than 24 hours have passed since \<open>t\<close> (spec 8, first and fourth items).
\<close>

theorem ValidToken_roundtrip:
  assumes "in_int64 t"
  shows "ValidToken mac now x (generate_at_time mac (csrf_secret x) (csrf_id x) ''POST'' t)
           \<longleftrightarrow> now - t < xsrf_timeout"
  using assms by (simp add: ValidToken_def valid_generate_iff)

theorem ValidToken_roundtrip_witness:
  "in_int64 0 \<and>
   ValidToken (\<lambda>k m. m) 3600000000000
     \<lparr>csrf_token = [], csrf_id = ''alice'', csrf_secret = ''secret''\<rparr>
     (generate_at_time (\<lambda>k m. m) ''secret'' ''alice'' ''POST'' 0) \<and>
   \<not> ValidToken (\<lambda>k m. m) 86400000000000
     \<lparr>csrf_token = [], csrf_id = ''alice'', csrf_secret = ''secret''\<rparr>
     (generate_at_time (\<lambda>k m. m) ''secret'' ''alice'' ''POST'' 0)"
  using ValidToken_roundtrip [of 0 "\<lambda>k m. m" 3600000000000
      "\<lparr>csrf_token = [], csrf_id = ''alice'', csrf_secret = ''secret''\<rparr>"]
    ValidToken_roundtrip [of 0 "\<lambda>k m. m" 86400000000000
      "\<lparr>csrf_token = [], csrf_id = ''alice'', csrf_secret = ''secret''\<rparr>"]
  by (simp add: xsrf_timeout_def)

text \<open>
  Claim C9. \<open>ValidToken\<close> accepts a candidate exactly when it is the token
  generated with the context's secret and subject id for \<open>POST\<close> at some int64
  time less than 24 hours ago; malformed input is rejected, never raised on.
\<close>

theorem ValidToken_accepts_only_generated:
  "ValidToken mac now x c \<longleftrightarrow>
     (\<exists>t. in_int64 t \<and> now - t < xsrf_timeout \<and>
          c = generate_at_time mac (csrf_secret x) (csrf_id x) ''POST'' t)"
  by (rule ValidToken_iff)

text \<open>
  Claim C10. With a collision-free keyed hash, a token generated for subject
  \<open>u\<close> passes \<open>ValidToken\<close> of a context with subject id \<open>csrf_id x\<close> only if
  the two ids agree after \<open>clean\<close> (spec 8, third item, up to \<open>clean\<close>).
\<close>

theorem ValidToken_subject_binding:
  assumes "inj (mac (csrf_secret x))"
    and "ValidToken mac now x (generate_at_time mac (csrf_secret x) u ''POST'' t)"
  shows "clean u = clean (csrf_id x)"
  using assms valid_at_time_binding [of mac "csrf_secret x" u "''POST''" t "csrf_id x" "''POST''" now]
  by (simp add: ValidToken_def)

theorem ValidToken_subject_binding_witness:
  "inj ((\<lambda>k m. m) (csrf_secret \<lparr>csrf_token = [], csrf_id = ''alice'', csrf_secret = ''secret''\<rparr>)) \<and>
   ValidToken (\<lambda>k m. m) 0 \<lparr>csrf_token = [], csrf_id = ''alice'', csrf_secret = ''secret''\<rparr>
     (generate_at_time (\<lambda>k m. m) ''secret'' ''alice'' ''POST'' 0) \<and>
   clean ''alice'' = clean ''alice''"
proof -
  let ?x = "\<lparr>csrf_token = [], csrf_id = ''alice'', csrf_secret = ''secret''\<rparr>"
  have i: "inj ((\<lambda>k m. m) (csrf_secret ?x))" by (simp add: inj_on_def)
  have v: "ValidToken (\<lambda>k m. m) 0 ?x (generate_at_time (\<lambda>k m. m) ''secret'' ''alice'' ''POST'' 0)"
    by (simp add: ValidToken_def valid_generate_iff xsrf_timeout_def)
  have "clean ''alice'' = clean (csrf_id ?x)"
    using ValidToken_subject_binding [of "\<lambda>k m. m" ?x 0 "''alice''" 0] i v by simp
  with i v show ?thesis by simp
qed

end
