(* ===== verification/Regex.thy ===== *)
theory Regex
  imports Prelude
begin

text \<open>
  The hostname check of \<open>Generate\<close> (\<open>src/csrf.go\<close> lines 115 and 145):
  \<open>regexp.Match(domainReg, []byte(domain))\<close>. Go's \<open>regexp\<close> package (RE2
  syntax) is modelled in two parts. \<open>re_compile\<close> parses a pattern string
  into a small regular-expression datatype as \<open>regexp/syntax\<close> does, for the
  syntax the source uses; the constant \<open>domainReg_src\<close> is the string of line
  115 and compiles to the term \<open>domainReg\<close>. \<open>regexp_match\<close> searches for a
  match anywhere in the input: for a start position the matcher computes the
  set of positions where a match can end, closing a star in at most
  \<open>length s + 1\<close> rounds, and \<open>re_ends_correct\<close> proves this equal to the
  reference relation \<open>re_match\<close>. \<open>^\<close> is the beginning of the text and \<open>$\<close>
  its end (Go's default flags). The pattern is written JavaScript-style with
  slashes around it; in Go the slashes are literal characters.
\<close>

section \<open>Regular expressions and matching\<close>

datatype re =
    Eps
  | Lit char
  | Cls "(char \<times> char) list"
  | Cat re re
  | Alt re re
  | Star re
  | BeginText
  | EndText

abbreviation re_plus :: "re \<Rightarrow> re" where
  "re_plus r \<equiv> Cat r (Star r)"

abbreviation re_opt :: "re \<Rightarrow> re" where
  "re_opt r \<equiv> Alt r Eps"

text \<open>A concatenation; one element is that element, as Go's parser builds it.\<close>

fun re_cat :: "re list \<Rightarrow> re" where
  "re_cat [] = Eps"
| "re_cat [r] = r"
| "re_cat (r # rs) = Cat r (re_cat rs)"

definition in_class :: "(char \<times> char) list \<Rightarrow> char \<Rightarrow> bool" where
  "in_class rs c =
     list_ex (\<lambda>(lo, hi). (of_char lo :: nat) \<le> of_char c \<and> (of_char c :: nat) \<le> of_char hi) rs"

text \<open>
  \<open>star_iter f n X\<close>: at most \<open>n\<close> rounds of adding to \<open>X\<close> the end positions of
  one more iteration, stopping early when a round adds nothing.
\<close>

fun star_iter :: "(nat \<Rightarrow> nat set) \<Rightarrow> nat \<Rightarrow> nat set \<Rightarrow> nat set" where
  "star_iter f 0 X = X"
| "star_iter f (Suc n) X = (let Y = X \<union> \<Union> (f ` X) in if Y = X then X else star_iter f n Y)"

fun re_ends :: "re \<Rightarrow> bytes \<Rightarrow> nat \<Rightarrow> nat set" where
  "re_ends Eps s i = {i}"
| "re_ends (Lit c) s i = (if i < length s \<and> s ! i = c then {Suc i} else {})"
| "re_ends (Cls rs) s i = (if i < length s \<and> in_class rs (s ! i) then {Suc i} else {})"
| "re_ends (Cat r1 r2) s i = \<Union> ((\<lambda>j. re_ends r2 s j) ` re_ends r1 s i)"
| "re_ends (Alt r1 r2) s i = re_ends r1 s i \<union> re_ends r2 s i"
| "re_ends (Star r) s i = star_iter (\<lambda>j. re_ends r s j) (Suc (length s)) {i}"
| "re_ends BeginText s i = (if i = 0 then {i} else {})"
| "re_ends EndText s i = (if i = length s then {i} else {})"

text \<open>\<open>regexp.Match\<close>: a match starting at some position of the input.\<close>

definition regexp_match :: "re \<Rightarrow> bytes \<Rightarrow> bool" where
  "regexp_match r s = list_ex (\<lambda>i. re_ends r s i \<noteq> {}) [0..<Suc (length s)]"

section \<open>Compiling a pattern\<close>

text \<open>
  \<open>regexp.Compile\<close> (\<open>regexp/syntax.Parse\<close> with Go's default Perl flags) for
  the syntax the source's pattern uses: literals, escapes (\<open>\d\<close> is the
  digits and an escaped ASCII character that is not alphanumeric stands for
  itself), bracketed classes with ranges and escapes (a leading \<open>]\<close> is
  literal, a reversed range is an error), groups \<open>( )\<close> and \<open>(?: )\<close>,
  alternation, the repetitions \<open>*\<close>, \<open>+\<close>, \<open>?\<close> with their lazy forms (a
  repetition of a repetition is an error), and the anchors \<open>^\<close> and \<open>$\<close>,
  which without the multi-line flag match only at the ends of the text.
  \<open>None\<close> is a syntax error or a construct outside this subset (\<open>.\<close>,
  counted repetitions, negated classes, flags). The parser is fuelled with
  four steps per character of the pattern; running out of fuel is also
  \<open>None\<close>. That this fuel suffices is not proved in general: for the two
  patterns below, evaluation shows that compilation succeeds.
\<close>

definition re_digits :: "(char \<times> char) list" where
  "re_digits = [(CHR ''0'', CHR ''9'')]"

definition re_escapable :: "char \<Rightarrow> bool" where
  "re_escapable c \<longleftrightarrow>
     (let n = (of_char c :: nat) in n < 128 \<and> \<not> (48 \<le> n \<and> n \<le> 57 \<or> 65 \<le> n \<and> n \<le> 90 \<or> 97 \<le> n \<and> n \<le> 122))"

function parse_cls :: "bool \<Rightarrow> string \<Rightarrow> ((char \<times> char) list \<times> string) option" where
  "parse_cls first [] = None"
| "parse_cls first (c # r) =
     (if c = CHR '']'' \<and> \<not> first then Some ([], r)
      else if c = CHR 0x5C \<and> r \<noteq> [] \<and> hd r = CHR ''d''
      then map_option (\<lambda>(rs, rest). (re_digits @ rs, rest)) (parse_cls False (tl r))
      else
        (let lo = (if c = CHR 0x5C then (case r of e # r' \<Rightarrow> if re_escapable e then Some (e, r') else None | [] \<Rightarrow> None)
                   else Some (c, r))
         in case lo of
              None \<Rightarrow> None
            | Some (l, r1) \<Rightarrow>
                (case r1 of
                   h # d # r2 \<Rightarrow>
                     if h = CHR ''-'' \<and> d \<noteq> CHR '']'' then
                       (let hi = (if d = CHR 0x5C then (case r2 of e # r3 \<Rightarrow> if re_escapable e then Some (e, r3) else None | [] \<Rightarrow> None)
                                  else Some (d, r2))
                        in case hi of
                             None \<Rightarrow> None
                           | Some (u, r3) \<Rightarrow>
                               if (of_char u :: nat) < of_char l then None
                               else map_option (\<lambda>(rs, rest). ((l, u) # rs, rest)) (parse_cls False r3))
                     else map_option (\<lambda>(rs, rest). ((l, l) # rs, rest)) (parse_cls False r1)
                 | _ \<Rightarrow> map_option (\<lambda>(rs, rest). ((l, l) # rs, rest)) (parse_cls False r1))))"

  by pat_completeness auto
termination
  by (relation "measure (\<lambda>(first, s). length s)") (auto split: if_splits list.splits option.splits)


definition re_is_repeat :: "char \<Rightarrow> bool" where
  "re_is_repeat c \<longleftrightarrow> c = CHR ''*'' \<or> c = CHR ''+'' \<or> c = CHR ''?''"

definition re_repeat :: "re \<Rightarrow> string \<Rightarrow> (re \<times> string) option" where
  "re_repeat a s =
     (case s of
        [] \<Rightarrow> Some (a, [])
      | c # r \<Rightarrow>
          if \<not> re_is_repeat c then Some (a, s)
          else
            (let a' = (if c = CHR ''*'' then Star a else if c = CHR ''+'' then Cat a (Star a) else Alt a Eps);
                 r' = (if r \<noteq> [] \<and> hd r = CHR ''?'' then tl r else r)
             in if r' \<noteq> [] \<and> re_is_repeat (hd r') then None else Some (a', r')))"

fun parse_alt :: "nat \<Rightarrow> string \<Rightarrow> (re \<times> string) option"
and parse_seq :: "nat \<Rightarrow> string \<Rightarrow> (re list \<times> string) option"
and parse_atom :: "nat \<Rightarrow> string \<Rightarrow> (re \<times> string) option" where
  "parse_alt 0 s = None"
| "parse_alt (Suc n) s =
     (case parse_seq n s of
        None \<Rightarrow> None
      | Some (rs, rest) \<Rightarrow>
          if rest \<noteq> [] \<and> hd rest = CHR ''|'' then
            (case parse_alt n (tl rest) of
               None \<Rightarrow> None
             | Some (r2, rest') \<Rightarrow> Some (Alt (re_cat rs) r2, rest'))
          else Some (re_cat rs, rest))"
| "parse_seq 0 s = None"
| "parse_seq (Suc n) s =
     (if s = [] \<or> hd s = CHR ''|'' \<or> hd s = CHR '')'' then Some ([], s)
      else
        (case parse_atom n s of
           None \<Rightarrow> None
         | Some (a, rest) \<Rightarrow>
             (case re_repeat a rest of
                None \<Rightarrow> None
              | Some (a', rest') \<Rightarrow>
                  (case parse_seq n rest' of
                     None \<Rightarrow> None
                   | Some (rs, rest'') \<Rightarrow> Some (a' # rs, rest'')))))"
| "parse_atom 0 s = None"
| "parse_atom (Suc n) s =
     (case s of
        [] \<Rightarrow> None
      | c # r \<Rightarrow>
          if c = CHR ''('' then
            (case parse_alt n (if take 2 r = ''?:'' then drop 2 r else r) of
               Some (a, d # rest) \<Rightarrow> if d = CHR '')'' then Some (a, rest) else None
             | _ \<Rightarrow> None)
          else if c = CHR ''['' then
            (if r \<noteq> [] \<and> hd r = CHR ''^'' then None
             else map_option (\<lambda>(rs, rest). (Cls rs, rest)) (parse_cls True r))
          else if c = CHR ''^'' then Some (BeginText, r)
          else if c = CHR ''$'' then Some (EndText, r)
          else if c = CHR 0x5C then
            (case r of
               [] \<Rightarrow> None
             | e # r' \<Rightarrow>
                 if e = CHR ''d'' then Some (Cls re_digits, r')
                 else if re_escapable e then Some (Lit e, r') else None)
          else if c \<in> set ''.)|*+?{'' then None
          else Some (Lit c, r))"

definition re_compile :: "string \<Rightarrow> re option" where
  "re_compile s = (case parse_alt (Suc (4 * length s)) s of Some (r, []) \<Rightarrow> Some r | _ \<Rightarrow> None)"

text \<open>
  An Isabelle string cannot hold a backslash; \<open>with_backslash\<close> writes each
  \<open>%\<close> of its argument (a character neither pattern contains) as one.
\<close>

definition with_backslash :: "string \<Rightarrow> string" where
  "with_backslash s = map (\<lambda>c. if c = CHR ''%'' then CHR 0x5C else c) s"

section \<open>Reference semantics\<close>

text \<open>
  \<open>re_match r s i j\<close>: \<open>r\<close> matches the input \<open>s\<close> from position \<open>i\<close> to
  position \<open>j\<close>; the anchors hold at the start and the end of the text only.
  This is the relation RE2 decides; the matcher above computes it.
\<close>

inductive re_match :: "re \<Rightarrow> bytes \<Rightarrow> nat \<Rightarrow> nat \<Rightarrow> bool" where
  match_eps: "re_match Eps s i i"
| match_lit: "i < length s \<Longrightarrow> s ! i = c \<Longrightarrow> re_match (Lit c) s i (Suc i)"
| match_cls: "i < length s \<Longrightarrow> in_class rs (s ! i) \<Longrightarrow> re_match (Cls rs) s i (Suc i)"
| match_cat: "re_match r1 s i j \<Longrightarrow> re_match r2 s j k \<Longrightarrow> re_match (Cat r1 r2) s i k"
| match_alt1: "re_match r1 s i j \<Longrightarrow> re_match (Alt r1 r2) s i j"
| match_alt2: "re_match r2 s i j \<Longrightarrow> re_match (Alt r1 r2) s i j"
| match_star0: "re_match (Star r) s i i"
| match_star: "re_match r s i j \<Longrightarrow> re_match (Star r) s j k \<Longrightarrow> re_match (Star r) s i k"
| match_begin: "re_match BeginText s 0 0"
| match_end: "re_match EndText s (length s) (length s)"

text \<open>The closure of a set of positions under one more iteration.\<close>

definition reach :: "(nat \<Rightarrow> nat \<Rightarrow> bool) \<Rightarrow> nat set \<Rightarrow> nat set" where
  "reach R X = {k. \<exists>x\<in>X. R\<^sup>*\<^sup>* x k}"

section \<open>The pattern of the source\<close>

abbreviation re_label_char :: re where
  "re_label_char \<equiv> Cls [(CHR ''a'', CHR ''z''), (CHR ''0'', CHR ''9'')]"

abbreviation re_label_char_dash :: re where
  "re_label_char_dash \<equiv> Cls [(CHR ''a'', CHR ''z''), (CHR ''0'', CHR ''9''), (CHR ''-'', CHR ''-'')]"

text \<open>\<open>(?:(?:[a-z\d]*)|(?:[a-z\d\-]*[a-z\d]))\<close>\<close>

abbreviation re_label_rest :: re where
  "re_label_rest \<equiv> Alt (Star re_label_char) (Cat (Star re_label_char_dash) re_label_char)"

text \<open>
  \<open>/^\.?[a-z\d]+(?:(?:[a-z\d]*)|(?:[a-z\d\-]*[a-z\d]))(?:\.[a-z\d]+(?:(?:[a-z\d]*)|(?:[a-z\d\-]*[a-z\d])))*$/\<close>
\<close>

definition domainReg :: re where
  "domainReg =
     re_cat [Lit CHR ''/'', BeginText, re_opt (Lit CHR ''.''), re_plus re_label_char, re_label_rest,
             Star (re_cat [Lit CHR ''.'', re_plus re_label_char, re_label_rest]),
             EndText, Lit CHR ''/'']"

text \<open>The hostname check spec 4.2 and 9 ask for: the same pattern without the slashes.\<close>

definition hostname_reg :: re where
  "hostname_reg =
     re_cat [BeginText, re_opt (Lit CHR ''.''), re_plus re_label_char, re_label_rest,
             Star (re_cat [Lit CHR ''.'', re_plus re_label_char, re_label_rest]),
             EndText]"

text \<open>Line 115: the constant \<open>domainReg\<close> as the source spells it.\<close>

definition domainReg_src :: string where
  "domainReg_src =
     with_backslash
       ''/^%.?[a-z%d]+(?:(?:[a-z%d]*)|(?:[a-z%d%-]*[a-z%d]))(?:%.[a-z%d]+(?:(?:[a-z%d]*)|(?:[a-z%d%-]*[a-z%d])))*$/''"

definition hostname_src :: string where
  "hostname_src =
     with_backslash
       ''^%.?[a-z%d]+(?:(?:[a-z%d]*)|(?:[a-z%d%-]*[a-z%d]))(?:%.[a-z%d]+(?:(?:[a-z%d]*)|(?:[a-z%d%-]*[a-z%d])))*$''"

section \<open>The matcher computes the reference semantics\<close>

inductive_simps re_match_simps [simp]:
  "re_match Eps s i j" "re_match (Lit c) s i j" "re_match (Cls rs) s i j"
  "re_match (Cat r1 r2) s i k" "re_match (Alt r1 r2) s i j"
  "re_match BeginText s i j" "re_match EndText s i j"

lemma re_match_bound: "re_match r s i j \<Longrightarrow> i \<le> length s \<Longrightarrow> j \<le> length s"
  by (induction rule: re_match.induct) auto

lemma re_match_star_iff:
  "re_match (Star r) s i k \<longleftrightarrow> (\<lambda>a b. re_match r s a b)\<^sup>*\<^sup>* i k"
proof
  assume "re_match (Star r) s i k"
  then show "(\<lambda>a b. re_match r s a b)\<^sup>*\<^sup>* i k"
    by (induction "Star r" s i k rule: re_match.induct) (auto intro: converse_rtranclp_into_rtranclp)
next
  assume "(\<lambda>a b. re_match r s a b)\<^sup>*\<^sup>* i k"
  then show "re_match (Star r) s i k"
    by (induction rule: converse_rtranclp_induct) (auto intro: re_match.intros)
qed

lemma reach_step:
  assumes "\<forall>j\<in>X. f j = {k. R j k}"
  shows "reach R (X \<union> \<Union> (f ` X)) = reach R X"
  using assms by (auto simp: reach_def intro: converse_rtranclp_into_rtranclp)

lemma reach_closed:
  assumes "\<forall>j\<in>X. f j = {k. R j k}" and "X \<union> \<Union> (f ` X) = X"
  shows "reach R X = X"
proof
  show "reach R X \<subseteq> X"
  proof
    fix k assume "k \<in> reach R X"
    then obtain x where "x \<in> X" "R\<^sup>*\<^sup>* x k" by (auto simp: reach_def)
    from this(2,1) show "k \<in> X"
      by (induction rule: rtranclp_induct) (use assms in blast)+
  qed
  show "X \<subseteq> reach R X" by (auto simp: reach_def)
qed

lemma star_iter_reach:
  assumes "\<forall>j\<le>n. f j = {k. R j k}" and "\<forall>j\<le>n. \<forall>k. R j k \<longrightarrow> k \<le> n"
    and "X \<subseteq> {..n}" and "n + 1 \<le> card X + m"
  shows "star_iter f m X = reach R X"
  using assms(3,4)
proof (induction m arbitrary: X)
  case 0
  then have "card X = card {..n}"
    using card_mono [of "{..n}" X] by simp
  with 0 have "X = {..n}"
    by (intro card_subset_eq) auto
  have "\<forall>j\<in>{..n}. f j = {k. R j k}" using assms(1) by auto
  moreover have "{..n} \<union> \<Union> (f ` {..n}) = {..n}" using assms(1,2) by auto
  ultimately have "reach R {..n} = {..n}" by (rule reach_closed)
  with \<open>X = {..n}\<close> show ?case by simp
next
  case (Suc m)
  let ?Y = "X \<union> \<Union> (f ` X)"
  have fX: "\<forall>j\<in>X. f j = {k. R j k}" using Suc.prems(1) assms(1) by auto
  have Y: "?Y \<subseteq> {..n}" using Suc.prems(1) assms(1,2) by auto
  show ?case
  proof (cases "?Y = X")
    case True
    then show ?thesis by (simp add: reach_closed [OF fX True])
  next
    case False
    then have "X \<subset> ?Y" by blast
    then have "card X < card ?Y"
      using Y by (meson finite_atMost finite_subset psubset_card_mono)
    with Suc.prems(2) have "n + 1 \<le> card ?Y + m" by simp
    with Y Suc.IH have "star_iter f m ?Y = reach R ?Y" by blast
    with False show ?thesis by (simp add: reach_step [OF fX])
  qed
qed

theorem re_ends_correct:
  "i \<le> length s \<Longrightarrow> re_ends r s i = {j. re_match r s i j}"
proof (induction r arbitrary: i)
  case (Cat r1 r2)
  have "re_ends (Cat r1 r2) s i = (\<Union>j\<in>{j. re_match r1 s i j}. re_ends r2 s j)"
    using Cat.IH(1) Cat.prems by simp
  also have "\<dots> = (\<Union>j\<in>{j. re_match r1 s i j}. {k. re_match r2 s j k})"
    using Cat.IH(2) Cat.prems re_match_bound by (intro SUP_cong) auto
  finally show ?case by auto
next
  case (Star r)
  have "star_iter (\<lambda>j. re_ends r s j) (Suc (length s)) {i} = reach (\<lambda>a b. re_match r s a b) {i}"
    by (rule star_iter_reach) (use Star in \<open>auto dest: re_match_bound\<close>)
  then show ?case by (simp add: reach_def re_match_star_iff)
qed auto

text \<open>\<open>regexp_match\<close> is the existence of a match anywhere in the input.\<close>

lemma regexp_match_iff: "regexp_match r s \<longleftrightarrow> (\<exists>i\<le>length s. \<exists>j. re_match r s i j)"
proof -
  have "regexp_match r s \<longleftrightarrow> (\<exists>i<Suc (length s). re_ends r s i \<noteq> {})"
    by (auto simp: regexp_match_def list_ex_iff simp del: upt_Suc)
  then show ?thesis by (auto simp: re_ends_correct less_Suc_eq_le)
qed

section \<open>What the pattern of the source matches\<close>

text \<open>A beginning-of-text anchor after a consumed character never holds.\<close>

lemma re_ends_lit_begin: "re_ends (Cat (Lit c) (Cat BeginText r)) s i = {}"
  by auto

text \<open>Compiling the source's strings gives the transcribed patterns.\<close>

lemma re_compile_domainReg: "re_compile domainReg_src = Some domainReg"
  unfolding domainReg_src_def with_backslash_def domainReg_def by code_simp

lemma re_compile_hostname: "re_compile hostname_src = Some hostname_reg"
  unfolding hostname_src_def with_backslash_def hostname_reg_def by code_simp

lemma domainReg_no_match: "\<not> regexp_match domainReg s"
proof -
  have "\<And>i. re_ends domainReg s i = {}"
    by (simp only: domainReg_def re_cat.simps re_ends_lit_begin)
  then show ?thesis by (simp add: regexp_match_def list_ex_iff)
qed

text \<open>
  Claim C25. The constant \<open>domainReg\<close> of line 115 compiles, as Go compiles
  it, to a pattern that matches no input at all: its leading slash is a
  literal character, after which the anchor \<open>^\<close> cannot hold. The same
  pattern without the slashes compiles and accepts a hostname.
\<close>

theorem domainReg_matches_nothing:
  "(case re_compile domainReg_src of None \<Rightarrow> False | Some re \<Rightarrow> \<forall>s. \<not> regexp_match re s) \<and>
   (case re_compile hostname_src of None \<Rightarrow> False | Some re \<Rightarrow> regexp_match re ''go.dev'')"
proof
  show "case re_compile domainReg_src of None \<Rightarrow> False | Some re \<Rightarrow> \<forall>s. \<not> regexp_match re s"
    using domainReg_no_match by (simp add: re_compile_domainReg)
  have "regexp_match hostname_reg ''go.dev''"
    by code_simp
  then show "case re_compile hostname_src of None \<Rightarrow> False | Some re \<Rightarrow> regexp_match re ''go.dev''"
    by (simp add: re_compile_hostname)
qed

end
