(* ===== verification/Generate.thy ===== *)
theory Generate
  imports CsrfContext Regex
begin

text \<open>
  The issuance middleware \<open>Generate\<close> of \<open>src/csrf.go\<close> (lines 101-169),
  spec 4.2. \<open>Generate opts\<close> returns a martini handler; \<open>Generate mac opts now s r w\<close>
  is one run of that handler on the session \<open>s\<close>, request \<open>r\<close> and response
  \<open>w\<close>, at time \<open>now\<close>, and returns the context \<open>x\<close> it mapped (as the
  pointer it is, with the fields set after \<open>MapTo\<close>) and the response. Both
  clock readings of the source (\<open>xsrftoken.Generate\<close> and the cookie
  expiry) are the one argument \<open>now\<close>.
\<close>

section \<open>Options and the cookie\<close>

record options =
  opt_secret :: bytes
  opt_session_key :: bytes
  opt_set_header :: bool
  opt_set_cookie :: bool
  opt_secure :: bool

text \<open>\<open>time.Now().AddDate(0, 0, 1)\<close>, one day later (exact for a clock in UTC).\<close>

definition nanos_per_day :: nanos where
  "nanos_per_day = 24 * 60 * 60 * 1000000000"

text \<open>Line 144: \<open>strings.Split(r.Host, ":")[0]\<close>, the host up to its first colon.\<close>

definition host_domain :: "bytes \<Rightarrow> bytes" where
  "host_domain h = takeWhile (\<lambda>c. c \<noteq> CHR '':'') h"

text \<open>
  Lines 144-147: the host without its port, or empty when it fails the
  pattern; \<open>regexp.Match\<close> compiles the pattern on every call and a compile
  error (\<open>err != nil\<close>) also empties the domain.
\<close>

definition csrf_cookie_domain :: "request \<Rightarrow> bytes" where
  "csrf_cookie_domain r =
     (let domain = host_domain (req_host r)
      in case re_compile domainReg_src of
           None \<Rightarrow> []
         | Some re \<Rightarrow> if regexp_match re domain then domain else [])"

text \<open>Lines 142-160: the cookie that carries a freshly minted token.\<close>

definition csrf_cookie :: "options \<Rightarrow> nanos \<Rightarrow> request \<Rightarrow> bytes \<Rightarrow> cookie" where
  "csrf_cookie opts now r tok =
     \<lparr>cookie_name = ''_csrf'', cookie_value = tok, cookie_path = ''/'',
      cookie_domain = csrf_cookie_domain r, cookie_expires = now + nanos_per_day,
      cookie_max_age = 0, cookie_secure = opt_secure opts, cookie_http_only = False,
      cookie_raw = ''_csrf='' @ tok, cookie_unparsed = [''token='' @ tok]\<rparr>"

section \<open>The handler\<close>

text \<open>Lines 139-163: mint a token; set the cookie when configured.\<close>

definition mint_token ::
  "mac_fn \<Rightarrow> options \<Rightarrow> nanos \<Rightarrow> request \<Rightarrow> csrf \<Rightarrow> response \<Rightarrow> csrf \<times> response" where
  "mint_token mac opts now r x w =
     (let x = x\<lparr>csrf_token := generate_at_time mac (csrf_secret x) (csrf_id x) ''POST'' now\<rparr>
      in (x, if opt_set_cookie opts then set_cookie w (csrf_cookie opts now r (csrf_token x)) else w))"

text \<open>Line 137: \<open>r.Cookie("_csrf")\<close> succeeded with a non-empty value.\<close>

definition reusable_cookie :: "request \<Rightarrow> bytes option" where
  "reusable_cookie r =
     (case request_cookie r ''_csrf'' of
        Some v \<Rightarrow> (if v \<noteq> [] then Some v else None)
      | None \<Rightarrow> None)"

text \<open>
  Lines 135-166, the branch for a \<open>GET\<close> without an API key: reuse the cookie's
  token or mint one, then add the header when configured.
\<close>

definition issue_token ::
  "mac_fn \<Rightarrow> options \<Rightarrow> nanos \<Rightarrow> request \<Rightarrow> csrf \<Rightarrow> response \<Rightarrow> csrf \<times> response" where
  "issue_token mac opts now r x w =
     (let (x, w) = (case reusable_cookie r of
                      Some v \<Rightarrow> (x\<lparr>csrf_token := v\<rparr>, w)
                    | None \<Rightarrow> mint_token mac opts now r x w)
      in (x, if opt_set_header opts then header_add w ''X-CSRFToken'' (csrf_token x) else w))"

text \<open>
  Lines 119-169: build the context (it is mapped before anything else, so the
  application always receives one), resolve the subject id, returning early
  when it is absent or not a string, and issue a token only for a \<open>GET\<close>
  without an \<open>X-API-Key\<close> header.
\<close>

definition Generate ::
  "mac_fn \<Rightarrow> options \<Rightarrow> nanos \<Rightarrow> session \<Rightarrow> request \<Rightarrow> response \<Rightarrow> csrf \<times> response" where
  "Generate mac opts now s r w =
     (let x = \<lparr>csrf_token = [], csrf_id = [], csrf_secret = opt_secret opts\<rparr>
      in case s (opt_session_key opts) of
           None \<Rightarrow> (x, w)
         | Some SessOther \<Rightarrow> (x, w)
         | Some (SessString uid) \<Rightarrow>
             (let x = x\<lparr>csrf_id := uid\<rparr>
              in if req_method r = ''GET'' \<and> header_get (req_header r) ''X-API-Key'' = []
                 then issue_token mac opts now r x w
                 else (x, w)))"

section \<open>Behaviour of Generate, branch by branch\<close>

lemmas generate_simps = Generate_def issue_token_def reusable_cookie_def mint_token_def Let_def

text \<open>Example inputs used by the witnesses below.\<close>

abbreviation example_mac :: mac_fn where
  "example_mac \<equiv> \<lambda>k m. m"

abbreviation example_opts :: options where
  "example_opts \<equiv> \<lparr>opt_secret = ''token123'', opt_session_key = ''userId'', opt_set_header = True,
                   opt_set_cookie = True, opt_secure = False\<rparr>"

abbreviation example_session :: session where
  "example_session \<equiv> (\<lambda>k. if k = ''userId'' then Some (SessString ''123456'') else None)"

abbreviation example_get :: request where
  "example_get \<equiv> \<lparr>req_method = ''GET'', req_header = [], req_cookies = [], req_form = [],
                  req_host = ''localhost:3000''\<rparr>"

lemma Generate_mint_context:
  assumes "s (opt_session_key opts) = Some (SessString uid)" and "req_method r = ''GET''"
    and "header_get (req_header r) ''X-API-Key'' = []"
    and "case request_cookie r ''_csrf'' of None \<Rightarrow> True | Some v \<Rightarrow> v = []"
  shows "fst (Generate mac opts now s r w) =
    \<lparr>csrf_token = generate_at_time mac (opt_secret opts) uid ''POST'' now, csrf_id = uid,
     csrf_secret = opt_secret opts\<rparr>"
  using assms by (auto simp: generate_simps split: option.splits)

lemma Generate_reuse_context:
  assumes "s (opt_session_key opts) = Some (SessString uid)" and "req_method r = ''GET''"
    and "header_get (req_header r) ''X-API-Key'' = []"
    and "request_cookie r ''_csrf'' = Some v" and "v \<noteq> []"
  shows "fst (Generate mac opts now s r w) = \<lparr>csrf_token = v, csrf_id = uid, csrf_secret = opt_secret opts\<rparr>"
  using assms by (simp add: generate_simps)

lemma Generate_mint_response:
  assumes "s (opt_session_key opts) = Some (SessString uid)" and "req_method r = ''GET''"
    and "header_get (req_header r) ''X-API-Key'' = []"
    and "case request_cookie r ''_csrf'' of None \<Rightarrow> True | Some v \<Rightarrow> v = []"
  shows "snd (Generate mac opts now s r w) =
    (let tok = generate_at_time mac (opt_secret opts) uid ''POST'' now;
         w1 = (if opt_set_cookie opts then set_cookie w (csrf_cookie opts now r tok) else w)
     in if opt_set_header opts then header_add w1 ''X-CSRFToken'' tok else w1)"
  using assms by (auto simp: generate_simps split: option.splits)

lemma Generate_secret_id:
  "csrf_secret (fst (Generate mac opts now s r w)) = opt_secret opts \<and>
   csrf_id (fst (Generate mac opts now s r w)) =
     (case s (opt_session_key opts) of Some (SessString u) \<Rightarrow> u | _ \<Rightarrow> [])"
  by (auto simp: generate_simps split: option.splits session_value.splits prod.splits)

lemma Generate_status_body:
  "resp_status (snd (Generate mac opts now s r w)) = resp_status w \<and>
   resp_body (snd (Generate mac opts now s r w)) = resp_body w"
  by (auto simp: generate_simps set_cookie_def header_add_def
      split: option.splits session_value.splits prod.splits)

text \<open>
  Claim C17. When the session holds no subject id under the configured key, or
  holds a value that is not a string, \<open>Generate\<close> maps a context with the
  secret and an empty token and subject id, and leaves the response untouched:
  no cookie, no header (spec 4.2 steps 1-2, spec 8).
\<close>

theorem Generate_no_subject:
  assumes "s (opt_session_key opts) = None \<or> s (opt_session_key opts) = Some SessOther"
  shows "Generate mac opts now s r w = (\<lparr>csrf_token = [], csrf_id = [], csrf_secret = opt_secret opts\<rparr>, w)"
  using assms by (auto simp: generate_simps)

theorem Generate_no_subject_witness:
  "((\<lambda>k. None) (opt_session_key example_opts) = None \<or>
    (\<lambda>k. None) (opt_session_key example_opts) = Some SessOther) \<and>
   Generate example_mac example_opts 0 (\<lambda>k. None) example_get empty_response =
     (\<lparr>csrf_token = [], csrf_id = [], csrf_secret = ''token123''\<rparr>, empty_response)"
  using Generate_no_subject [of "\<lambda>k. None" example_opts example_mac 0 example_get empty_response]
  by simp

text \<open>
  Claim C18. A request whose method is not \<open>GET\<close> gets no token: the response
  is untouched and the context's token is empty, whatever the session and the
  options (spec 4.2 step 3).
\<close>

theorem Generate_unsafe_method:
  assumes "req_method r \<noteq> ''GET''"
  shows "snd (Generate mac opts now s r w) = w \<and> csrf_token (fst (Generate mac opts now s r w)) = []"
  using assms by (auto simp: generate_simps split: option.splits session_value.splits)

theorem Generate_unsafe_method_witness:
  "req_method (example_get\<lparr>req_method := ''POST''\<rparr>) \<noteq> ''GET'' \<and>
   snd (Generate example_mac example_opts 0 example_session (example_get\<lparr>req_method := ''POST''\<rparr>)
     empty_response) = empty_response \<and>
   csrf_token (fst (Generate example_mac example_opts 0 example_session
     (example_get\<lparr>req_method := ''POST''\<rparr>) empty_response)) = []"
  using Generate_unsafe_method [of "example_get\<lparr>req_method := ''POST''\<rparr>" example_mac example_opts 0
      example_session empty_response]
  by simp

text \<open>
  Claim C19. A request carrying a non-empty \<open>X-API-Key\<close> header gets no token,
  no cookie and no header, whatever the session and the options (spec 6, spec 8).
\<close>

theorem Generate_api_key_bypass:
  assumes "header_get (req_header r) ''X-API-Key'' \<noteq> []"
  shows "snd (Generate mac opts now s r w) = w \<and> csrf_token (fst (Generate mac opts now s r w)) = []"
  using assms by (auto simp: generate_simps split: option.splits session_value.splits)

theorem Generate_api_key_bypass_witness:
  "header_get (req_header (example_get\<lparr>req_header := [(''X-Api-Key'', ''k1'')]\<rparr>)) ''X-API-Key'' \<noteq> [] \<and>
   snd (Generate example_mac example_opts 0 example_session
     (example_get\<lparr>req_header := [(''X-Api-Key'', ''k1'')]\<rparr>) empty_response) = empty_response \<and>
   csrf_token (fst (Generate example_mac example_opts 0 example_session
     (example_get\<lparr>req_header := [(''X-Api-Key'', ''k1'')]\<rparr>) empty_response)) = []"
  using Generate_api_key_bypass [of "example_get\<lparr>req_header := [(''X-Api-Key'', ''k1'')]\<rparr>"
      example_mac example_opts 0 example_session empty_response]
  by (simp add: header_get_def)

text \<open>
  Claim C20. On a \<open>GET\<close> with a string subject id and no API key, a non-empty
  \<open>_csrf\<close> cookie is copied into the context as it is, no cookie is set, and
  the header carries it when configured (spec 4.2 step 4, spec 8).
\<close>

theorem Generate_reuses_cookie:
  assumes "s (opt_session_key opts) = Some (SessString uid)" and "req_method r = ''GET''"
    and "header_get (req_header r) ''X-API-Key'' = []"
    and "request_cookie r ''_csrf'' = Some v" and "v \<noteq> []"
  shows "Generate mac opts now s r w =
    (\<lparr>csrf_token = v, csrf_id = uid, csrf_secret = opt_secret opts\<rparr>,
     if opt_set_header opts then header_add w ''X-CSRFToken'' v else w)"
  using assms by (simp add: generate_simps)

theorem Generate_reuses_cookie_witness:
  "example_session (opt_session_key example_opts) = Some (SessString ''123456'') \<and>
   req_method (example_get\<lparr>req_cookies := [(''_csrf'', ''tok'')]\<rparr>) = ''GET'' \<and>
   header_get (req_header (example_get\<lparr>req_cookies := [(''_csrf'', ''tok'')]\<rparr>)) ''X-API-Key'' = [] \<and>
   request_cookie (example_get\<lparr>req_cookies := [(''_csrf'', ''tok'')]\<rparr>) ''_csrf'' = Some ''tok'' \<and>
   ''tok'' \<noteq> [] \<and>
   Generate example_mac example_opts 0 example_session
     (example_get\<lparr>req_cookies := [(''_csrf'', ''tok'')]\<rparr>) empty_response =
     (\<lparr>csrf_token = ''tok'', csrf_id = ''123456'', csrf_secret = ''token123''\<rparr>,
      header_add empty_response ''X-CSRFToken'' ''tok'')"
  using Generate_reuses_cookie [of example_session example_opts "''123456''"
      "example_get\<lparr>req_cookies := [(''_csrf'', ''tok'')]\<rparr>" "''tok''" example_mac 0 empty_response]
  by (simp add: header_get_def request_cookie_def)

text \<open>
  Claim C21. On a \<open>GET\<close> with a string subject id, no API key and no usable
  \<open>_csrf\<close> cookie, \<open>Generate\<close> mints the token of the codec for the secret,
  the subject id, the action \<open>POST\<close> and the current time; it sets the
  \<open>_csrf\<close> cookie when configured and then adds the header when configured
  (spec 4.2 steps 4-6).
\<close>

theorem Generate_mints_token:
  assumes "s (opt_session_key opts) = Some (SessString uid)" and "req_method r = ''GET''"
    and "header_get (req_header r) ''X-API-Key'' = []"
    and "case request_cookie r ''_csrf'' of None \<Rightarrow> True | Some v \<Rightarrow> v = []"
  shows "Generate mac opts now s r w =
    (let tok = generate_at_time mac (opt_secret opts) uid ''POST'' now;
         w1 = (if opt_set_cookie opts then set_cookie w (csrf_cookie opts now r tok) else w)
     in (\<lparr>csrf_token = tok, csrf_id = uid, csrf_secret = opt_secret opts\<rparr>,
         if opt_set_header opts then header_add w1 ''X-CSRFToken'' tok else w1))"
  using assms by (auto simp: generate_simps split: option.splits)

theorem Generate_mints_token_witness:
  "example_session (opt_session_key example_opts) = Some (SessString ''123456'') \<and>
   req_method example_get = ''GET'' \<and> header_get (req_header example_get) ''X-API-Key'' = [] \<and>
   (case request_cookie example_get ''_csrf'' of None \<Rightarrow> True | Some v \<Rightarrow> v = []) \<and>
   Generate example_mac example_opts 7 example_session example_get empty_response =
     (\<lparr>csrf_token = generate_at_time example_mac ''token123'' ''123456'' ''POST'' 7,
       csrf_id = ''123456'', csrf_secret = ''token123''\<rparr>,
      header_add (set_cookie empty_response
          (csrf_cookie example_opts 7 example_get (generate_at_time example_mac ''token123'' ''123456'' ''POST'' 7)))
        ''X-CSRFToken'' (generate_at_time example_mac ''token123'' ''123456'' ''POST'' 7))"
  using Generate_mints_token [of example_session example_opts "''123456''" example_get example_mac 7
      empty_response]
  by (simp add: header_get_def request_cookie_def Let_def)

text \<open>
  Claim C22. Whatever the branch, the context \<open>Generate\<close> maps carries the
  configured secret and the session's string subject id (empty when there is
  none), and the response keeps its status and body: issuance never writes the
  response, so it never stops the handler chain (spec 4.2, failure semantics).
\<close>

theorem Generate_frame:
  "csrf_secret (fst (Generate mac opts now s r w)) = opt_secret opts \<and>
   csrf_id (fst (Generate mac opts now s r w)) =
     (case s (opt_session_key opts) of Some (SessString u) \<Rightarrow> u | _ \<Rightarrow> []) \<and>
   resp_status (snd (Generate mac opts now s r w)) = resp_status w \<and>
   resp_body (snd (Generate mac opts now s r w)) = resp_body w"
  using Generate_secret_id Generate_status_body by blast

text \<open>
  Claim C24. The cookie \<open>Generate\<close> sets is named \<open>_csrf\<close>, carries the token,
  has path \<open>/\<close>, expires a day later, is \<open>Secure\<close> as configured and not
  \<open>HttpOnly\<close>; and its domain is always empty, whatever the request's host,
  because \<open>domainReg\<close> matches nothing (spec 4.2 step 5 asks for the host when
  it is a well-formed hostname).
\<close>

theorem Generate_cookie_fields:
  "cookie_name (csrf_cookie opts now r tok) = ''_csrf'' \<and> cookie_value (csrf_cookie opts now r tok) = tok \<and>
   cookie_path (csrf_cookie opts now r tok) = ''/'' \<and>
   cookie_expires (csrf_cookie opts now r tok) = now + nanos_per_day \<and>
   cookie_secure (csrf_cookie opts now r tok) = opt_secure opts \<and>
   \<not> cookie_http_only (csrf_cookie opts now r tok) \<and>
   cookie_domain (csrf_cookie opts now r tok) = []"
  by (simp add: csrf_cookie_def csrf_cookie_domain_def re_compile_domainReg domainReg_no_match)

text \<open>
  Claim C23. A token \<open>Generate\<close> mints at an int64 time \<open>now\<close> passes the
  \<open>ValidToken\<close> of the context it maps, at a later time \<open>now'\<close>, exactly when
  fewer than 24 hours have passed: issuance and validation agree.
\<close>

theorem Generate_issued_token_valid:
  assumes "s (opt_session_key opts) = Some (SessString uid)" and "req_method r = ''GET''"
    and "header_get (req_header r) ''X-API-Key'' = []"
    and "case request_cookie r ''_csrf'' of None \<Rightarrow> True | Some v \<Rightarrow> v = []"
    and "in_int64 now"
  shows "ValidToken mac now' (fst (Generate mac opts now s r w)) (GetToken (fst (Generate mac opts now s r w)))
           \<longleftrightarrow> now' - now < xsrf_timeout"
proof -
  from assms(1-4) have "fst (Generate mac opts now s r w) =
      \<lparr>csrf_token = generate_at_time mac (opt_secret opts) uid ''POST'' now, csrf_id = uid,
       csrf_secret = opt_secret opts\<rparr>"
    by (rule Generate_mint_context)
  with assms(5) show ?thesis
    by (simp add: GetToken_def ValidToken_def valid_generate_iff)
qed

theorem Generate_issued_token_valid_witness:
  "example_session (opt_session_key example_opts) = Some (SessString ''123456'') \<and>
   req_method example_get = ''GET'' \<and> header_get (req_header example_get) ''X-API-Key'' = [] \<and>
   (case request_cookie example_get ''_csrf'' of None \<Rightarrow> True | Some v \<Rightarrow> v = []) \<and> in_int64 0 \<and>
   ValidToken example_mac 60000000000 (fst (Generate example_mac example_opts 0 example_session example_get empty_response))
     (GetToken (fst (Generate example_mac example_opts 0 example_session example_get empty_response)))"
  using Generate_issued_token_valid [of example_session example_opts "''123456''" example_get 0 example_mac
      60000000000 empty_response]
  by (simp add: header_get_def request_cookie_def xsrf_timeout_def)

lemma b64_decode_garbage: "b64_decode ''garbage'' = None"
  by (simp add: b64_dec_char_def b64_alphabet_def)

end
