(* ===== verification/Validate.thy ===== *)
theory Validate
  imports CsrfContext
begin

text \<open>
  The validation middleware \<open>Validate\<close> of \<open>src/csrf.go\<close> (lines 171-190),
  spec 4.3. It reads the candidate from the \<open>X-CSRFToken\<close> header first and
  from the \<open>_csrf\<close> form field only when the header is empty; a present
  candidate that \<open>ValidToken\<close> rejects, or no candidate at all, writes a 400
  response, which stops martini's handler chain. The context arrives through
  the interface \<open>Csrf\<close>, so every lemma here holds for any implementation of
  it. The state machine of spec 4.3 is the step relation \<open>vstep\<close>; \<open>Validate\<close>
  refines it.
\<close>

section \<open>The handler\<close>

text \<open>
  Lines 177-180 and 183-186: a present candidate that \<open>ValidToken\<close> rejects
  gets the 400 with the channel's message; then \<open>Validate\<close> returns.
\<close>

definition check_candidate :: "csrf_iface \<Rightarrow> bytes \<Rightarrow> bytes \<Rightarrow> response \<Rightarrow> response" where
  "check_candidate x token msg w = (if \<not> iface_valid_token x token then http_error w msg 400 else w)"

definition Validate :: "request \<Rightarrow> response \<Rightarrow> csrf_iface \<Rightarrow> response" where
  "Validate r w x =
     (let token = header_get (req_header r) ''X-CSRFToken''
      in if token \<noteq> []
         then check_candidate x token ''Invalid X-CSRFToken'' w
         else
           (let token = form_value r ''_csrf''
            in if token \<noteq> []
               then check_candidate x token ''Invalid _csrf token'' w
               else http_error w ''Bad Request'' 400))"

section \<open>The state machine of spec 4.3\<close>

datatype vstate = NotChecked | HeaderChecked bool | FormChecked bool | RejectedNoToken

inductive vstep :: "request \<Rightarrow> csrf_iface \<Rightarrow> vstate \<Rightarrow> vstate \<Rightarrow> bool" where
  header: "header_get (req_header r) ''X-CSRFToken'' = c \<Longrightarrow> c \<noteq> [] \<Longrightarrow>
     vstep r x NotChecked (HeaderChecked (iface_valid_token x c))"
| form: "header_get (req_header r) ''X-CSRFToken'' = [] \<Longrightarrow> form_value r ''_csrf'' = c \<Longrightarrow> c \<noteq> [] \<Longrightarrow>
     vstep r x NotChecked (FormChecked (iface_valid_token x c))"
| no_token: "header_get (req_header r) ''X-CSRFToken'' = [] \<Longrightarrow> form_value r ''_csrf'' = [] \<Longrightarrow>
     vstep r x NotChecked RejectedNoToken"

code_pred vstep .

text \<open>The one transition out of \<open>NotChecked\<close>, as a function.\<close>

definition vnext :: "request \<Rightarrow> csrf_iface \<Rightarrow> vstate" where
  "vnext r x =
     (let h = header_get (req_header r) ''X-CSRFToken''
      in if h \<noteq> [] then HeaderChecked (iface_valid_token x h)
         else (let f = form_value r ''_csrf''
               in if f \<noteq> [] then FormChecked (iface_valid_token x f) else RejectedNoToken))"

inductive_cases vstep_NotCheckedE: "vstep r x NotChecked q"
inductive_cases vstep_fromE: "vstep r x q q'"

text \<open>What each terminal state does to the response.\<close>

fun vstate_response :: "vstate \<Rightarrow> response \<Rightarrow> response" where
  "vstate_response (HeaderChecked ok) w = (if ok then w else http_error w ''Invalid X-CSRFToken'' 400)"
| "vstate_response (FormChecked ok) w = (if ok then w else http_error w ''Invalid _csrf token'' 400)"
| "vstate_response RejectedNoToken w = http_error w ''Bad Request'' 400"
| "vstate_response NotChecked w = w"

section \<open>Validate, branch by branch\<close>

lemmas validate_simps = Validate_def check_candidate_def

abbreviation example_iface :: csrf_iface where
  "example_iface \<equiv> \<lparr>iface_get_token = [], iface_valid_token = (\<lambda>c. c = ''good'')\<rparr>"

abbreviation example_post :: request where
  "example_post \<equiv> \<lparr>req_method = ''POST'', req_header = [], req_cookies = [], req_form = [],
                   req_host = ''localhost''\<rparr>"

text \<open>
  Claim C11. A non-empty \<open>X-CSRFToken\<close> header that passes \<open>ValidToken\<close>
  leaves the response untouched, so the chain goes on to the real handler; the
  form is not looked at (spec 4.3 step 1, spec 8).
\<close>

theorem Validate_header_valid:
  assumes "header_get (req_header r) ''X-CSRFToken'' = c" and "c \<noteq> []" and "iface_valid_token x c"
  shows "Validate r w x = w"
  using assms by (simp add: validate_simps)

theorem Validate_header_valid_witness:
  "header_get (req_header (example_post\<lparr>req_header := [(''X-Csrftoken'', ''good'')]\<rparr>)) ''X-CSRFToken'' = ''good'' \<and>
   ''good'' \<noteq> [] \<and> iface_valid_token example_iface ''good'' \<and>
   Validate (example_post\<lparr>req_header := [(''X-Csrftoken'', ''good'')]\<rparr>) empty_response example_iface = empty_response"
  using Validate_header_valid [of "example_post\<lparr>req_header := [(''X-Csrftoken'', ''good'')]\<rparr>" "''good''"
      example_iface empty_response]
  by (simp add: header_get_def)

text \<open>
  Claim C12. A non-empty \<open>X-CSRFToken\<close> header that fails \<open>ValidToken\<close> makes
  the response a 400 with the body \<open>Invalid X-CSRFToken\<close>, whatever the form
  holds: a valid form token does not rescue it (spec 4.3 step 1, spec 8).
\<close>

theorem Validate_header_invalid:
  assumes "header_get (req_header r) ''X-CSRFToken'' = c" and "c \<noteq> []" and "\<not> iface_valid_token x c"
    and "resp_status w = None"
  shows "Validate r w x = http_error w ''Invalid X-CSRFToken'' 400 \<and>
    resp_status (Validate r w x) = Some 400 \<and>
    resp_body (Validate r w x) = resp_body w @ ''Invalid X-CSRFToken'' @ [char_of (10::nat)]"
  using assms by (simp add: validate_simps http_error_fresh)

theorem Validate_header_invalid_witness:
  "header_get (req_header (example_post\<lparr>req_header := [(''X-Csrftoken'', ''garbage'')],
       req_form := [(''_csrf'', ''good'')]\<rparr>)) ''X-CSRFToken'' = ''garbage'' \<and>
   ''garbage'' \<noteq> [] \<and> \<not> iface_valid_token example_iface ''garbage'' \<and> resp_status empty_response = None \<and>
   resp_status (Validate (example_post\<lparr>req_header := [(''X-Csrftoken'', ''garbage'')],
       req_form := [(''_csrf'', ''good'')]\<rparr>) empty_response example_iface) = Some 400"
  using Validate_header_invalid [of "example_post\<lparr>req_header := [(''X-Csrftoken'', ''garbage'')],
       req_form := [(''_csrf'', ''good'')]\<rparr>" "''garbage''" example_iface empty_response]
  by (simp add: header_get_def empty_response_def http_error_def)

text \<open>
  Claim C13. With no \<open>X-CSRFToken\<close> header, a non-empty \<open>_csrf\<close> form value
  that passes \<open>ValidToken\<close> leaves the response untouched (spec 4.3 step 2,
  spec 8).
\<close>

theorem Validate_form_valid:
  assumes "header_get (req_header r) ''X-CSRFToken'' = []" and "form_value r ''_csrf'' = c" and "c \<noteq> []"
    and "iface_valid_token x c"
  shows "Validate r w x = w"
  using assms by (simp add: validate_simps)

theorem Validate_form_valid_witness:
  "header_get (req_header (example_post\<lparr>req_form := [(''_csrf'', ''good'')]\<rparr>)) ''X-CSRFToken'' = [] \<and>
   form_value (example_post\<lparr>req_form := [(''_csrf'', ''good'')]\<rparr>) ''_csrf'' = ''good'' \<and>
   ''good'' \<noteq> [] \<and> iface_valid_token example_iface ''good'' \<and>
   Validate (example_post\<lparr>req_form := [(''_csrf'', ''good'')]\<rparr>) empty_response example_iface = empty_response"
  using Validate_form_valid [of "example_post\<lparr>req_form := [(''_csrf'', ''good'')]\<rparr>" "''good''"
      example_iface empty_response]
  by (simp add: header_get_def form_value_def)

text \<open>
  Claim C14. With no \<open>X-CSRFToken\<close> header, a non-empty \<open>_csrf\<close> form value
  that fails \<open>ValidToken\<close> makes the response a 400 with the body
  \<open>Invalid _csrf token\<close> (spec 4.3 step 2, spec 6).
\<close>

theorem Validate_form_invalid:
  assumes "header_get (req_header r) ''X-CSRFToken'' = []" and "form_value r ''_csrf'' = c" and "c \<noteq> []"
    and "\<not> iface_valid_token x c" and "resp_status w = None"
  shows "Validate r w x = http_error w ''Invalid _csrf token'' 400 \<and>
    resp_status (Validate r w x) = Some 400 \<and>
    resp_body (Validate r w x) = resp_body w @ ''Invalid _csrf token'' @ [char_of (10::nat)]"
  using assms by (simp add: validate_simps http_error_fresh)

theorem Validate_form_invalid_witness:
  "header_get (req_header (example_post\<lparr>req_form := [(''_csrf'', ''bad'')]\<rparr>)) ''X-CSRFToken'' = [] \<and>
   form_value (example_post\<lparr>req_form := [(''_csrf'', ''bad'')]\<rparr>) ''_csrf'' = ''bad'' \<and>
   ''bad'' \<noteq> [] \<and> \<not> iface_valid_token example_iface ''bad'' \<and> resp_status empty_response = None \<and>
   resp_status (Validate (example_post\<lparr>req_form := [(''_csrf'', ''bad'')]\<rparr>) empty_response example_iface) = Some 400"
  using Validate_form_invalid [of "example_post\<lparr>req_form := [(''_csrf'', ''bad'')]\<rparr>" "''bad''"
      example_iface empty_response]
  by (simp add: header_get_def form_value_def empty_response_def http_error_def)

text \<open>
  Claim C15. With neither an \<open>X-CSRFToken\<close> header nor a \<open>_csrf\<close> form value,
  the response is a 400 with the body \<open>Bad Request\<close> (spec 4.3 step 3, spec 8).
\<close>

theorem Validate_no_token:
  assumes "header_get (req_header r) ''X-CSRFToken'' = []" and "form_value r ''_csrf'' = []"
    and "resp_status w = None"
  shows "Validate r w x = http_error w ''Bad Request'' 400 \<and>
    resp_status (Validate r w x) = Some 400 \<and>
    resp_body (Validate r w x) = resp_body w @ ''Bad Request'' @ [char_of (10::nat)]"
  using assms by (simp add: validate_simps http_error_fresh)

theorem Validate_no_token_witness:
  "header_get (req_header example_post) ''X-CSRFToken'' = [] \<and> form_value example_post ''_csrf'' = [] \<and>
   resp_status empty_response = None \<and>
   resp_status (Validate example_post empty_response example_iface) = Some 400 \<and>
   resp_body (Validate example_post empty_response example_iface) = ''Bad Request'' @ [char_of (10::nat)]"
  using Validate_no_token [of example_post empty_response example_iface]
  by (simp add: header_get_def form_value_def empty_response_def http_error_def)

section \<open>Validate refines the state machine\<close>

inductive_simps vstep_NotChecked_simp: "vstep r x NotChecked q"

lemma vstep_from_terminal: "vstep r x q q' \<Longrightarrow> q = NotChecked"
  by (erule vstep.cases) simp_all

text \<open>
  Claim C16. \<open>Validate\<close> refines the state machine: whatever terminal state
  the machine reaches from \<open>NotChecked\<close>, the response \<open>Validate\<close> writes is
  the one that state prescribes (accept, or the 400 with the channel's message).
\<close>

theorem Validate_refines_vstep:
  assumes "vstep r x NotChecked q"
  shows "Validate r w x = vstate_response q w"
  using assms by (auto simp: vstep_NotChecked_simp validate_simps)

theorem Validate_refines_vstep_witness:
  "vstep (example_post\<lparr>req_form := [(''_csrf'', ''good'')]\<rparr>) example_iface NotChecked (FormChecked True) \<and>
   Validate (example_post\<lparr>req_form := [(''_csrf'', ''good'')]\<rparr>) empty_response example_iface =
     vstate_response (FormChecked True) empty_response"
proof -
  have s: "vstep (example_post\<lparr>req_form := [(''_csrf'', ''good'')]\<rparr>) example_iface NotChecked (FormChecked True)"
    using vstep.form [of "example_post\<lparr>req_form := [(''_csrf'', ''good'')]\<rparr>" "''good''" example_iface]
    by (simp add: header_get_def form_value_def)
  with Validate_refines_vstep [OF s, of empty_response] show ?thesis by simp
qed

text \<open>When \<open>Validate\<close> lets the chain continue: the candidate it looked at passed.\<close>

lemma Validate_passes_iff:
  assumes "resp_status w = None"
  shows "\<not> written (Validate r w x) \<longleftrightarrow>
    (let h = header_get (req_header r) ''X-CSRFToken''; f = form_value r ''_csrf''
     in if h \<noteq> [] then iface_valid_token x h else f \<noteq> [] \<and> iface_valid_token x f)"
  using assms by (simp add: validate_simps Let_def written_def http_error_def)

lemma Validate_keeps_written: "written w \<Longrightarrow> written (Validate r w x)"
  by (simp add: validate_simps Let_def)

text \<open>
  Claim C29. A client may spell the header name in any case: when the first
  line of the request header is \<open>x-csrftoken: <tok>\<close> in any mix of upper and
  lower case, the server's header reader files it under \<open>X-Csrftoken\<close>, the
  code's \<open>Header.Get("X-CSRFToken")\<close> finds it, and \<open>Validate\<close> checks exactly
  that token.
\<close>

theorem Validate_header_any_case:
  assumes "map ascii_lower name = ''x-csrftoken''"
    and "read_mime_header ((name @ '': '' @ tok) # ls) = Some h"
    and "tok \<noteq> []" and "\<not> is_ows (hd tok)" and "\<not> is_ows (last tok)"
  shows "Validate (r\<lparr>req_header := h\<rparr>) w x = check_candidate x tok ''Invalid X-CSRFToken'' w"
proof -
  have eq: "map ascii_lower name = map ascii_lower ''x-csrftoken''" by (simp only: assms(1) canonical_key_literals)
  have "list_all is_token_char name = list_all is_token_char ''x-csrftoken''" by (rule token_case [OF eq])
  then have name: "list_all is_token_char name" using canonical_key_literals(4) by (rule iffD2)
  have ne: "name \<noteq> []" using assms(1) by (cases name) simp_all
  obtain k v h' where l: "read_header_line (name @ CHR '':'' # CHR '' '' # tok) = Some (k, v)"
      and h: "h = (k, v) # h'"
    using assms(2) by (auto simp: read_mime_header_def split: option.splits)
  have kv: "k = canon_scan True name \<and> v = tok" by (rule read_header_line_field [OF name ne assms(3-5) l])
  then have v: "v = tok" by simp
  from kv have "k = canon_scan True name" by simp
  also have "canon_scan True name = canon_scan True ''x-csrftoken''" by (rule canon_scan_case [OF eq])
  also have "\<dots> = ''X-Csrftoken''" by (rule canonical_key_literals(3))
  finally have "header_get h ''X-CSRFToken'' = tok" using v by (simp add: h header_get_def)
  with assms(3) show ?thesis by (simp add: Validate_def)
qed

theorem Validate_header_any_case_witness:
  "map ascii_lower ''x-CSRFtoken'' = ''x-csrftoken'' \<and>
   read_mime_header [''x-CSRFtoken: abc''] = Some [(''X-Csrftoken'', ''abc'')] \<and>
   ''abc'' \<noteq> [] \<and> \<not> is_ows (hd ''abc'') \<and> \<not> is_ows (last ''abc'') \<and>
   Validate (example_post\<lparr>req_header := [(''X-Csrftoken'', ''abc'')]\<rparr>) empty_response example_iface =
     check_candidate example_iface ''abc'' ''Invalid X-CSRFToken'' empty_response"
proof -
  have a: "map ascii_lower ''x-CSRFtoken'' = ''x-csrftoken''"
    unfolding ascii_lower_def by code_simp
  have b: "read_mime_header [''x-CSRFtoken: abc''] = Some [(''X-Csrftoken'', ''abc'')]"
    unfolding read_mime_header_def read_header_line_def trim_ows_def is_ows_def valid_header_value_byte_def
      is_token_char_def ascii_upper_def ascii_lower_def
    by code_simp
  have c: "\<not> is_ows (hd ''abc'') \<and> \<not> is_ows (last ''abc'')" by (simp add: is_ows_def)
  show ?thesis
    using a b c Validate_header_any_case [of "''x-CSRFtoken''" "''abc''" "[]" "[(''X-Csrftoken'', ''abc'')]"
        example_post empty_response example_iface]
    by simp
qed

text \<open>
  Claim C31. Without a header token, a request whose urlencoded body is
  \<open>_csrf=<v>\<close> (one field, no \<open>&\<close> or \<open>;\<close> in \<open>v\<close>) is checked on the value
  \<open>url.ParseQuery\<close> decodes from \<open>v\<close>: a non-empty decoded token goes to
  \<open>ValidToken\<close> with the \<open>_csrf\<close> message, while a value that decodes to
  nothing or holds a malformed percent escape is dropped and gets 400
  \<open>Bad Request\<close> as if no token had been sent.
\<close>

theorem Validate_form_body:
  assumes "header_get (req_header r) ''X-CSRFToken'' = []" and "CHR ''&'' \<notin> set v" and "CHR '';'' \<notin> set v"
  shows "Validate (r\<lparr>req_form := parse_query (''_csrf='' @ v)\<rparr>) w x =
    (case query_unescape v of
       Some u \<Rightarrow> if u \<noteq> [] then check_candidate x u ''Invalid _csrf token'' w else http_error w ''Bad Request'' 400
     | None \<Rightarrow> http_error w ''Bad Request'' 400)"
proof -
  have k: "query_unescape ''_csrf'' = Some ''_csrf''" by simp
  have "takeWhile (\<lambda>c. c \<noteq> CHR ''='') (''_csrf='' @ v) = ''_csrf''" by simp
  then have "parse_query_part (''_csrf='' @ v) =
      (case query_unescape v of None \<Rightarrow> [] | Some u \<Rightarrow> [(''_csrf'', u)])"
    using assms(3) k by (simp add: parse_query_part_def Let_def split: option.splits)
  moreover have "split_on CHR ''&'' (''_csrf='' @ v) = [''_csrf='' @ v]"
    using assms(2) by (simp add: split_on_notin)
  ultimately have "parse_query (''_csrf='' @ v) = (case query_unescape v of None \<Rightarrow> [] | Some u \<Rightarrow> [(''_csrf'', u)])"
    by (simp add: parse_query_def split: option.splits)
  with assms(1) show ?thesis by (simp add: Validate_def form_value_def split: option.splits)
qed

theorem Validate_form_body_witness:
  "header_get (req_header example_post) ''X-CSRFToken'' = [] \<and> CHR ''&'' \<notin> set ''go%6Fd'' \<and>
   CHR '';'' \<notin> set ''go%6Fd'' \<and>
   Validate (example_post\<lparr>req_form := parse_query (''_csrf='' @ ''go%6Fd'')\<rparr>) empty_response example_iface =
     (case query_unescape ''go%6Fd'' of
        Some u \<Rightarrow> if u \<noteq> [] then check_candidate example_iface u ''Invalid _csrf token'' empty_response
                  else http_error empty_response ''Bad Request'' 400
      | None \<Rightarrow> http_error empty_response ''Bad Request'' 400) \<and>
   query_unescape ''go%6Fd'' = Some ''good'' \<and> query_unescape ''%zz'' = None"
proof -
  have "query_unescape ''go%6Fd'' = Some ''good'' \<and> query_unescape ''%zz'' = None"
    unfolding hex_val_def by code_simp
  then show ?thesis
    using Validate_form_body [of example_post "''go%6Fd''" empty_response example_iface]
    by (simp add: header_get_def)
qed

end
