(* ===== verification/Pipeline.thy ===== *)
theory Pipeline
  imports Generate Validate
begin

text \<open>
  How the two middlewares of \<open>src/csrf.go\<close> run inside martini (spec 2 and
  4.3; martini itself is not part of the repository and is modelled from its
  documented behaviour). A request first passes the global middleware
  \<open>Generate\<close>, which maps the context; then the route's handlers run in order,
  each receiving the context through the interface \<open>Csrf\<close>, and the chain
  stops after the first handler that writes a status (\<open>Context.run\<close> checks
  \<open>Written()\<close> after every handler). A protected route is \<open>Validate\<close>
  followed by the application's handlers.
\<close>

fun run_chain :: "csrf_iface \<Rightarrow> (csrf_iface \<Rightarrow> response \<Rightarrow> response) list \<Rightarrow> response \<Rightarrow> response" where
  "run_chain x [] w = w"
| "run_chain x (h # hs) w = (let w' = h x w in if written w' then w' else run_chain x hs w')"

definition serve ::
  "mac_fn \<Rightarrow> options \<Rightarrow> nanos \<Rightarrow> session \<Rightarrow> request \<Rightarrow> (csrf_iface \<Rightarrow> response \<Rightarrow> response) list \<Rightarrow> response"
where
  "serve mac opts now s r route =
     (let (x, w) = Generate mac opts now s r empty_response
      in run_chain (csrf_iface_of mac now x) route w)"

text \<open>\<open>Validate\<close> as a route handler: martini injects the request, the writer and the context.\<close>

abbreviation validate_handler :: "request \<Rightarrow> csrf_iface \<Rightarrow> response \<Rightarrow> response" where
  "validate_handler r \<equiv> (\<lambda>x w. Validate r w x)"

lemma Validate_unwritten_eq: "\<not> written (Validate r w x) \<Longrightarrow> Validate r w x = w"
  by (auto simp: validate_simps Let_def split: if_splits)

lemma serve_validate:
  "serve mac opts now s r (validate_handler r # hs) =
     (let (x, w) = Generate mac opts now s r empty_response;
          w' = Validate r w (csrf_iface_of mac now x)
      in if written w' then w' else run_chain (csrf_iface_of mac now x) hs w)"
  by (auto simp: serve_def Let_def Validate_unwritten_eq split: prod.splits)

lemma serve_Generate_unwritten:
  "resp_status (snd (Generate mac opts now s r empty_response)) = None"
  using Generate_status_body [of mac opts now s r empty_response] by (simp add: empty_response_def)

lemma iface_valid_token_of: "iface_valid_token (csrf_iface_of mac now x) c = ValidToken mac now x c"
  by (simp add: csrf_iface_of_def)

end
