(* ===== verification/TokenShape.thy ===== *)
theory TokenShape
  imports Generate
begin

text \<open>
  The shape of the tokens \<open>Generate\<close> puts into its \<open>_csrf\<close> cookie
  (\<open>src/csrf.go\<close> lines 140 and 148-161): canonical base64url text, made of
  bytes that \<open>net/http\<close>'s cookie serialisation passes unchanged, and of a
  length bounded by the size of the keyed hash and of an int64 in decimal.
  \<open>validCookieValueByte\<close> and \<open>sanitizeCookieValue\<close> are modelled from the
  \<open>net/http\<close> sources: bytes outside the cookie-value octets are dropped and a
  value containing a space or a comma is quoted.
\<close>

section \<open>Definitions\<close>

text \<open>Canonical base64url text: a multiple of four characters, alphabet characters then at most two pads.\<close>

definition b64_canonical :: "bytes \<Rightarrow> bool" where
  "b64_canonical s \<longleftrightarrow>
     length s mod 4 = 0 \<and>
     (let body = takeWhile (\<lambda>c. c \<noteq> b64_pad) s
      in list_all (\<lambda>c. c \<in> set b64_alphabet) body \<and> list_all (\<lambda>c. c = b64_pad) (drop (length body) s) \<and>
         length s - length body \<le> 2)"

definition valid_cookie_value_byte :: "char \<Rightarrow> bool" where
  "valid_cookie_value_byte c \<longleftrightarrow>
     (32::nat) \<le> of_char c \<and> of_char c < (127::nat) \<and> c \<noteq> CHR 0x22 \<and> c \<noteq> CHR '';'' \<and> c \<noteq> CHR 0x5C"

definition sanitize_cookie_value :: "bytes \<Rightarrow> bytes" where
  "sanitize_cookie_value v =
     (let v = filter valid_cookie_value_byte v
      in if CHR '' '' \<in> set v \<or> CHR '','' \<in> set v then CHR 0x22 # v @ [CHR 0x22] else v)"

section \<open>Tokens of the codec\<close>

lemma b64_canonical_encode: "b64_canonical (b64_encode xs)"
proof -
  obtain e p where s: "b64_encode xs = e @ replicate p b64_pad" "set e \<subseteq> set b64_alphabet" "p \<le> 2"
    using b64_encode_shape by blast
  have "b64_pad \<notin> set e" using s(2) b64_pad_notin_alphabet by blast
  then have "takeWhile (\<lambda>c. c \<noteq> b64_pad) (e @ replicate p b64_pad) =
      e @ takeWhile (\<lambda>c. c \<noteq> b64_pad) (replicate p b64_pad)"
    by (intro takeWhile_append2) blast
  then have tw: "takeWhile (\<lambda>c. c \<noteq> b64_pad) (e @ replicate p b64_pad) = e"
    by (cases p) simp_all
  have "length (b64_encode xs) mod 4 = 0" by (simp add: length_b64_encode)
  with s tw show ?thesis
    by (auto simp: b64_canonical_def Let_def list_all_iff)
qed

lemma b64_text_cookie_safe:
  "list_all (\<lambda>c. valid_cookie_value_byte c \<and> c \<noteq> CHR '' '' \<and> c \<noteq> CHR '','') (b64_pad # b64_alphabet)"
  unfolding b64_alphabet_def b64_pad_def valid_cookie_value_byte_def by code_simp

lemma sanitize_b64_encode: "sanitize_cookie_value (b64_encode xs) = b64_encode xs"
proof -
  obtain e p where s: "b64_encode xs = e @ replicate p b64_pad" "set e \<subseteq> set b64_alphabet"
    using b64_encode_shape by blast
  have "set (b64_encode xs) \<subseteq> set (b64_pad # b64_alphabet)"
    using s by (auto simp: set_replicate_conv_if)
  then have ok: "\<forall>c\<in>set (b64_encode xs). valid_cookie_value_byte c \<and> c \<noteq> CHR '' '' \<and> c \<noteq> CHR '',''"
    using b64_text_cookie_safe by (simp only: list_all_iff) blast
  then have f: "filter valid_cookie_value_byte (b64_encode xs) = b64_encode xs"
    by (simp only: filter_id_conv) blast
  from ok have sp: "CHR '' '' \<notin> set (b64_encode xs) \<and> CHR '','' \<notin> set (b64_encode xs)"
    by blast
  show ?thesis
    unfolding sanitize_cookie_value_def Let_def f using sp by simp
qed

lemma length_generate_at_time:
  assumes "\<forall>m. length (mac key m) = 20" and "in_int64 t"
  shows "32 \<le> length (generate_at_time mac key user action t) \<and>
         length (generate_at_time mac key user action t) \<le> 56"
proof -
  let ?L = "length (show_int t)"
  have L: "1 \<le> ?L \<and> ?L \<le> 20" using assms(2) by (rule length_show_int)
  have len: "length (generate_at_time mac key user action t) = 4 * ((23 + ?L) div 3)"
    using assms(1) by (simp add: generate_at_time_def length_b64_encode Let_def)
  have "(24::nat) div 3 \<le> (23 + ?L) div 3" using L by (intro div_le_mono) simp
  moreover have "(23 + ?L) div 3 \<le> (43::nat) div 3" using L by (intro div_le_mono) simp
  ultimately show ?thesis using len by simp
qed

section \<open>The cookie Generate sets\<close>

text \<open>\<open>Generate\<close> adds at most one cookie, holding a token minted at the request's time.\<close>

lemma Generate_cookies:
  "resp_cookies (snd (Generate mac opts now s r w)) = resp_cookies w \<or>
   (\<exists>u. resp_cookies (snd (Generate mac opts now s r w)) =
          resp_cookies w @ [csrf_cookie opts now r (generate_at_time mac (opt_secret opts) u ''POST'' now)])"
  by (auto simp: generate_simps set_cookie_def header_add_def split: option.splits session_value.splits)

lemma Generate_cookies_minted:
  assumes "\<And>u. P (cookie_value (csrf_cookie opts now r (generate_at_time mac (opt_secret opts) u ''POST'' now)))"
  shows "list_all (\<lambda>c. P (cookie_value c)) (resp_cookies (snd (Generate mac opts now s r empty_response)))"
  using Generate_cookies [of mac opts now s r empty_response] assms by auto

end
