(* ===== verification/HttpDate.thy ===== *)
theory HttpDate
  imports Decimal "HOL-Library.Monad_Syntax"
begin

text \<open>
  Dates on the wire: the \<open>Expires\<close> attribute \<open>Cookie.String\<close> writes is the
  expiry in UTC formatted with \<open>http.TimeFormat\<close>
  (\<open>Mon, 02 Jan 2006 15:04:05 GMT\<close>), and \<open>readSetCookies\<close> reads it back with
  \<open>time.Parse\<close>. Both are Go library code, modelled from the Go documentation
  of the proleptic Gregorian calendar and of the layout syntax. Years are
  counted from 1970; days before 1970 are walked backwards.
\<close>

section \<open>The calendar\<close>

definition is_leap :: "int \<Rightarrow> bool" where
  "is_leap y \<longleftrightarrow> (if y mod 100 = 0 then y mod 400 = 0 else y mod 4 = 0)"

definition year_days :: "int \<Rightarrow> nat" where
  "year_days y = (if is_leap y then 366 else 365)"

definition month_days :: "int \<Rightarrow> nat \<Rightarrow> nat" where
  "month_days y m = [31, if is_leap y then 29 else 28, 31, 30, 31, 30, 31, 31, 30, 31, 30, 31] ! (m - 1)"

text \<open>The year containing day \<open>d\<close> of year \<open>y\<close>, and the day within it.\<close>

function year_fwd :: "int \<Rightarrow> nat \<Rightarrow> int \<times> nat" where
  "year_fwd y d = (if d < year_days y then (y, d) else year_fwd (y + 1) (d - year_days y))"
  by auto
termination
  by (relation "measure snd") (auto simp: year_days_def)

text \<open>The year containing the \<open>d\<close>-th day before January 1 of year \<open>y\<close> (\<open>d \<ge> 1\<close>).\<close>

function year_bwd :: "int \<Rightarrow> nat \<Rightarrow> int \<times> nat" where
  "year_bwd y d =
     (if d \<le> year_days (y - 1) then (y - 1, year_days (y - 1) - d) else year_bwd (y - 1) (d - year_days (y - 1)))"
  by auto
termination
  by (relation "measure snd") (auto simp: year_days_def)

text \<open>The month (from \<open>m\<close>) containing day \<open>d\<close> counted from the first of month \<open>m\<close>.\<close>

function month_fwd :: "int \<Rightarrow> nat \<Rightarrow> nat \<Rightarrow> nat \<times> nat" where
  "month_fwd y m d =
     (if 12 \<le> m \<or> d < month_days y m then (m, d) else month_fwd y (Suc m) (d - month_days y m))"
  by auto
termination
  by (relation "measure (\<lambda>(y, m, d). 12 - m)") auto

text \<open>Days since 1970-01-01 to the civil date: year, month 1-12, day 1-31.\<close>

definition civil_of_day :: "int \<Rightarrow> int \<times> nat \<times> nat" where
  "civil_of_day d =
     (let (y, doy) = (if 0 \<le> d then year_fwd 1970 (nat d) else year_bwd 1970 (nat (- d)));
          (m, dd) = month_fwd y 1 doy
      in (y, m, Suc dd))"

definition days_before_month :: "int \<Rightarrow> nat \<Rightarrow> nat" where
  "days_before_month y m = sum_list (map (month_days y) [1..<m])"

text \<open>The civil date back to days since 1970-01-01.\<close>

definition days_of_civil :: "int \<Rightarrow> nat \<Rightarrow> nat \<Rightarrow> int" where
  "days_of_civil y m d =
     (if 1970 \<le> y then int (sum_list (map (\<lambda>k. year_days (1970 + int k)) [0..<nat (y - 1970)]))
      else - int (sum_list (map (\<lambda>k. year_days (y + int k)) [0..<nat (1970 - y)])))
     + int (days_before_month y m) + int d - 1"

section \<open>Formatting with http.TimeFormat\<close>

definition day_names :: "string list" where
  "day_names = [''Sun'', ''Mon'', ''Tue'', ''Wed'', ''Thu'', ''Fri'', ''Sat'']"

definition month_names :: "string list" where
  "month_names = [''Jan'', ''Feb'', ''Mar'', ''Apr'', ''May'', ''Jun'', ''Jul'', ''Aug'', ''Sep'', ''Oct'', ''Nov'', ''Dec'']"

text \<open>\<open>appendInt(b, x, width)\<close>: decimal, zero-padded to the width.\<close>

definition pad_nat :: "nat \<Rightarrow> nat \<Rightarrow> string" where
  "pad_nat w n = replicate (w - length (show_nat n)) CHR ''0'' @ show_nat n"

definition pad_year :: "int \<Rightarrow> string" where
  "pad_year y = (if y < 0 then CHR ''-'' # pad_nat 4 (nat (- y)) else pad_nat 4 (nat y))"

text \<open>\<open>t.UTC().Format(http.TimeFormat)\<close> for \<open>t\<close> at Unix second \<open>s\<close>.\<close>

definition http_date :: "int \<Rightarrow> string" where
  "http_date s =
     (let d = s div 86400; r = nat (s mod 86400); (y, m, dd) = civil_of_day d
      in day_names ! nat ((d + 4) mod 7) @ '', '' @ pad_nat 2 dd @ '' '' @ month_names ! (m - 1) @ '' '' @
         pad_year y @ '' '' @ pad_nat 2 (r div 3600) @ '':'' @ pad_nat 2 (r div 60 mod 60) @ '':'' @
         pad_nat 2 (r mod 60) @ '' GMT'')"

section \<open>Parsing with time.Parse\<close>

definition is_upper :: "char \<Rightarrow> bool" where
  "is_upper c \<longleftrightarrow> 65 \<le> (of_char c :: nat) \<and> (of_char c :: nat) \<le> 90"

text \<open>A literal of the layout.\<close>

definition take_lit :: "string \<Rightarrow> string \<Rightarrow> string option" where
  "take_lit lit v = (if take (length lit) v = lit then Some (drop (length lit) v) else None)"

text \<open>\<open>lookup\<close>: the first name of the table the value starts with, ignoring ASCII case.\<close>

fun lookup_name :: "nat \<Rightarrow> string list \<Rightarrow> string \<Rightarrow> (nat \<times> string) option" where
  "lookup_name i [] v = None"
| "lookup_name i (n # ns) v =
     (if length n \<le> length v \<and> map ascii_lower (take (length n) v) = map ascii_lower n
      then Some (i, drop (length n) v) else lookup_name (Suc i) ns v)"

text \<open>\<open>getnum(value, fixed)\<close>: two digits, or one when not fixed and the second is not a digit.\<close>

definition getnum :: "bool \<Rightarrow> string \<Rightarrow> (nat \<times> string) option" where
  "getnum fixed v =
     (if v = [] then None
      else if \<not> is_dec_digit (hd v) then None
      else if length v < 2 then (if fixed then None else Some (digit_val (hd v), tl v))
      else if \<not> is_dec_digit (v ! 1) then (if fixed then None else Some (digit_val (hd v), tl v))
      else Some (10 * digit_val (hd v) + digit_val (v ! 1), drop 2 v))"

text \<open>\<open>2006\<close>: four digits.\<close>

definition getyear :: "string \<Rightarrow> (nat \<times> string) option" where
  "getyear v =
     (if length v < 4 then None
      else map_option (\<lambda>n. (n, drop 4 v)) (parse_digits (take 4 v)))"

text \<open>
  A fractional second after the seconds, accepted although the layout has
  none: a comma or period and digits; the first nine digits are nanoseconds.
\<close>

definition frac_nanos :: "string \<Rightarrow> int \<times> string" where
  "frac_nanos v =
     (if 2 \<le> length v \<and> (hd v = CHR ''.'' \<or> hd v = CHR '','') \<and> is_dec_digit (v ! 1)
      then (let ds = takeWhile is_dec_digit (tl v); k = min 9 (length ds)
            in (int (the (parse_digits (take k ds))) * 10 ^ (9 - k), drop (length ds) (tl v)))
      else (0, v))"

text \<open>
  \<open>MST\<close>: \<open>UTC\<close>, \<open>GMT\<close> with an optional signed hour offset below 24, or a zone
  abbreviation of three upper-case letters, or four or five ending in \<open>T\<close>
  (an abbreviation the local zone does not know has offset zero; the local
  zone is taken to be UTC). The offset in seconds east of UTC.
\<close>

definition zone_offset :: "string \<Rightarrow> (int \<times> string) option" where
  "zone_offset v =
     (if take 3 v = ''UTC'' then Some (0, drop 3 v)
      else if take 3 v = ''GMT'' then
        (let r = drop 3 v
         in if 2 \<le> length r \<and> (hd r = CHR ''+'' \<or> hd r = CHR ''-'') \<and> is_dec_digit (r ! 1)
            then (let ds = takeWhile is_dec_digit (tl r); h = the (parse_digits ds)
                  in if 23 < h then Some (0, r)
                     else Some ((if hd r = CHR ''-'' then - 1 else 1) * int h * 3600, drop (length ds) (tl r)))
            else Some (0, r))
      else
        (let n = length (takeWhile is_upper v)
         in if n = 3 then Some (0, drop 3 v)
            else if (n = 4 \<or> n = 5) \<and> v ! (n - 1) = CHR ''T'' then Some (0, drop n v)
            else None))"

text \<open>
  \<open>time.Parse(layout, value)\<close> for \<open>Mon, 02 Jan 2006 15:04:05 MST\<close> (\<open>sep\<close> a
  space) and \<open>Mon, 02-Jan-2006 15:04:05 MST\<close> (\<open>sep\<close> a dash): the instant
  in nanoseconds since 1970 UTC. The weekday is checked for its syntax only;
  the day must exist in its month; the hour is below 24, the minute and the
  second below 60; nothing may follow the zone.
\<close>

definition time_parse :: "char \<Rightarrow> string \<Rightarrow> int option" where
  "time_parse sep v0 = do {
     (_, v) \<leftarrow> lookup_name 0 day_names v0;
     v \<leftarrow> take_lit '', '' v;
     (dd, v) \<leftarrow> getnum True v;
     v \<leftarrow> take_lit [sep] v;
     (mi, v) \<leftarrow> lookup_name 0 month_names v;
     v \<leftarrow> take_lit [sep] v;
     (y, v) \<leftarrow> getyear v;
     v \<leftarrow> take_lit '' '' v;
     (hh, v) \<leftarrow> getnum False v;
     v \<leftarrow> take_lit '':'' v;
     (mm, v) \<leftarrow> getnum True v;
     v \<leftarrow> take_lit '':'' v;
     (ss, v) \<leftarrow> getnum True v;
     let (ns, v) = frac_nanos v;
     v \<leftarrow> take_lit '' '' v;
     (off, v) \<leftarrow> zone_offset v;
     if v = [] \<and> hh < 24 \<and> mm < 60 \<and> ss < 60 \<and> 1 \<le> dd \<and> dd \<le> month_days (int y) (Suc mi)
     then Some ((days_of_civil (int y) (Suc mi) dd * 86400 + int hh * 3600 + int mm * 60 + int ss - off)
                * 1000000000 + ns)
     else None
   }"

section \<open>Round trip of the date format\<close>

lemma year_days_pos: "0 < year_days y"
  by (simp add: year_days_def)

lemma sum_list_shift:
  "sum_list (map (\<lambda>k. f (y + int k)) [0..<Suc n]) = f y + sum_list (map (\<lambda>k. f (y + 1 + int k)) [0..<n])"
proof -
  have "[0..<Suc n] = 0 # map Suc [0..<n]" by (simp add: upt_conv_Cons map_Suc_upt)
  then show ?thesis by (simp add: o_def ac_simps)
qed

lemma year_fwd_spec:
  "year_fwd y d = (y', r) \<Longrightarrow>
   y \<le> y' \<and> r < year_days y' \<and> d = sum_list (map (\<lambda>k. year_days (y + int k)) [0..<nat (y' - y)]) + r"
proof (induction y d arbitrary: y' r rule: year_fwd.induct)
  case (1 y d)
  show ?case
  proof (cases "d < year_days y")
    case True
    with "1.prems" show ?thesis by simp
  next
    case False
    with "1.prems" have "year_fwd (y + 1) (d - year_days y) = (y', r)" by simp
    with "1.IH" False have ih: "y + 1 \<le> y' \<and> r < year_days y' \<and>
        d - year_days y = sum_list (map (\<lambda>k. year_days (y + 1 + int k)) [0..<nat (y' - (y + 1))]) + r"
      by blast
    then have n: "nat (y' - y) = Suc (nat (y' - (y + 1)))" by arith
    from ih have "d - year_days y = sum_list (map (\<lambda>k. year_days (y + 1 + int k)) [0..<nat (y' - (y + 1))]) + r"
      by blast
    with False have "d = year_days y + sum_list (map (\<lambda>k. year_days (y + 1 + int k)) [0..<nat (y' - (y + 1))]) + r"
      by arith
    with ih n show ?thesis by (simp only: sum_list_shift) simp
  qed
qed

lemma month_fwd_spec:
  "month_fwd y m d = (m', r) \<Longrightarrow>
   m \<le> m' \<and> (m \<le> 12 \<longrightarrow> m' \<le> 12) \<and> (m' < 12 \<longrightarrow> r < month_days y m') \<and>
   d = sum_list (map (month_days y) [m..<m']) + r"
proof (induction y m d arbitrary: m' r rule: month_fwd.induct)
  case (1 y m d)
  show ?case
  proof (cases "12 \<le> m \<or> d < month_days y m")
    case True
    with "1.prems" show ?thesis by auto
  next
    case False
    with "1.prems" have "month_fwd y (Suc m) (d - month_days y m) = (m', r)" by simp
    with "1.IH" False have ih: "Suc m \<le> m' \<and> (Suc m \<le> 12 \<longrightarrow> m' \<le> 12) \<and> (m' < 12 \<longrightarrow> r < month_days y m') \<and>
        d - month_days y m = sum_list (map (month_days y) [Suc m..<m']) + r"
      by blast
    then have "sum_list (map (month_days y) [m..<m']) =
        month_days y m + sum_list (map (month_days y) [Suc m..<m'])"
      by (simp add: upt_conv_Cons)
    moreover from False have "m < 12" "month_days y m \<le> d" by auto
    ultimately show ?thesis
    proof (intro conjI)
      show "m \<le> m'" using ih by simp
      show "m \<le> 12 \<longrightarrow> m' \<le> 12" using ih \<open>m < 12\<close> by simp
      show "m' < 12 \<longrightarrow> r < month_days y m'" using ih by blast
    qed (use ih in arith)
  qed
qed

lemma months_total: "sum_list (map (month_days y) [1..<12]) + month_days y 12 = year_days y"
  by (simp add: upt_rec month_days_def year_days_def)

lemma month_days_pos: "1 \<le> m \<Longrightarrow> m \<le> 12 \<Longrightarrow> 1 \<le> month_days y m"
  by (cases m; simp add: month_days_def nth_Cons split: nat.splits)

lemma civil_of_day_month: "civil_of_day d = (y, m, dd) \<Longrightarrow> 1 \<le> m \<and> m \<le> 12"
proof -
  assume c: "civil_of_day d = (y, m, dd)"
  obtain y0 doy where yf: "(if 0 \<le> d then year_fwd 1970 (nat d) else year_bwd 1970 (nat (- d))) = (y0, doy)"
    by fastforce
  obtain m0 r0 where mf: "month_fwd y0 1 doy = (m0, r0)" by fastforce
  from c yf mf have "m0 = m" by (simp add: civil_of_day_def)
  with month_fwd_spec [OF mf] show ?thesis by simp
qed

lemma civil_of_day_spec:
  assumes "0 \<le> d" and "civil_of_day d = (y, m, dd)"
  shows "1970 \<le> y \<and> 1 \<le> m \<and> m \<le> 12 \<and> 1 \<le> dd \<and> dd \<le> month_days y m \<and> days_of_civil y m dd = d"
proof -
  obtain y0 doy where yf0: "year_fwd 1970 (nat d) = (y0, doy)" by (cases "year_fwd 1970 (nat d)")
  obtain m0 r0 where mf0: "month_fwd y0 1 doy = (m0, r0)" by (cases "month_fwd y0 1 doy")
  from assms yf0 mf0 have "y0 = y \<and> m0 = m \<and> dd = Suc r0"
    by (simp add: civil_of_day_def)
  then have yf: "year_fwd 1970 (nat d) = (y, doy)" and mf: "month_fwd y 1 doy = (m, dd - 1)"
      and dd: "1 \<le> dd"
    using yf0 mf0 by auto
  from year_fwd_spec [OF yf] have y: "1970 \<le> y" "doy < year_days y"
      and dsum: "nat d = sum_list (map (\<lambda>k. year_days (1970 + int k)) [0..<nat (y - 1970)]) + doy"
    by auto
  from month_fwd_spec [OF mf] have m: "1 \<le> m" "m \<le> 12" "m < 12 \<longrightarrow> dd - 1 < month_days y m"
      and msum: "doy = sum_list (map (month_days y) [1..<m]) + (dd - 1)"
    by auto
  have "dd - 1 < month_days y m"
  proof (cases "m < 12")
    case True with m show ?thesis by blast
  next
    case False
    with m have "m = 12" by simp
    with msum y(2) months_total [of y] show ?thesis by simp
  qed
  then have "dd \<le> month_days y m" by simp
  moreover have "days_of_civil y m dd = d"
    using y(1) dsum msum dd assms(1) by (simp add: days_of_civil_def days_before_month_def)
  ultimately show ?thesis using y m dd by simp
qed


lemma char_of_48: "char_of (48::nat) = CHR ''0''"
  by code_simp

lemma show_nat_small: "n < 10 \<Longrightarrow> show_nat n = [digit_char n]"
  by (simp add: show_nat.simps [of n])

lemma pad2_digits: "n < 100 \<Longrightarrow> pad_nat 2 n = [digit_char (n div 10), digit_char (n mod 10)]"
proof (cases "n < 10")
  case True
  then show ?thesis by (simp add: pad_nat_def show_nat_small digit_char_def char_of_48)
next
  case False
  assume "n < 100"
  then have "n div 10 < 10" by simp
  with False show ?thesis
    by (simp add: pad_nat_def show_nat.simps [of n] show_nat_small)
qed

lemma getnum_pad2: "n < 100 \<Longrightarrow> getnum b (pad_nat 2 n @ rest) = Some (n, rest)"
  by (simp add: pad2_digits getnum_def digit_char_props)

lemma parse_digits_pad:
  "parse_digits (replicate k CHR ''0'' @ show_nat n) = Some n"
proof -
  have z: "digit_val CHR ''0'' = 0" "is_dec_digit CHR ''0''"
    by (simp_all add: digit_val_def is_dec_digit_def)
  have "foldl (\<lambda>acc c. 10 * acc + digit_val c) 0 (replicate k CHR ''0'') = 0"
    using z by (induction k) simp_all
  then show ?thesis
    using z show_nat_digits [of n] foldl_show_nat [of n]
    by (auto simp: parse_digits_def list_all_iff)
qed

lemma getyear_pad:
  assumes "y < 10000"
  shows "getyear (pad_nat 4 y @ rest) = Some (y, rest)"
proof -
  have "length (show_nat y) \<le> 4" using assms by (intro length_show_nat_le) simp_all
  then have l: "length (pad_nat 4 y) = 4" by (simp add: pad_nat_def)
  then show ?thesis
    by (simp add: getyear_def parse_digits_pad [unfolded pad_nat_def [symmetric]] pad_nat_def)
qed

lemma lookup_name_nth:
  assumes "i < length ns" and "distinct (map (map ascii_lower) ns)" and "\<forall>n\<in>set ns. length n = 3"
  shows "lookup_name j ns (ns ! i @ rest) = Some (j + i, rest)"
  using assms
proof (induction ns arbitrary: i j)
  case Nil
  then show ?case by simp
next
  case (Cons n ns)
  show ?case
  proof (cases i)
    case 0
    then show ?thesis by simp
  next
    case (Suc i')
    with Cons.prems have ne: "map ascii_lower n \<noteq> map ascii_lower (ns ! i')" and len: "length (ns ! i') = 3"
        "length n = 3"
      by (auto simp: nth_mem)
    have "map ascii_lower (take (length n) (ns ! i' @ rest)) = map ascii_lower (ns ! i')"
      using len by simp
    with ne Cons.IH [of i' "Suc j"] Cons.prems Suc show ?thesis by auto
  qed
qed

lemma names_ok:
  "distinct (map (map ascii_lower) day_names) \<and> (\<forall>n\<in>set day_names. length n = 3) \<and> length day_names = 7 \<and>
   distinct (map (map ascii_lower) month_names) \<and> (\<forall>n\<in>set month_names. length n = 3) \<and>
   length month_names = 12"
  unfolding day_names_def month_names_def ascii_lower_def by code_simp

lemma take_lit_append [simp]: "take_lit lit (lit @ rest) = Some rest"
  by (simp add: take_lit_def)

lemma time_of_day: "(r::nat) < 86400 \<Longrightarrow>
   r div 3600 < 24 \<and> r div 60 mod 60 < 60 \<and> r mod 60 < 60 \<and> r div 3600 * 3600 + r div 60 mod 60 * 60 + r mod 60 = r"
  using mod_mult2_eq [of r 60 60] div_mult_mod_eq [of r 3600] by simp


lemma month_days_le: "m \<le> 12 \<Longrightarrow> month_days y m \<le> 31"
  by (auto simp: month_days_def nth_Cons split: nat.splits)

lemma sum_year_days_ge: "365 * n \<le> sum_list (map (\<lambda>k. year_days (y + int k)) [0..<n])"
  by (induction n) (auto simp: year_days_def)

lemma civil_year_bound:
  assumes "0 \<le> d" and "civil_of_day d = (y, m, dd)"
  shows "365 * (y - 1970) \<le> d"
proof -
  from civil_of_day_spec [OF assms] have y: "1970 \<le> y" and e: "days_of_civil y m dd = d" and dd: "1 \<le> dd"
    by auto
  have "365 * nat (y - 1970) \<le> sum_list (map (\<lambda>k. year_days (1970 + int k)) [0..<nat (y - 1970)])"
    by (rule sum_year_days_ge)
  then have "int (365 * nat (y - 1970)) \<le> int (sum_list (map (\<lambda>k. year_days (1970 + int k)) [0..<nat (y - 1970)]))"
    by (simp only: of_nat_le_iff)
  then have "365 * (y - 1970) \<le> int (sum_list (map (\<lambda>k. year_days (1970 + int k)) [0..<nat (y - 1970)]))"
    using y by simp
  with e y dd show ?thesis by (simp add: days_of_civil_def)
qed

lemma http_date_fields:
  assumes "0 \<le> s" and "s < 100000000000" and "civil_of_day (s div 86400) = (y, m, dd)"
  shows "1970 \<le> y \<and> y < 10000 \<and> 1 \<le> m \<and> m \<le> 12 \<and> 1 \<le> dd \<and> dd < 100 \<and>
         dd \<le> month_days y m \<and> days_of_civil y m dd = s div 86400"
proof -
  have d0: "0 \<le> s div 86400" using assms(1) by simp
  from civil_of_day_spec [OF d0 assms(3)] have y0: "1970 \<le> y" and m: "1 \<le> m" "m \<le> 12"
      and dd: "1 \<le> dd" "dd \<le> month_days y m" and e: "days_of_civil y m dd = s div 86400"
    by auto
  have "s div 86400 < 2930950" using assms(2) by simp
  with civil_year_bound [OF d0 assms(3)] have "y < 10000" by simp
  moreover have "dd < 100" using dd(2) month_days_le [of m y] m by simp
  ultimately show ?thesis using y0 m dd e by blast
qed

lemma length_pad_nat: "n < 10 ^ w \<Longrightarrow> 0 < w \<Longrightarrow> length (pad_nat w n) = w"
  using length_show_nat_le [of n w] by (simp add: pad_nat_def)

lemma time_parse_http_date:
  assumes "0 \<le> s" and "s < 100000000000"
  shows "time_parse CHR '' '' (http_date s) = Some (s * 1000000000)"
proof -
  define d where "d = s div 86400"
  define r where "r = nat (s mod 86400)"
  obtain y m dd where c: "civil_of_day d = (y, m, dd)" by (metis prod_cases3)
  from http_date_fields [OF assms c [unfolded d_def]] have y0: "1970 \<le> y" "y < 10000"
      and m: "1 \<le> m" "m \<le> 12" and dd: "1 \<le> dd" "dd \<le> month_days y m" and dd100: "dd < 100"
      and e: "days_of_civil y m dd = d"
    by (auto simp: d_def)
  then have yn: "nat y < 10000" "int (nat y) = y" by simp_all
  have py: "pad_year y = pad_nat 4 (nat y)" using y0 by (simp add: pad_year_def)
  have r: "r < 86400" by (simp add: r_def)
  note t = time_of_day [OF r]
  have w: "nat ((d + 4) mod 7) < length day_names" using names_ok by simp
  have mi: "m - 1 < length month_names" "Suc (m - 1) = m" using m names_ok by simp_all
  have s_eq: "s = d * 86400 + int r" using assms by (simp add: d_def r_def)
  have "time_parse CHR '' '' (http_date s) =
      Some ((days_of_civil y m dd * 86400 + int (r div 3600) * 3600 + int (r div 60 mod 60) * 60
             + int (r mod 60) - 0) * 1000000000 + 0)"
    unfolding http_date_def Let_def d_def [symmetric] r_def [symmetric] c prod.case
    using names_ok w mi yn dd dd100 t
    by (simp add: time_parse_def lookup_name_nth getnum_pad2 getyear_pad py frac_nanos_def zone_offset_def
        take_lit_def)
  also have "\<dots> = Some (s * 1000000000)"
  proof -
    have "int (r div 3600) * 3600 + int (r div 60 mod 60) * 60 + int (r mod 60) = int r"
      using t by linarith
    then show ?thesis using e s_eq by simp
  qed
  finally show ?thesis .
qed

text \<open>
  For every instant from 1970 to the year 5000, the \<open>Expires\<close>
  text \<open>net/http\<close> writes (\<open>Format(http.TimeFormat)\<close>) is the fixed-width
  29-byte form \<open>Mon, 02 Jan 2006 15:04:05 GMT\<close>, and \<open>time.Parse\<close> with that
  layout reads it back to the same second.
\<close>

theorem http_date_roundtrip:
  assumes "0 \<le> s" and "s < 100000000000"
  shows "length (http_date s) = 29 \<and> time_parse CHR '' '' (http_date s) = Some (s * 1000000000)"
proof
  obtain y m dd where c: "civil_of_day (s div 86400) = (y, m, dd)" by (metis prod_cases3)
  from http_date_fields [OF assms c] have f: "0 \<le> y" "nat y < 10 ^ 4" "1 \<le> m" "m \<le> 12" "dd < 10 ^ 2"
    by auto
  have py: "length (pad_year y) = 4" using f(1,2) by (simp add: pad_year_def length_pad_nat)
  have two: "length (pad_nat 2 n) = 2" if "n < 60" for n using that by (simp add: length_pad_nat)
  have "nat (s mod 86400) div 3600 < 24" by (simp add: time_of_day)
  moreover have "nat ((s div 86400 + 4) mod 7) < length day_names" "m - 1 < length month_names"
    using names_ok f(3,4) by simp_all
  then have "length (day_names ! nat ((s div 86400 + 4) mod 7)) = 3" "length (month_names ! (m - 1)) = 3"
    using names_ok nth_mem by blast+
  ultimately show "length (http_date s) = 29"
    unfolding http_date_def Let_def c prod.case
    using py f(5) by (simp add: two length_pad_nat)
next
  show "time_parse CHR '' '' (http_date s) = Some (s * 1000000000)"
    using assms by (rule time_parse_http_date)
qed

theorem http_date_roundtrip_witness:
  "0 \<le> (1762747200::int) \<and> (1762747200::int) < 100000000000 \<and>
   length (http_date 1762747200) = 29 \<and> time_parse CHR '' '' (http_date 1762747200) = Some (1762747200 * 1000000000)"
  using http_date_roundtrip [of 1762747200] by simp

end
