(* ===== verification/CookieWire.thy ===== *)
theory CookieWire
  imports TokenShape HttpDate
begin

text \<open>
  The \<open>Set-Cookie\<close> line on the wire. \<open>http.SetCookie(w, cookie)\<close> (line 161)
  adds the header \<open>Set-Cookie: cookie.String()\<close> when that string is not
  empty; a Go client reads it back with \<open>readSetCookies\<close>. Both are
  \<open>net/http\<close> code, modelled from its sources: the name must be a token,
  the value and the path are sanitised, the domain is written only when it is
  a valid cookie domain, the expiry is written in \<open>http.TimeFormat\<close> when its
  year is at least 1601, then \<open>Max-Age\<close>, \<open>HttpOnly\<close> and \<open>Secure\<close>. The
  reader splits at semicolons, trims ASCII white space, and interprets the
  attributes it knows, collecting the others in \<open>Unparsed\<close>. The fields a
  \<open>Cookie\<close> has in later Go versions (\<open>SameSite\<close>, \<open>Partitioned\<close>,
  \<open>Quoted\<close>, \<open>RawExpires\<close>) are not part of the model; a \<open>SameSite\<close>
  attribute is read and dropped.
\<close>

section \<open>Definitions\<close>

definition cookie_name_valid :: "string \<Rightarrow> bool" where
  "cookie_name_valid n \<longleftrightarrow> n \<noteq> [] \<and> list_all is_token_char n"

definition sanitize_cookie_path :: "string \<Rightarrow> string" where
  "sanitize_cookie_path p = filter (\<lambda>c. 32 \<le> (of_char c :: nat) \<and> (of_char c :: nat) < 127 \<and> c \<noteq> CHR '';'') p"

definition is_ascii_letter :: "char \<Rightarrow> bool" where
  "is_ascii_letter c \<longleftrightarrow>
     (65 \<le> (of_char c :: nat) \<and> (of_char c :: nat) \<le> 90) \<or> (97 \<le> (of_char c :: nat) \<and> (of_char c :: nat) \<le> 122)"

text \<open>The loop of \<open>isCookieDomainName\<close>: last character, a letter seen, length of the label.\<close>

fun domain_scan :: "char \<Rightarrow> bool \<Rightarrow> nat \<Rightarrow> string \<Rightarrow> bool" where
  "domain_scan prev ok plen [] = (if prev = CHR ''-'' then False else plen \<le> 63 \<and> ok)"
| "domain_scan prev ok plen (c # cs) =
     (if is_ascii_letter c then domain_scan c True (Suc plen) cs
      else if is_dec_digit c then domain_scan c ok (Suc plen) cs
      else if c = CHR ''-'' then (if prev = CHR ''.'' then False else domain_scan c ok (Suc plen) cs)
      else if c = CHR ''.'' then
        (if prev = CHR ''.'' then False else if prev = CHR ''-'' then False
         else if 63 < plen then False else if plen = 0 then False else domain_scan c ok 0 cs)
      else False)"

definition is_cookie_domain_name :: "string \<Rightarrow> bool" where
  "is_cookie_domain_name s \<longleftrightarrow>
     s \<noteq> [] \<and> length s \<le> 255 \<and> domain_scan CHR ''.'' False 0 (if hd s = CHR ''.'' then tl s else s)"

text \<open>\<open>net.ParseIP\<close> of a dotted quad: four decimal octets below 256 without leading zeros.\<close>

definition is_ipv4_literal :: "string \<Rightarrow> bool" where
  "is_ipv4_literal s \<longleftrightarrow>
     (let ps = split_on CHR ''.'' s
      in length ps = 4 \<and>
         list_all (\<lambda>p. p \<noteq> [] \<and> length p \<le> 3 \<and> list_all is_dec_digit p \<and>
                      (if hd p = CHR ''0'' then p = ''0'' else True) \<and>
                      the (parse_digits p) < 256) ps)"

definition valid_cookie_domain :: "string \<Rightarrow> bool" where
  "valid_cookie_domain d \<longleftrightarrow> is_cookie_domain_name d \<or> is_ipv4_literal d"

text \<open>\<open>validCookieExpires\<close>: the year of the expiry is at least 1601.\<close>

definition valid_cookie_expires :: "nanos \<Rightarrow> bool" where
  "valid_cookie_expires e \<longleftrightarrow> 1601 \<le> fst (civil_of_day (e div 1000000000 div 86400))"

text \<open>\<open>Cookie.String\<close>.\<close>

definition cookie_string :: "cookie \<Rightarrow> string" where
  "cookie_string c =
     (if \<not> cookie_name_valid (cookie_name c) then []
      else cookie_name c @ ''='' @ sanitize_cookie_value (cookie_value c)
        @ (if cookie_path c = [] then [] else ''; Path='' @ sanitize_cookie_path (cookie_path c))
        @ (if cookie_domain c = [] then []
           else if valid_cookie_domain (cookie_domain c)
           then ''; Domain='' @ (if hd (cookie_domain c) = CHR ''.'' then tl (cookie_domain c) else cookie_domain c)
           else [])
        @ (if valid_cookie_expires (cookie_expires c)
           then ''; Expires='' @ http_date (cookie_expires c div 1000000000) else [])
        @ (if 0 < cookie_max_age c then ''; Max-Age='' @ show_int (cookie_max_age c)
           else if cookie_max_age c < 0 then ''; Max-Age=0'' else [])
        @ (if cookie_http_only c then ''; HttpOnly'' else [])
        @ (if cookie_secure c then ''; Secure'' else []))"

text \<open>The \<open>Set-Cookie\<close> lines of a response, in the order the cookies were set.\<close>

definition set_cookie_lines :: "response \<Rightarrow> string list" where
  "set_cookie_lines w = filter (\<lambda>l. l \<noteq> []) (map cookie_string (resp_cookies w))"

text \<open>\<open>textproto.TrimString\<close>: without leading and trailing ASCII white space.\<close>

definition is_ascii_space :: "char \<Rightarrow> bool" where
  "is_ascii_space c \<longleftrightarrow> c = CHR '' '' \<or> c = CHR 0x09 \<or> c = CHR 0x0A \<or> c = CHR 0x0D"

definition trim_ascii :: "string \<Rightarrow> string" where
  "trim_ascii s = rev (dropWhile is_ascii_space (rev (dropWhile is_ascii_space s)))"

text \<open>\<open>parseCookieValue\<close>: strip one pair of double quotes if allowed, then check every byte.\<close>

definition parse_cookie_value :: "string \<Rightarrow> bool \<Rightarrow> string option" where
  "parse_cookie_value raw allow_dq =
     (let v = (if allow_dq \<and> 1 < length raw \<and> hd raw = CHR 0x22 \<and> last raw = CHR 0x22
               then butlast (tl raw) else raw)
      in if list_all valid_cookie_value_byte v then Some v else None)"

text \<open>\<open>time.Time{}\<close>, January 1 of year 1, in nanoseconds since 1970.\<close>

definition zero_time :: nanos where
  "zero_time = - 62135596800 * 1000000000"

text \<open>The attribute loop of \<open>readSetCookies\<close>.\<close>

fun read_attrs :: "cookie \<Rightarrow> string list \<Rightarrow> cookie" where
  "read_attrs c [] = c"
| "read_attrs c (p0 # ps) =
     (let p = trim_ascii p0;
          attr = takeWhile (\<lambda>x. x \<noteq> CHR ''='') p;
          v0 = drop (Suc (length attr)) p;
          unparsed = c\<lparr>cookie_unparsed := cookie_unparsed c @ [p]\<rparr>
      in if p = [] then read_attrs c ps
         else if \<not> list_all (\<lambda>x. (of_char x :: nat) < 128) attr then read_attrs c ps
         else
           (case parse_cookie_value v0 False of
              None \<Rightarrow> read_attrs unparsed ps
            | Some v \<Rightarrow>
                (let a = map ascii_lower attr
                 in if a = ''samesite'' then read_attrs c ps
                    else if a = ''secure'' then read_attrs (c\<lparr>cookie_secure := True\<rparr>) ps
                    else if a = ''httponly'' then read_attrs (c\<lparr>cookie_http_only := True\<rparr>) ps
                    else if a = ''domain'' then read_attrs (c\<lparr>cookie_domain := v\<rparr>) ps
                    else if a = ''max-age'' then
                      (case parse_int64 v of
                         None \<Rightarrow> read_attrs unparsed ps
                       | Some secs \<Rightarrow>
                           if secs \<noteq> 0 \<and> hd v = CHR ''0'' then read_attrs unparsed ps
                           else read_attrs (c\<lparr>cookie_max_age := (if secs \<le> 0 then - 1 else secs)\<rparr>) ps)
                    else if a = ''expires'' then
                      (case time_parse CHR '' '' v of
                         Some t \<Rightarrow> read_attrs (c\<lparr>cookie_expires := t\<rparr>) ps
                       | None \<Rightarrow>
                           (case time_parse CHR ''-'' v of
                              Some t \<Rightarrow> read_attrs (c\<lparr>cookie_expires := t\<rparr>) ps
                            | None \<Rightarrow> read_attrs (unparsed\<lparr>cookie_expires := zero_time\<rparr>) ps))
                    else if a = ''path'' then read_attrs (c\<lparr>cookie_path := v\<rparr>) ps
                    else read_attrs unparsed ps)))"

text \<open>One line of \<open>readSetCookies\<close>: \<open>None\<close> where the loop \<open>continue\<close>s past it.\<close>

definition read_set_cookie :: "string \<Rightarrow> cookie option" where
  "read_set_cookie line =
     (let parts = split_on CHR '';'' (trim_ascii line);
          p0 = trim_ascii (hd parts);
          name = trim_ascii (takeWhile (\<lambda>x. x \<noteq> CHR ''='') p0);
          v0 = drop (Suc (length (takeWhile (\<lambda>x. x \<noteq> CHR ''='') p0))) p0
      in if parts = [[]] then None
         else if CHR ''='' \<notin> set p0 then None
         else if \<not> cookie_name_valid name then None
         else
           (case parse_cookie_value v0 True of
              None \<Rightarrow> None
            | Some v \<Rightarrow>
                Some (read_attrs
                  \<lparr>cookie_name = name, cookie_value = v, cookie_path = [], cookie_domain = [],
                   cookie_expires = zero_time, cookie_max_age = 0, cookie_secure = False,
                   cookie_http_only = False, cookie_raw = line, cookie_unparsed = []\<rparr> (tl parts))))"

definition read_set_cookies :: "string list \<Rightarrow> cookie list" where
  "read_set_cookies lines = concat (map (\<lambda>l. case read_set_cookie l of None \<Rightarrow> [] | Some c \<Rightarrow> [c]) lines)"

text \<open>
  The request side. A browser sends the cookies it holds for the site as one
  \<open>Cookie\<close> header line of \<open>name=value\<close> pairs joined by \<open>"; "\<close> (RFC 6265,
  section 5.4); \<open>net/http\<close>'s \<open>readCookies\<close> splits each line at semicolons,
  trims each part, cuts it at the first \<open>=\<close>, keeps the parts whose name is
  a token and whose value \<open>parseCookieValue\<close> (quotes allowed) accepts.
  \<open>Request.Cookie(name)\<close> is the first of them with that name, i.e.
  \<open>request_cookie\<close> over \<open>req_cookies = read_cookies lines\<close>.
\<close>

fun cookie_header :: "(bytes \<times> bytes) list \<Rightarrow> bytes" where
  "cookie_header [] = []"
| "cookie_header [(n, v)] = n @ CHR ''='' # v"
| "cookie_header ((n, v) # cs) = n @ CHR ''='' # v @ CHR '';'' # CHR '' '' # cookie_header cs"

definition read_cookie_part :: "bytes \<Rightarrow> (bytes \<times> bytes) list" where
  "read_cookie_part part0 =
     (let part = trim_ascii part0;
          name = trim_ascii (takeWhile (\<lambda>x. x \<noteq> CHR ''='') part);
          val = drop (Suc (length (takeWhile (\<lambda>x. x \<noteq> CHR ''='') part))) part
      in if part = [] then []
         else if \<not> cookie_name_valid name then []
         else (case parse_cookie_value val True of None \<Rightarrow> [] | Some v \<Rightarrow> [(name, v)]))"

definition read_cookies :: "bytes list \<Rightarrow> (bytes \<times> bytes) list" where
  "read_cookies lines = concat (map (\<lambda>l. concat (map read_cookie_part (split_on CHR '';'' (trim_ascii l)))) lines)"

section \<open>Characters of the line\<close>

text \<open>Characters a cookie value may hold that are not white space.\<close>

definition wire_char :: "char \<Rightarrow> bool" where
  "wire_char c \<longleftrightarrow> valid_cookie_value_byte c \<and> \<not> is_ascii_space c"

lemma wire_char_facts:
  "wire_char c \<Longrightarrow> c \<noteq> CHR '';'' \<and> c \<noteq> CHR 0x22 \<and> valid_cookie_value_byte c \<and> \<not> is_ascii_space c"
  by (auto simp: wire_char_def valid_cookie_value_byte_def)

lemma wire_chars_fixed:
  "list_all wire_char (b64_pad # b64_alphabet) \<and> list_all (list_all wire_char) day_names \<and>
   list_all (list_all wire_char) month_names \<and> list_all wire_char ''0123456789,:GMT-''"
  unfolding b64_pad_def b64_alphabet_def day_names_def month_names_def wire_char_def
    valid_cookie_value_byte_def is_ascii_space_def
  by code_simp

lemma digit_valid: "is_dec_digit c \<Longrightarrow> valid_cookie_value_byte c"
  by (auto simp: is_dec_digit_def valid_cookie_value_byte_def)

lemma space_valid: "valid_cookie_value_byte CHR '' ''"
  unfolding valid_cookie_value_byte_def by code_simp

lemma pad_nat_valid: "list_all valid_cookie_value_byte (pad_nat w n)"
proof -
  have "valid_cookie_value_byte CHR ''0''" using digit_valid by (simp add: is_dec_digit_def)
  then show ?thesis
    using show_nat_digits [of n] digit_valid by (auto simp: pad_nat_def list_all_iff)
qed

lemma http_date_valid: "list_all valid_cookie_value_byte (http_date s)"
proof -
  have names: "\<forall>n\<in>set day_names. list_all valid_cookie_value_byte n"
      "\<forall>n\<in>set month_names. list_all valid_cookie_value_byte n"
    and lits: "list_all valid_cookie_value_byte ''0123456789,:GMT-''"
    using wire_chars_fixed by (auto simp: list_all_iff wire_char_def)
  have dn: "list_all valid_cookie_value_byte (day_names ! i)" if "i < 7" for i
    using names that names_ok by (simp add: nth_mem)
  have mn: "list_all valid_cookie_value_byte (month_names ! j)" if "j < 12" for j
    using names that names_ok by (simp add: nth_mem)
  have "list_all valid_cookie_value_byte (pad_year y)" for y
    using pad_nat_valid lits by (simp add: pad_year_def)
  moreover have "nat ((s div 86400 + 4) mod 7) < 7" by simp
  moreover have "m - 1 < 12" if "civil_of_day d = (y, m, dd)" for d y m dd
    using civil_of_day_month [OF that] by linarith
  ultimately show ?thesis
    using lits space_valid pad_nat_valid dn mn
    by (auto simp: http_date_def Let_def split: prod.splits)
qed

lemma b64_encode_wire: "list_all wire_char (b64_encode xs)"
proof -
  obtain e p where s: "b64_encode xs = e @ replicate p b64_pad" "set e \<subseteq> set b64_alphabet"
    using b64_encode_shape by blast
  then have "set (b64_encode xs) \<subseteq> set (b64_pad # b64_alphabet)" by (auto simp: set_replicate_conv_if)
  with wire_chars_fixed show ?thesis by (auto simp: list_all_iff)
qed

lemma http_date_last: "http_date s \<noteq> [] \<and> last (http_date s) = CHR ''T'' \<and> CHR '';'' \<notin> set (http_date s)"
proof -
  have "list_all valid_cookie_value_byte (http_date s)" by (rule http_date_valid)
  then have "CHR '';'' \<notin> set (http_date s)" by (auto simp: list_all_iff valid_cookie_value_byte_def)
  then show ?thesis by (simp add: http_date_def Let_def split: prod.splits)
qed

section \<open>Splitting and trimming\<close>

lemma trim_ascii_id:
  "s \<noteq> [] \<Longrightarrow> \<not> is_ascii_space (hd s) \<Longrightarrow> \<not> is_ascii_space (last s) \<Longrightarrow> trim_ascii s = s"
  unfolding trim_ascii_def by (rule trim_while_id)

lemma trim_ascii_space: "is_ascii_space x \<Longrightarrow> trim_ascii (x # s) = trim_ascii s"
  by (simp add: trim_ascii_def)

lemma wire_literals:
  "cookie_name_valid ''_csrf'' \<and> sanitize_cookie_path ''/'' = ''/'' \<and>
   trim_ascii '' Path=/'' = ''Path=/'' \<and> trim_ascii '' Secure'' = ''Secure'' \<and>
   is_ascii_space CHR '' '' \<and> \<not> is_ascii_space CHR ''_'' \<and> \<not> is_ascii_space CHR ''E'' \<and>
   \<not> is_ascii_space CHR ''T'' \<and> \<not> is_ascii_space CHR ''e'' \<and> \<not> is_ascii_space CHR ''f'' \<and>
   map ascii_lower ''Path'' = ''path'' \<and> map ascii_lower ''Expires'' = ''expires'' \<and>
   map ascii_lower ''Secure'' = ''secure'' \<and>
   list_all (\<lambda>x. (of_char x :: nat) < 128) ''Path'' \<and> list_all (\<lambda>x. (of_char x :: nat) < 128) ''Expires'' \<and>
   list_all (\<lambda>x. (of_char x :: nat) < 128) ''Secure'' \<and>
   parse_cookie_value ''/'' False = Some ''/'' \<and> parse_cookie_value [] False = Some []"
  by code_simp

section \<open>The line of the cookie Generate sets\<close>

lemma csrf_cookie_domain_empty: "csrf_cookie_domain r = []"
  by (simp add: csrf_cookie_domain_def re_compile_domainReg domainReg_no_match)

lemma valid_cookie_expires_nonneg: "0 \<le> e \<Longrightarrow> valid_cookie_expires e"
proof -
  assume e: "0 \<le> e"
  obtain y m dd where c: "civil_of_day (e div 1000000000 div 86400) = (y, m, dd)" by (metis prod_cases3)
  have "0 \<le> e div 1000000000 div 86400" using e by simp
  from civil_of_day_spec [OF this c] c show ?thesis by (simp add: valid_cookie_expires_def)
qed

lemma cookie_string_plain:
  assumes "sanitize_cookie_value tok = tok" and "0 \<le> e"
  shows "cookie_string \<lparr>cookie_name = ''_csrf'', cookie_value = tok, cookie_path = ''/'', cookie_domain = [],
           cookie_expires = e, cookie_max_age = 0, cookie_secure = b, cookie_http_only = False,
           cookie_raw = raw, cookie_unparsed = up\<rparr> =
         ''_csrf='' @ tok @ ''; Path=/; Expires='' @ http_date (e div 1000000000) @ (if b then ''; Secure'' else [])"
  using assms valid_cookie_expires_nonneg [OF assms(2)] wire_literals by (simp add: cookie_string_def)

lemma cookie_string_csrf:
  assumes "0 \<le> now" and "sanitize_cookie_value tok = tok"
  shows "cookie_string (csrf_cookie opts now r tok) =
           ''_csrf='' @ tok @ ''; Path=/; Expires='' @ http_date ((now + nanos_per_day) div 1000000000) @
           (if opt_secure opts then ''; Secure'' else [])"
proof -
  have "0 \<le> now + nanos_per_day" using assms(1) by (simp add: nanos_per_day_def)
  with assms(2) show ?thesis
    by (simp add: csrf_cookie_def csrf_cookie_domain_empty cookie_string_plain)
qed

section \<open>Reading the line back\<close>

lemma read_attr_path: "read_attrs c ('' Path=/'' # ps) = read_attrs (c\<lparr>cookie_path := ''/''\<rparr>) ps"
  using wire_literals by (simp add: Let_def)

lemma read_attr_secure: "read_attrs c ('' Secure'' # ps) = read_attrs (c\<lparr>cookie_secure := True\<rparr>) ps"
  using wire_literals by (simp add: Let_def)

lemma read_attr_expires:
  assumes "list_all valid_cookie_value_byte v" and "v \<noteq> []" and "\<not> is_ascii_space (last v)"
    and "time_parse CHR '' '' v = Some t"
  shows "read_attrs c (('' Expires='' @ v) # ps) = read_attrs (c\<lparr>cookie_expires := t\<rparr>) ps"
proof -
  have tr: "trim_ascii ('' Expires='' @ v) = ''Expires='' @ v"
    using assms(2,3) wire_literals by (simp add: trim_ascii_space trim_ascii_id)
  have pv: "parse_cookie_value v False = Some v"
    using assms(1) by (simp add: parse_cookie_value_def)
  show ?thesis
    unfolding read_attrs.simps(2) Let_def tr
    using assms(4) wire_literals by (simp add: pv)
qed

lemma read_csrf_line:
  assumes tok: "list_all wire_char tok" "tok \<noteq> []" and sec: "0 \<le> sec" "sec < 100000000000"
  shows "read_set_cookie (''_csrf='' @ tok @ ''; Path=/; Expires='' @ http_date sec @ (if b then ''; Secure'' else [])) =
    Some \<lparr>cookie_name = ''_csrf'', cookie_value = tok, cookie_path = ''/'', cookie_domain = [],
          cookie_expires = sec * 1000000000, cookie_max_age = 0, cookie_secure = b, cookie_http_only = False,
          cookie_raw = ''_csrf='' @ tok @ ''; Path=/; Expires='' @ http_date sec @ (if b then ''; Secure'' else []),
          cookie_unparsed = []\<rparr>"
  (is "read_set_cookie ?line = Some ?c")
proof -
  let ?D = "http_date sec"
  have D: "?D \<noteq> []" "last ?D = CHR ''T''" "CHR '';'' \<notin> set ?D" "list_all valid_cookie_value_byte ?D"
    using http_date_last http_date_valid by auto
  have tw: "CHR '';'' \<notin> set tok" "hd tok \<noteq> CHR 0x22" "\<not> is_ascii_space (last tok)"
      "list_all valid_cookie_value_byte tok"
    using tok wire_char_facts by (auto simp: list_all_iff)
  have line: "?line = (''_csrf='' @ tok) @ CHR '';'' # ('' Path=/'' @ CHR '';'' #
      ('' Expires='' @ ?D @ (if b then CHR '';'' # '' Secure'' else [])))"
    by simp
  have trl: "trim_ascii ?line = ?line"
    using D(1,2) wire_literals by (intro trim_ascii_id) (auto simp: last_append)
  have sp: "split_on CHR '';'' ?line =
      [''_csrf='' @ tok, '' Path=/'', '' Expires='' @ ?D] @ (if b then ['' Secure''] else [])"
    using tw(1) D(3) by (simp only: line) (simp add: split_on_append split_on_notin)
  have p0: "trim_ascii (''_csrf='' @ tok) = ''_csrf='' @ tok"
    using tok(2) tw(3) wire_literals by (intro trim_ascii_id) auto
  have pv: "parse_cookie_value tok True = Some tok"
    using tw(2,4) by (simp add: parse_cookie_value_def)
  have tp: "time_parse CHR '' '' ?D = Some (sec * 1000000000)"
    using sec by (rule time_parse_http_date)
  have nm: "trim_ascii ''_csrf'' = ''_csrf''"
    using wire_literals by (intro trim_ascii_id) simp_all
  let ?rest = "if b then ['' Secure''] else []"
  have hd_p: "hd ([''_csrf='' @ tok, '' Path=/'', '' Expires='' @ ?D] @ ?rest) = ''_csrf='' @ tok"
    by simp
  have tl_p: "tl ([''_csrf='' @ tok, '' Path=/'', '' Expires='' @ ?D] @ ?rest) =
      '' Path=/'' # ('' Expires='' @ ?D) # ?rest"
    by simp
  have ne: "[''_csrf='' @ tok, '' Path=/'', '' Expires='' @ ?D] @ ?rest \<noteq> [[]]"
    by simp
  have ex: "read_attrs c (('' Expires='' @ ?D) # ps) = read_attrs (c\<lparr>cookie_expires := sec * 1000000000\<rparr>) ps"
    for c ps using D tp wire_literals by (intro read_attr_expires) simp_all
  show ?thesis
    unfolding read_set_cookie_def Let_def trl sp hd_p tl_p p0 read_attr_path ex
    using wire_literals nm pv ne by (cases b) (simp_all add: read_attr_secure)
qed

section \<open>The Cookie header read back\<close>

definition cookie_pair_ok :: "bytes \<times> bytes \<Rightarrow> bool" where
  "cookie_pair_ok p \<longleftrightarrow> cookie_name_valid (fst p) \<and> list_all wire_char (snd p)"

lemma space_lt: "is_ascii_space c \<Longrightarrow> (of_char c :: nat) < 33"
  by (auto simp: is_ascii_space_def)

lemma token_char_sep: "is_token_char c \<Longrightarrow> c \<noteq> CHR '';'' \<and> c \<noteq> CHR ''='' \<and> \<not> is_ascii_space c"
  unfolding is_token_char_def using space_lt [of c] by auto

lemma cookie_pair_facts:
  assumes "cookie_pair_ok (n, v)"
  shows "CHR '';'' \<notin> set (n @ CHR ''='' # v)" and "CHR ''='' \<notin> set n" and "n \<noteq> []"
    and "\<not> is_ascii_space (hd n)" and "\<not> is_ascii_space (last (n @ CHR ''='' # v))"
    and "trim_ascii n = n" and "parse_cookie_value v True = Some v"
proof -
  have n: "n \<noteq> []" "\<forall>c\<in>set n. is_token_char c"
    using assms by (simp_all add: cookie_pair_ok_def cookie_name_valid_def list_all_iff)
  have v: "\<forall>c\<in>set v. wire_char c" using assms by (simp add: cookie_pair_ok_def list_all_iff)
  have ns: "\<forall>c\<in>set n. c \<noteq> CHR '';'' \<and> c \<noteq> CHR ''='' \<and> \<not> is_ascii_space c"
    using n(2) token_char_sep by blast
  have vs: "\<forall>c\<in>set v. c \<noteq> CHR '';'' \<and> c \<noteq> CHR 0x22 \<and> valid_cookie_value_byte c \<and> \<not> is_ascii_space c"
    using v wire_char_facts by blast
  show "CHR '';'' \<notin> set (n @ CHR ''='' # v)" using ns vs by auto
  show "CHR ''='' \<notin> set n" using ns by blast
  show "n \<noteq> []" by (rule n(1))
  show "\<not> is_ascii_space (hd n)" using ns n(1) by simp
  show "\<not> is_ascii_space (last (n @ CHR ''='' # v))"
  proof (cases v rule: rev_cases)
    case Nil
    then show ?thesis by (simp add: is_ascii_space_def)
  next
    case (snoc ys y)
    then show ?thesis using vs by simp
  qed
  show "trim_ascii n = n" using ns n(1) by (intro trim_ascii_id) simp_all
  have ok: "list_all valid_cookie_value_byte v" using vs by (simp add: list_all_iff)
  show "parse_cookie_value v True = Some v"
  proof (cases v)
    case Nil
    then show ?thesis by (simp add: parse_cookie_value_def)
  next
    case (Cons a as)
    then have "a \<noteq> CHR 0x22" using vs by simp
    with ok Cons show ?thesis by (simp add: parse_cookie_value_def)
  qed
qed

lemma read_cookie_part_pair:
  assumes "cookie_pair_ok (n, v)"
  shows "read_cookie_part (n @ CHR ''='' # v) = [(n, v)]" and "read_cookie_part (CHR '' '' # n @ CHR ''='' # v) = [(n, v)]"
proof -
  note f = cookie_pair_facts [OF assms]
  have tr: "trim_ascii (n @ CHR ''='' # v) = n @ CHR ''='' # v"
    using f(3-5) by (intro trim_ascii_id) simp_all
  have tw: "takeWhile (\<lambda>x. x \<noteq> CHR ''='') (n @ CHR ''='' # v) = n"
    using f(2) by (subst takeWhile_append2) auto
  have ok: "cookie_name_valid n" using assms by (simp add: cookie_pair_ok_def)
  show "read_cookie_part (n @ CHR ''='' # v) = [(n, v)]"
    unfolding read_cookie_part_def Let_def tr tw using f(6,7) ok by simp
  then show "read_cookie_part (CHR '' '' # n @ CHR ''='' # v) = [(n, v)]"
    by (simp add: read_cookie_part_def trim_ascii_space is_ascii_space_def)
qed

lemma split_cookie_header:
  "list_all cookie_pair_ok ((n, v) # cs) \<Longrightarrow>
   split_on CHR '';'' (cookie_header ((n, v) # cs)) =
     (n @ CHR ''='' # v) # map (\<lambda>(m, u). CHR '' '' # m @ CHR ''='' # u) cs"
proof (induction cs arbitrary: n v)
  case Nil
  then show ?case using cookie_pair_facts(1) by (simp add: split_on_notin)
next
  case (Cons p cs)
  obtain m u where p: "p = (m, u)" by fastforce
  have eq: "cookie_header ((n, v) # (m, u) # cs) = (n @ CHR ''='' # v) @ CHR '';'' # CHR '' '' # cookie_header ((m, u) # cs)"
    by simp
  have "split_on CHR '';'' (cookie_header ((n, v) # (m, u) # cs)) =
      (n @ CHR ''='' # v) # split_on CHR '';'' (CHR '' '' # cookie_header ((m, u) # cs))"
    unfolding eq using Cons.prems cookie_pair_facts(1) [of n v] by (intro split_on_append) simp
  also have "\<dots> = (n @ CHR ''='' # v) # (CHR '' '' # m @ CHR ''='' # u) # map (\<lambda>(m, u). CHR '' '' # m @ CHR ''='' # u) cs"
    using Cons.IH [of m u] Cons.prems by (simp add: p)
  finally show ?case by (simp add: p)
qed

lemma cookie_header_nonempty: "cookie_pair_ok p \<Longrightarrow> cookie_header (p # cs) \<noteq> []"
  by (cases p; cases cs) (auto dest: cookie_pair_facts(3))

lemma read_cookie_parts:
  "list_all cookie_pair_ok cs \<Longrightarrow> concat (map read_cookie_part (map (\<lambda>(m, u). CHR '' '' # m @ CHR ''='' # u) cs)) = cs"
proof (induction cs)
  case (Cons p cs)
  obtain m u where "p = (m, u)" by fastforce
  with Cons show ?case by (simp add: read_cookie_part_pair)
qed simp

lemma cookie_header_ends:
  "list_all cookie_pair_ok cs \<Longrightarrow> cs \<noteq> [] \<Longrightarrow>
   \<not> is_ascii_space (hd (cookie_header cs)) \<and> \<not> is_ascii_space (last (cookie_header cs))"
proof (induction cs rule: cookie_header.induct)
  case (2 n v)
  then show ?case using cookie_pair_facts(3-5) [of n v] by simp
next
  case (3 n v p cs)
  then show ?case using cookie_pair_facts(3,4) [of n v] cookie_header_nonempty [of p cs] by (simp add: hd_append)
qed simp

lemma read_cookies_header: "list_all cookie_pair_ok cs \<Longrightarrow> read_cookies [cookie_header cs] = cs"
proof (cases cs)
  case Nil
  then show ?thesis by (simp add: read_cookies_def trim_ascii_def read_cookie_part_def)
next
  case (Cons p cs')
  assume ok: "list_all cookie_pair_ok cs"
  obtain n v where p: "p = (n, v)" by fastforce
  have c: "cs = (n, v) # cs'" using Cons p by simp
  have "cookie_header ((n, v) # cs') \<noteq> []" using ok c cookie_header_nonempty by simp
  then have tr: "trim_ascii (cookie_header ((n, v) # cs')) = cookie_header ((n, v) # cs')"
    using cookie_header_ends [OF ok] c by (intro trim_ascii_id) simp_all
  have "concat (map read_cookie_part (map (\<lambda>(m, u). CHR '' '' # m @ CHR ''='' # u) cs')) = cs'"
    using ok Cons by (intro read_cookie_parts) simp
  then show ?thesis
    using ok c by (simp add: read_cookies_def tr split_cookie_header read_cookie_part_pair)
qed

section \<open>The cookie Generate sets, on the wire\<close>

lemma generated_token_wire:
  "list_all wire_char (generate_at_time mac k u a t) \<and> generate_at_time mac k u a t \<noteq> [] \<and>
   sanitize_cookie_value (generate_at_time mac k u a t) = generate_at_time mac k u a t"
  by (simp add: generate_at_time_def Let_def b64_encode_wire b64_encode_Nil_iff sanitize_b64_encode)

lemma Generate_cookies_empty:
  obtains "resp_cookies (snd (Generate mac opts now s r empty_response)) = []"
  | u where "resp_cookies (snd (Generate mac opts now s r empty_response)) =
       [csrf_cookie opts now r (generate_at_time mac (opt_secret opts) u ''POST'' now)]"
     "GetToken (fst (Generate mac opts now s r empty_response)) = generate_at_time mac (opt_secret opts) u ''POST'' now"
proof -
  have "resp_cookies (snd (Generate mac opts now s r empty_response)) = [] \<or>
      (\<exists>u. resp_cookies (snd (Generate mac opts now s r empty_response)) =
             [csrf_cookie opts now r (generate_at_time mac (opt_secret opts) u ''POST'' now)] \<and>
           GetToken (fst (Generate mac opts now s r empty_response)) = generate_at_time mac (opt_secret opts) u ''POST'' now)"
    by (auto simp: generate_simps set_cookie_def header_add_def GetToken_def split: option.splits session_value.splits)
  then show ?thesis using that by blast
qed

lemma expiry_seconds_bound:
  assumes "in_int64 now"
  shows "(now + nanos_per_day) div 1000000000 < 100000000000"
proof -
  have "now + nanos_per_day < 100000000000 * 1000000000"
    using assms by (simp add: in_int64_def int64_max_def nanos_per_day_def)
  then show ?thesis by (simp add: div_less_iff_less_mult)
qed

lemma csrf_cookie_roundtrip:
  assumes "0 \<le> now" and "in_int64 now"
  shows "read_set_cookie (cookie_string (csrf_cookie opts now r (generate_at_time mac k u a now))) =
    Some ((csrf_cookie opts now r (generate_at_time mac k u a now))
      \<lparr>cookie_expires := (now + nanos_per_day) div 1000000000 * 1000000000,
       cookie_raw := cookie_string (csrf_cookie opts now r (generate_at_time mac k u a now)),
       cookie_unparsed := []\<rparr>)"
proof -
  let ?t = "generate_at_time mac k u a now"
  have t: "list_all wire_char ?t" "?t \<noteq> []" "sanitize_cookie_value ?t = ?t"
    using generated_token_wire by blast+
  have sec: "0 \<le> (now + nanos_per_day) div 1000000000"
    using assms(1) by (simp add: nanos_per_day_def)
  show ?thesis
    unfolding cookie_string_csrf [OF assms(1) t(3)]
    using read_csrf_line [OF t(1,2) sec expiry_seconds_bound [OF assms(2)], of "opt_secure opts"]
    by (simp add: csrf_cookie_def csrf_cookie_domain_empty)
qed

text \<open>
  Claim C28. The only \<open>Set-Cookie\<close> line a \<open>Generate\<close> response carries is
  \<open>_csrf=<token>; Path=/; Expires=<one day later>\<close>, followed by
  \<open>; Secure\<close> exactly when the option is set: no \<open>Domain\<close> attribute (the
  domain pattern never matches), and none of the \<open>Raw\<close> or \<open>Unparsed\<close> text
  the handler stores in the cookie.
\<close>

theorem Generate_set_cookie_line:
  assumes "0 \<le> now"
  shows "set_cookie_lines (snd (Generate mac opts now s r empty_response)) =
    map (\<lambda>c. ''_csrf='' @ cookie_value c @ ''; Path=/; Expires='' @
              http_date ((now + nanos_per_day) div 1000000000) @
              (if opt_secure opts then ''; Secure'' else []))
      (resp_cookies (snd (Generate mac opts now s r empty_response)))"
proof (cases rule: Generate_cookies_empty [of mac opts now s r])
  case 1
  then show ?thesis by (simp add: set_cookie_lines_def)
next
  case (2 u)
  have "sanitize_cookie_value (generate_at_time mac (opt_secret opts) u ''POST'' now) =
      generate_at_time mac (opt_secret opts) u ''POST'' now"
    using generated_token_wire by blast
  moreover have "0 \<le> now + nanos_per_day" using assms by (simp add: nanos_per_day_def)
  ultimately show ?thesis
    using 2 by (simp add: set_cookie_lines_def csrf_cookie_def csrf_cookie_domain_empty cookie_string_plain)
qed

theorem Generate_set_cookie_line_witness:
  "0 \<le> (0::int) \<and>
   set_cookie_lines (snd (Generate (\<lambda>k m. replicate 20 CHR ''x'') example_opts 0 example_session example_get
     empty_response)) =
   map (\<lambda>c. ''_csrf='' @ cookie_value c @ ''; Path=/; Expires='' @
             http_date ((0 + nanos_per_day) div 1000000000) @
             (if opt_secure example_opts then ''; Secure'' else []))
     (resp_cookies (snd (Generate (\<lambda>k m. replicate 20 CHR ''x'') example_opts 0 example_session example_get
       empty_response)))"
  using Generate_set_cookie_line [of 0 "\<lambda>k m. replicate 20 CHR ''x''" example_opts example_session example_get]
  by (simp only: order_refl simp_thms)

text \<open>
  What a browser reads back from the \<open>Set-Cookie\<close> lines of a \<open>Generate\<close>
  response: the cookies the handler set, with the expiry cut to whole seconds
  and \<open>Raw\<close> and \<open>Unparsed\<close> those of the line.
\<close>

lemma Generate_wire_cookies:
  assumes "0 \<le> now" and "in_int64 now"
  shows "read_set_cookies (set_cookie_lines (snd (Generate mac opts now s r empty_response))) =
    map (\<lambda>c. c\<lparr>cookie_expires := cookie_expires c div 1000000000 * 1000000000,
               cookie_raw := cookie_string c, cookie_unparsed := []\<rparr>)
      (resp_cookies (snd (Generate mac opts now s r empty_response)))"
proof (cases rule: Generate_cookies_empty [of mac opts now s r])
  case 1
  then show ?thesis by (simp add: set_cookie_lines_def read_set_cookies_def)
next
  case (2 u)
  let ?c = "csrf_cookie opts now r (generate_at_time mac (opt_secret opts) u ''POST'' now)"
  have ne: "cookie_string ?c \<noteq> []"
    using assms(1) generated_token_wire by (simp add: cookie_string_csrf)
  show ?thesis
    using 2 ne csrf_cookie_roundtrip [OF assms, of opts r mac "opt_secret opts" u "''POST''"]
    by (simp add: set_cookie_lines_def read_set_cookies_def) (simp add: csrf_cookie_def)
qed

text \<open>
  Claim C30. The token survives the whole cookie cycle: when \<open>Generate\<close> sets
  a cookie, a browser that parses its \<open>Set-Cookie\<close> line and sends the
  cookie back in a \<open>Cookie\<close> header gets, on its next request, exactly the
  context's token from \<open>r.Cookie("_csrf")\<close>, non-empty, so \<open>Generate\<close>
  reuses it (line 137).
\<close>

theorem Generate_cookie_cycle:
  assumes "0 \<le> now" and "in_int64 now"
  shows "list_all (\<lambda>c. reusable_cookie (r'\<lparr>req_cookies := read_cookies [cookie_header [(cookie_name c, cookie_value c)]]\<rparr>) =
                      Some (GetToken (fst (Generate mac opts now s r empty_response))))
           (read_set_cookies (set_cookie_lines (snd (Generate mac opts now s r empty_response))))"
proof (cases rule: Generate_cookies_empty [of mac opts now s r])
  case 1
  then show ?thesis by (simp add: set_cookie_lines_def read_set_cookies_def)
next
  case (2 u)
  let ?t = "generate_at_time mac (opt_secret opts) u ''POST'' now"
  let ?c = "csrf_cookie opts now r ?t"
  have t: "list_all wire_char ?t" "?t \<noteq> []" "sanitize_cookie_value ?t = ?t"
    using generated_token_wire by blast+
  have ne: "cookie_string ?c \<noteq> []" using assms(1) t(3) by (simp add: cookie_string_csrf)
  have ok: "list_all cookie_pair_ok [(''_csrf'', ?t)]"
    using t(1) wire_literals by (simp add: cookie_pair_ok_def)
  have "read_set_cookies (set_cookie_lines (snd (Generate mac opts now s r empty_response))) =
      [?c\<lparr>cookie_expires := (now + nanos_per_day) div 1000000000 * 1000000000,
          cookie_raw := cookie_string ?c, cookie_unparsed := []\<rparr>]"
    using 2 ne csrf_cookie_roundtrip [OF assms, of opts r mac "opt_secret opts" u "''POST''"]
    by (simp add: set_cookie_lines_def read_set_cookies_def)
  then show ?thesis
    using 2 t(2) read_cookies_header [OF ok]
    by (simp add: csrf_cookie_def reusable_cookie_def request_cookie_def)
qed

theorem Generate_cookie_cycle_witness:
  "0 \<le> (0::int) \<and> in_int64 0 \<and>
   list_all (\<lambda>c. reusable_cookie (example_get\<lparr>req_cookies := read_cookies [cookie_header [(cookie_name c, cookie_value c)]]\<rparr>) =
                  Some (GetToken (fst (Generate (\<lambda>k m. replicate 20 CHR ''x'') example_opts 0 example_session
                    example_get empty_response))))
     (read_set_cookies (set_cookie_lines (snd (Generate (\<lambda>k m. replicate 20 CHR ''x'') example_opts 0
       example_session example_get empty_response))))"
proof -
  have "in_int64 (0::int)" by (simp add: in_int64_def int64_min_def int64_max_def)
  then show ?thesis
    using Generate_cookie_cycle [of 0 example_get "\<lambda>k m. replicate 20 CHR ''x''" example_opts example_session
        example_get]
    by (simp only: order_refl simp_thms)
qed

end
