(* ===== verification/Browser.thy ===== *)
theory Browser
  imports Pipeline CookieWire
begin

text \<open>
  A browser session against the middleware, request after request (spec 2 data
  flow and spec 8). The user agent is not part of the repository; it is
  modelled as RFC 6265 describes it for the one cookie the code sets: it
  reads the \<open>Set-Cookie\<close> lines of the response as \<open>net/http\<close>'s
  \<open>readSetCookies\<close> does, stores the \<open>_csrf\<close> cookie with the expiry the
  line carries (whole seconds), sends it back while it has not expired, and renders into the page the token the
  handler got from \<open>GetToken\<close>. The session store entry its session cookie
  selects is part of the client state; logging in and out changes it. A run
  is an explicit sequence of events.
\<close>

section \<open>Definitions\<close>

record client =
  cl_jar :: "(bytes \<times> nanos) option"
  cl_page :: bytes
  cl_session :: session

definition client_init :: client where
  "client_init = \<lparr>cl_jar = None, cl_page = [], cl_session = (\<lambda>k. None)\<rparr>"

text \<open>The \<open>Cookie\<close> header: the stored cookie while \<open>now\<close> is before its expiry.\<close>

definition jar_cookies :: "nanos \<Rightarrow> (bytes \<times> nanos) option \<Rightarrow> (bytes \<times> bytes) list" where
  "jar_cookies now j = (case j of None \<Rightarrow> [] | Some (v, e) \<Rightarrow> if now < e then [(''_csrf'', v)] else [])"

text \<open>A \<open>Set-Cookie\<close> line for \<open>_csrf\<close>, as read back, replaces the stored cookie.\<close>

definition store_cookie :: "(bytes \<times> nanos) option \<Rightarrow> cookie \<Rightarrow> (bytes \<times> nanos) option" where
  "store_cookie j c = (if cookie_name c = ''_csrf'' then Some (cookie_value c, cookie_expires c) else j)"

definition get_request :: "bytes \<Rightarrow> nanos \<Rightarrow> client \<Rightarrow> request" where
  "get_request host now c =
     \<lparr>req_method = ''GET'', req_header = [], req_cookies = jar_cookies now (cl_jar c), req_form = [],
      req_host = host\<rparr>"

text \<open>
  Submitting the rendered form: the page's token in the \<open>_csrf\<close> field,
  sent as an urlencoded body that the server parses.
\<close>

definition post_request :: "bytes \<Rightarrow> nanos \<Rightarrow> client \<Rightarrow> request" where
  "post_request host now c =
     \<lparr>req_method = ''POST'', req_header = [], req_cookies = jar_cookies now (cl_jar c),
      req_form = parse_query (form_encode [(''_csrf'', cl_page c)]), req_host = host\<rparr>"

definition client_get :: "mac_fn \<Rightarrow> options \<Rightarrow> bytes \<Rightarrow> nanos \<Rightarrow> client \<Rightarrow> client" where
  "client_get mac opts host now c =
     (let (x, w) = Generate mac opts now (cl_session c) (get_request host now c) empty_response
      in c\<lparr>cl_jar := foldl store_cookie (cl_jar c) (read_set_cookies (set_cookie_lines w)),
           cl_page := GetToken x\<rparr>)"

text \<open>The response to the form submitted to a route protected by \<open>Validate\<close>.\<close>

definition client_post :: "mac_fn \<Rightarrow> options \<Rightarrow> bytes \<Rightarrow> nanos \<Rightarrow> client \<Rightarrow> response" where
  "client_post mac opts host now c =
     (let r = post_request host now c in serve mac opts now (cl_session c) r [validate_handler r])"

datatype event = EvGet nanos | EvLogin bytes | EvLogout

fun client_event :: "mac_fn \<Rightarrow> options \<Rightarrow> bytes \<Rightarrow> client \<Rightarrow> event \<Rightarrow> client" where
  "client_event mac opts host c (EvGet now) = client_get mac opts host now c"
| "client_event mac opts host c (EvLogin u) =
     c\<lparr>cl_session := (cl_session c)(opt_session_key opts \<mapsto> SessString u)\<rparr>"
| "client_event mac opts host c EvLogout = c\<lparr>cl_session := (cl_session c)(opt_session_key opts := None)\<rparr>"

definition run_events :: "mac_fn \<Rightarrow> options \<Rightarrow> bytes \<Rightarrow> client \<Rightarrow> event list \<Rightarrow> client" where
  "run_events mac opts host c evs = foldl (client_event mac opts host) c evs"


text \<open>
  The expiry a \<open>Set-Cookie\<close> line carries: whole seconds.
\<close>

definition wire_expiry :: "nanos \<Rightarrow> nanos" where
  "wire_expiry e = e div 1000000000 * 1000000000"


section \<open>One request\<close>


lemma client_get_wire:
  assumes "0 \<le> now" and "in_int64 now"
  shows "client_get mac opts host now c =
    c\<lparr>cl_jar := foldl store_cookie (cl_jar c)
         (map (\<lambda>ck. ck\<lparr>cookie_expires := cookie_expires ck div 1000000000 * 1000000000,
                      cookie_raw := cookie_string ck, cookie_unparsed := []\<rparr>)
           (resp_cookies (snd (Generate mac opts now (cl_session c) (get_request host now c) empty_response)))),
      cl_page := GetToken (fst (Generate mac opts now (cl_session c) (get_request host now c) empty_response))\<rparr>"
  unfolding client_get_def Let_def case_prod_beta Generate_wire_cookies [OF assms] ..

lemma client_get_subject:
  assumes "cl_session c (opt_session_key opts) = Some (SessString u)" and "0 \<le> now" and "in_int64 now"
  shows "client_get mac opts host now c =
    (let tok = generate_at_time mac (opt_secret opts) u ''POST'' now;
         mint = c\<lparr>cl_jar := (if opt_set_cookie opts then Some (tok, wire_expiry (now + nanos_per_day)) else cl_jar c),
                  cl_page := tok\<rparr>
     in case cl_jar c of
          None \<Rightarrow> mint
        | Some (v, e) \<Rightarrow> if now < e \<and> v \<noteq> [] then c\<lparr>cl_page := v\<rparr> else mint)"
  using assms(1)
  by (auto simp: client_get_wire [OF assms(2,3)] get_request_def jar_cookies_def generate_simps
      request_cookie_def header_get_def set_cookie_def header_add_def GetToken_def store_cookie_def
      csrf_cookie_def wire_expiry_def split: option.splits)


lemma client_get_session [simp]: "cl_session (client_get mac opts host now c) = cl_session c"
  by (simp add: client_get_def split: prod.splits)

lemma nanos_per_day_timeout: "nanos_per_day = xsrf_timeout"
  by (simp add: nanos_per_day_def xsrf_timeout_def)




section \<open>Submitting the form\<close>

lemma client_post_status_valid:
  assumes "cl_session c (opt_session_key opts) = Some (SessString u)" and "cl_page c \<noteq> []"
  shows "resp_status (client_post mac opts host p c) =
           (if valid_at_time mac (cl_page c) (opt_secret opts) u ''POST'' p then None else Some 400)"
proof -
  let ?r = "post_request host p c"
  obtain x2 w2 where g: "Generate mac opts p (cl_session c) ?r empty_response = (x2, w2)" by fastforce
  have x2: "csrf_secret x2 = opt_secret opts \<and> csrf_id x2 = u"
    using Generate_secret_id [of mac opts p "cl_session c" ?r empty_response] g assms(1) by simp
  have w2: "resp_status w2 = None"
    using serve_Generate_unwritten [of mac opts p "cl_session c" ?r] g by simp
  have "Validate ?r w2 (csrf_iface_of mac p x2) =
      (if ValidToken mac p x2 (cl_page c) then w2 else http_error w2 ''Invalid _csrf token'' 400)"
    using assms(2)
    by (simp add: validate_simps post_request_def header_get_def form_value_def iface_valid_token_of)
  then show ?thesis
    using w2 x2 by (simp add: client_post_def serve_validate g written_def http_error_def ValidToken_def)
qed


section \<open>Properties of browser sessions\<close>



text \<open>
  Claim C26. The reused cookie is not checked against the session's subject:
  when \<open>alice\<close> loads a page, then \<open>bob\<close> logs in on the same browser and loads
  a page a nanosecond later, \<open>bob\<close>'s page carries \<open>alice\<close>'s token, and
  \<open>bob\<close>'s form is rejected with status 400 (it stays so until the cookie
  expires a day later).
\<close>

theorem subject_switch_stale_token:
  "cl_page (run_events example_mac example_opts ''localhost'' client_init
      [EvLogin ''alice'', EvGet 0, EvLogin ''bob'', EvGet 1]) =
     generate_at_time example_mac ''token123'' ''alice'' ''POST'' 0 \<and>
   resp_status (client_post example_mac example_opts ''localhost'' 1
      (run_events example_mac example_opts ''localhost'' client_init
        [EvLogin ''alice'', EvGet 0, EvLogin ''bob'', EvGet 1])) = Some 400"
proof -
  let ?tok = "generate_at_time example_mac ''token123'' ''alice'' ''POST'' 0"
  let ?c1 = "client_event example_mac example_opts ''localhost'' client_init (EvLogin ''alice'')"
  have c2: "client_get example_mac example_opts ''localhost'' 0 ?c1 =
      ?c1\<lparr>cl_jar := Some (?tok, nanos_per_day), cl_page := ?tok\<rparr>"
    by (simp add: client_get_subject client_init_def Let_def wire_expiry_def nanos_per_day_def)
  let ?c3 = "client_event example_mac example_opts ''localhost''
               (?c1\<lparr>cl_jar := Some (?tok, nanos_per_day), cl_page := ?tok\<rparr>) (EvLogin ''bob'')"
  have c4: "client_get example_mac example_opts ''localhost'' 1 ?c3 = ?c3\<lparr>cl_page := ?tok\<rparr>"
    by (simp add: client_get_subject generate_at_time_not_Nil nanos_per_day_def Let_def in_int64_def
        int64_min_def int64_max_def)
  have run: "run_events example_mac example_opts ''localhost'' client_init
      [EvLogin ''alice'', EvGet 0, EvLogin ''bob'', EvGet 1] = ?c3\<lparr>cl_page := ?tok\<rparr>"
    by (simp only: run_events_def foldl_Cons foldl_Nil client_event.simps(1) c2 c4)
  have "\<not> valid_at_time example_mac ?tok ''token123'' ''bob'' ''POST'' 1"
  proof
    assume "valid_at_time example_mac ?tok ''token123'' ''bob'' ''POST'' 1"
    then have "clean ''alice'' = clean ''bob''"
      using valid_at_time_binding [of example_mac] by (blast intro: injI)
    then show False by (simp add: clean_def)
  qed
  then have "resp_status (client_post example_mac example_opts ''localhost'' 1 (?c3\<lparr>cl_page := ?tok\<rparr>)) = Some 400"
    by (simp add: client_post_status_valid generate_at_time_not_Nil)
  with run show ?thesis by simp
qed

end
