(* ===== verification/ExampleApp.thy ===== *)
theory ExampleApp
  imports Pipeline
begin

text \<open>
  The usage example of the package comment (\<open>src/csrf.go\<close> lines 7-59): a
  martini application that mounts \<open>sessions\<close>, \<open>csrf.Generate\<close> and
  \<open>render.Renderer\<close> as global middleware and four routes, the last of them
  protected by \<open>csrf.Validate\<close>. The routes are handler lists run by
  \<open>serve\<close>, so the application composes the two middlewares the way martini
  does; the \<open>/login\<close> handler's write to the session is the session the next
  request sees. \<open>render.HTML\<close> and \<open>render.Redirect\<close> come from
  \<open>martini-contrib/render\<close> and are modelled from their documentation: the
  template engine is a parameter \<open>render\<close> from a template name and its data
  to the page, and the short HTML body \<open>http.Redirect\<close> adds to a redirect is
  not modelled. An unmatched route is martini's \<open>http.NotFound\<close>.
\<close>

section \<open>Definitions\<close>

type_synonym renderer = "bytes \<Rightarrow> bytes \<Rightarrow> bytes"

text \<open>\<open>render.Redirect(location, status)\<close>: \<open>http.Redirect\<close> sets \<open>Location\<close> and writes the status.\<close>

definition redirect :: "response \<Rightarrow> bytes \<Rightarrow> nat \<Rightarrow> response" where
  "redirect w loc code =
     w\<lparr>resp_header := resp_header w @ [(''Location'', loc)],
       resp_status := (case resp_status w of None \<Rightarrow> Some code | Some c \<Rightarrow> Some c)\<rparr>"

text \<open>\<open>render.HTML(status, name, binding)\<close>: the executed template as an HTML page.\<close>

definition render_html :: "renderer \<Rightarrow> response \<Rightarrow> nat \<Rightarrow> bytes \<Rightarrow> bytes \<Rightarrow> response" where
  "render_html render w code name binding =
     w\<lparr>resp_header := resp_header w @ [(''Content-Type'', ''text/html; charset=UTF-8'')],
       resp_status := (case resp_status w of None \<Rightarrow> Some code | Some c \<Rightarrow> Some c),
       resp_body := resp_body w @ render name binding\<rparr>"

text \<open>Lines 22-25: \<open>&csrf.Options{Secret: "token123", SessionKey: "userId"}\<close>.\<close>

definition example_app_opts :: options where
  "example_app_opts =
     \<lparr>opt_secret = ''token123'', opt_session_key = ''userId'', opt_set_header = False,
      opt_set_cookie = False, opt_secure = False\<rparr>"

text \<open>Lines 30-36: \<open>GET /\<close> sends a visitor without a subject id to the login page.\<close>

definition root_handler :: "session \<Rightarrow> csrf_iface \<Rightarrow> response \<Rightarrow> response" where
  "root_handler s x w =
     (if s ''userId'' = None then redirect w ''/login'' 302 else redirect w ''/protected'' 302)"

text \<open>Lines 39-42: \<open>GET /login\<close> stores the subject id and redirects to \<open>/\<close>.\<close>

definition login_session :: "session \<Rightarrow> session" where
  "login_session s = s(''userId'' \<mapsto> SessString ''123456'')"

definition login_handler :: "csrf_iface \<Rightarrow> response \<Rightarrow> response" where
  "login_handler x w = redirect w ''/'' 302"

text \<open>Lines 45-47: \<open>GET /protected\<close> renders the form with \<open>x.GetToken()\<close>.\<close>

definition protected_get :: "renderer \<Rightarrow> csrf_iface \<Rightarrow> response \<Rightarrow> response" where
  "protected_get render x w = render_html render w 200 ''protected'' (iface_get_token x)"

text \<open>Lines 50-56: the handler after \<open>csrf.Validate\<close> on \<open>POST /protected\<close>.\<close>

definition protected_post :: "renderer \<Rightarrow> session \<Rightarrow> csrf_iface \<Rightarrow> response \<Rightarrow> response" where
  "protected_post render s x w =
     (if s ''userId'' \<noteq> None then render_html render w 200 ''result'' ''You submitted a valid token''
      else redirect w ''/login'' 401)"

definition not_found :: "csrf_iface \<Rightarrow> response \<Rightarrow> response" where
  "not_found x w = http_error w ''404 page not found'' 404"

text \<open>The router: the handler list of the route matching the method and the path.\<close>

definition example_routes ::
  "renderer \<Rightarrow> session \<Rightarrow> bytes \<Rightarrow> request \<Rightarrow> (csrf_iface \<Rightarrow> response \<Rightarrow> response) list" where
  "example_routes render s path r =
     (if req_method r = ''GET'' \<and> path = ''/'' then [root_handler s]
      else if req_method r = ''GET'' \<and> path = ''/login'' then [login_handler]
      else if req_method r = ''GET'' \<and> path = ''/protected'' then [protected_get render]
      else if req_method r = ''POST'' \<and> path = ''/protected'' then [validate_handler r, protected_post render s]
      else [not_found])"

text \<open>One request: the session after it and the response.\<close>

definition example_app ::
  "mac_fn \<Rightarrow> renderer \<Rightarrow> nanos \<Rightarrow> session \<Rightarrow> bytes \<Rightarrow> request \<Rightarrow> session \<times> response" where
  "example_app mac render now s path r =
     (if req_method r = ''GET'' \<and> path = ''/login'' then login_session s else s,
      serve mac example_app_opts now s r (example_routes render s path r))"

text \<open>The browser of the example: no cookies besides the session's, no custom headers.\<close>

definition browser_request :: "bytes \<Rightarrow> (bytes \<times> bytes) list \<Rightarrow> request" where
  "browser_request meth form =
     \<lparr>req_method = meth, req_header = [], req_cookies = [], req_form = parse_query (form_encode form),
        req_host = ''localhost:3000''\<rparr>"

text \<open>A script of requests, each with its clock reading and path, run in order.\<close>

fun app_run :: "mac_fn \<Rightarrow> renderer \<Rightarrow> session \<Rightarrow> (nanos \<times> bytes \<times> request) list \<Rightarrow> response list" where
  "app_run mac render s [] = []"
| "app_run mac render s ((now, path, r) # rs) =
     (let (s', w) = example_app mac render now s path r in w # app_run mac render s' rs)"

section \<open>Requests of the example\<close>

lemma serve_single:
  "serve mac opts now s r [h] = (let (x, w) = Generate mac opts now s r empty_response in h (csrf_iface_of mac now x) w)"
  by (simp add: serve_def Let_def split: prod.splits)

lemma serve_pair:
  "serve mac opts now s r [h1, h2] =
     (let (x, w) = Generate mac opts now s r empty_response;
          w' = h1 (csrf_iface_of mac now x) w
      in if written w' then w' else h2 (csrf_iface_of mac now x) w')"
  by (simp add: serve_def Let_def split: prod.splits)

text \<open>\<open>Generate\<close> with the example's options: a token only on a \<open>GET\<close> of a logged-in session, no cookie, no header.\<close>

lemma Generate_example_app:
  "Generate mac example_app_opts now s (browser_request meth form) w =
     (let uid = (case s ''userId'' of Some (SessString u) \<Rightarrow> u | _ \<Rightarrow> []);
          x = \<lparr>csrf_token = [], csrf_id = uid, csrf_secret = ''token123''\<rparr>
      in (if meth = ''GET'' \<and> (\<exists>u. s ''userId'' = Some (SessString u))
          then x\<lparr>csrf_token := generate_at_time mac ''token123'' uid ''POST'' now\<rparr> else x, w))"
  by (auto simp: generate_simps browser_request_def example_app_opts_def request_cookie_def header_get_def
      split: option.splits session_value.splits)

lemma browser_request_sel [simp]:
  "req_method (browser_request meth form) = meth" "req_header (browser_request meth form) = []"
  "req_form (browser_request meth form) = form"
  by (simp_all add: browser_request_def)

lemma login_session_userId [simp]: "login_session s ''userId'' = Some (SessString ''123456'')"
  by (simp add: login_session_def)

lemmas example_app_simps = example_app_def example_routes_def serve_single serve_pair Generate_example_app
  root_handler_def login_handler_def protected_get_def protected_post_def redirect_def render_html_def
  csrf_iface_of_def GetToken_def Let_def

section \<open>Properties of the example application\<close>

text \<open>
  Claim C6. The example works as its comments describe: a visitor is sent
  from \<open>/\<close> to \<open>/login\<close>, gets the subject id \<open>123456\<close> and is sent back to
  \<open>/\<close> and on to \<open>/protected\<close>, whose page carries the token minted for that
  subject at time \<open>t\<close>; submitting it within 24 hours renders the result page.
\<close>

theorem example_login_flow:
  assumes "in_int64 t" and "t' - t < xsrf_timeout"
  shows "app_run mac render (\<lambda>k. None)
           [(ta, ''/'', browser_request ''GET'' []), (tb, ''/login'', browser_request ''GET'' []),
            (tc, ''/'', browser_request ''GET'' []), (t, ''/protected'', browser_request ''GET'' []),
            (t', ''/protected'', browser_request ''POST''
                                   [(''_csrf'', generate_at_time mac ''token123'' ''123456'' ''POST'' t)])] =
         [redirect empty_response ''/login'' 302, redirect empty_response ''/'' 302,
          redirect empty_response ''/protected'' 302,
          render_html render empty_response 200 ''protected'' (generate_at_time mac ''token123'' ''123456'' ''POST'' t),
          render_html render empty_response 200 ''result'' ''You submitted a valid token'']"
proof -
  have "ValidToken mac t' \<lparr>csrf_token = [], csrf_id = ''123456'', csrf_secret = ''token123''\<rparr>
      (generate_at_time mac ''token123'' ''123456'' ''POST'' t)"
    using assms by (simp add: ValidToken_def valid_generate_iff)
  then show ?thesis
    by (simp add: example_app_simps validate_simps header_get_def form_value_def written_def
        generate_at_time_not_Nil login_session_def)
qed

theorem example_login_flow_witness:
  "in_int64 0 \<and> 60000000000 - 0 < xsrf_timeout \<and>
   app_run (\<lambda>k m. m) (\<lambda>n b. n @ b) (\<lambda>k. None)
     [(0, ''/'', browser_request ''GET'' []), (0, ''/login'', browser_request ''GET'' []),
      (0, ''/'', browser_request ''GET'' []), (0, ''/protected'', browser_request ''GET'' []),
      (60000000000, ''/protected'', browser_request ''POST''
         [(''_csrf'', generate_at_time (\<lambda>k m. m) ''token123'' ''123456'' ''POST'' 0)])] =
   [redirect empty_response ''/login'' 302, redirect empty_response ''/'' 302,
    redirect empty_response ''/protected'' 302,
    render_html (\<lambda>n b. n @ b) empty_response 200 ''protected''
      (generate_at_time (\<lambda>k m. m) ''token123'' ''123456'' ''POST'' 0),
    render_html (\<lambda>n b. n @ b) empty_response 200 ''result'' ''You submitted a valid token'']"
  using example_login_flow [where t = 0 and t' = 60000000000 and mac = "\<lambda>k m. m" and render = "\<lambda>n b. n @ b"
      and ta = 0 and tb = 0 and tc = 0]
  by (simp add: xsrf_timeout_def)

text \<open>
  Claim C7. On a logged-in session, \<open>POST /protected\<close> renders the result
  page exactly when the submitted \<open>_csrf\<close> value is a token minted for the
  secret \<open>token123\<close>, the subject \<open>123456\<close> and \<open>POST\<close> less than 24 hours
  ago; an empty value gets 400 \<open>Bad Request\<close> and any other 400
  \<open>Invalid _csrf token\<close>, and the route's handler never runs.
\<close>

theorem example_post_protected:
  "snd (example_app mac render now (login_session s) ''/protected''
          (browser_request ''POST'' [(''_csrf'', c)])) =
     (if c = [] then http_error empty_response ''Bad Request'' 400
      else if \<exists>t. in_int64 t \<and> now - t < xsrf_timeout \<and> c = generate_at_time mac ''token123'' ''123456'' ''POST'' t
      then render_html render empty_response 200 ''result'' ''You submitted a valid token''
      else http_error empty_response ''Invalid _csrf token'' 400)"
  by (auto simp: example_app_simps validate_simps header_get_def form_value_def written_def ValidToken_iff
      http_error_def)

text \<open>
  Claim C27. The example serves its protected form to a visitor who never
  logged in, with an empty token, so submitting that form gets 400
  \<open>Bad Request\<close>; the handler's redirect to \<open>/login\<close> (status 401) is
  reached only with a token minted for the empty subject id.
\<close>

theorem example_anonymous_visitor:
  "snd (example_app mac render now (\<lambda>k. None) ''/protected'' (browser_request ''GET'' [])) =
     render_html render empty_response 200 ''protected'' [] \<and>
   snd (example_app mac render now (\<lambda>k. None) ''/protected'' (browser_request ''POST'' [(''_csrf'', c)])) =
     (if c = [] then http_error empty_response ''Bad Request'' 400
      else if \<exists>t. in_int64 t \<and> now - t < xsrf_timeout \<and> c = generate_at_time mac ''token123'' [] ''POST'' t
      then redirect empty_response ''/login'' 401
      else http_error empty_response ''Invalid _csrf token'' 400)"
  by (auto simp: example_app_simps validate_simps header_get_def form_value_def written_def ValidToken_iff
      http_error_def)

end
