(* ===== verification/Spec2Isabelle.thy ===== *)
theory Spec2Isabelle
  imports Browser ExampleApp TokenShape CookieWire
begin

text \<open>
  \<^bold>\<open>A verification development of the martini CSRF middleware (src/csrf.go).\<close>

  \<^bold>\<open>The program.\<close> The package has two martini handlers and the context they
  share. \<open>Generate(opts)\<close> (lines 119-169) is global middleware: for every
  request it builds a context \<open>csrf{Token, Id, Secret}\<close> (lines 81-88), maps it
  as the interface \<open>Csrf\<close> (lines 74-79), reads the subject id from the session,
  and on a \<open>GET\<close> without an \<open>X-API-Key\<close> header either reuses a non-empty
  \<open>_csrf\<close> cookie or mints a token with \<open>xsrftoken.Generate\<close>, sets the cookie
  and the \<open>X-CSRFToken\<close> header as configured. \<open>Validate\<close> (lines 175-190) is
  per-route middleware: it takes the candidate from the \<open>X-CSRFToken\<close> header,
  else from the \<open>_csrf\<close> form value, checks it with \<open>ValidToken\<close> (lines
  97-99, a call of \<open>xsrftoken.Valid\<close>) and answers 400 when it fails or when
  there is no candidate. martini stops the chain once a handler has written
  a status.

  \<^bold>\<open>Theories.\<close>
  \<^item> \<open>Prelude\<close>: int64 range, \<open>bytes.LastIndex\<close> (\<open>last_index\<close>) and the
    splitting lemmas on separators the codec proofs share; the collection
    \<open>go_simps\<close>.
  \<^item> \<open>Decimal\<close>: \<open>fmt %d\<close> of an int64 (\<open>show_int\<close>) and \<open>strconv.ParseInt(s, 10,
    64)\<close> (\<open>parse_int64\<close>) with their round trip.
  \<^item> \<open>Base64\<close>: \<open>base64.URLEncoding\<close> encoding and (non-strict) decoding with
    the round trip \<open>b64_decode (b64_encode xs) = Some xs\<close> and injectivity.
  \<^item> \<open>TokenCodec\<close>: the \<open>xsrftoken\<close> package, not in the repository and
    modelled from spec 4.1 and the package's token layout; the keyed hash is a
    parameter \<open>mac\<close>. \<open>valid_at_time_iff\<close> characterises what verification
    accepts, \<open>valid_at_time_binding\<close> what a token binds.
  \<^item> \<open>Http\<close>: the request fields, the response writer as an explicit state
    (\<open>response\<close>: headers, cookies, status, body), \<open>http.Error\<close>, and the
    session as a partial map to dynamically typed values; header keys in
    canonical form (\<open>textproto.CanonicalMIMEHeaderKey\<close> as
    \<open>canonical_key\<close>, used by \<open>Header.Get\<close> and \<open>Header.Add\<close>) and the
    server's header reader \<open>read_mime_header\<close>, with the lemmas that keys
    are case-insensitive and canonicalisation is idempotent; the form as
    \<open>url.ParseQuery\<close> (\<open>parse_query\<close>, \<open>query_unescape\<close>) reads an
    urlencoded body, and the body a browser encodes (\<open>form_encode\<close>), with
    the round trip \<open>parse_query (form_encode fs) = fs\<close>.
  \<^item> \<open>CsrfContext\<close>: the struct \<open>csrf\<close>, \<open>GetToken\<close>, \<open>ValidToken\<close> and the
    interface \<open>Csrf\<close> as the record \<open>csrf_iface\<close> of the two methods
    (\<open>csrf_iface_of\<close> is the method set of \<open>*csrf\<close>).
  \<^item> \<open>Regex\<close>: Go's \<open>regexp.Compile\<close> (a fuelled parser for the syntax the
    source uses) and \<open>regexp.Match\<close> (a matcher proved equal to the reference
    semantics \<open>re_match\<close>); the constant of line 115 as its string
    \<open>domainReg_src\<close>, which compiles to the term \<open>domainReg\<close>.
  \<^item> \<open>Generate\<close>: \<open>Options\<close>, and the handler of \<open>Generate\<close> as a function from
    the session, the request and the response to the mapped context and the
    new response, one definition per block of the source (\<open>issue_token\<close> for
    the \<open>GET\<close> branch, \<open>reusable_cookie\<close>, \<open>mint_token\<close>, \<open>csrf_cookie\<close>,
    \<open>csrf_cookie_domain\<close>).
  \<^item> \<open>Validate\<close>: the handler over the interface, one \<open>check_candidate\<close> per
    candidate source, and the state machine of spec 4.3 as the inductive
    relation \<open>vstep\<close> that \<open>Validate\<close> refines.
  \<^item> \<open>Pipeline\<close>: martini's handler chain \<open>run_chain\<close> and one request
    \<open>serve\<close> (global \<open>Generate\<close>, then the route's handlers).
  \<^item> \<open>Browser\<close>: a user agent across requests (not code of the repository;
    RFC 6265 for the \<open>_csrf\<close> cookie): the cookie read back from the
    \<open>Set-Cookie\<close> line with its expiry in whole seconds (\<open>wire_expiry\<close>), the
    page token, the session its session cookie selects, the form posted as an
    urlencoded body; runs are explicit
    event sequences (\<open>EvGet\<close>, \<open>EvLogin\<close>, \<open>EvLogout\<close>) folded by
    \<open>run_events\<close>, with the invariant \<open>jar_inv\<close> preserved by every event.
  \<^item> \<open>TokenShape\<close>: library lemmas on the shape of the cookie \<open>Generate\<close> sets: canonical
    base64url text that \<open>net/http\<close>'s \<open>sanitizeCookieValue\<close> keeps unchanged,
    and its length bounds (32 to 56 bytes for a 20-byte HMAC and an int64
    clock), from the encoder's length and the decimal length of an int64.
  \<^item> \<open>ExampleApp\<close>: the usage example of the package comment (lines 7-59)
    as the application martini runs: \<open>Generate\<close> with its \<open>Options\<close>, the
    four routes as handler lists run by \<open>serve\<close>, the session write of
    \<open>/login\<close>; \<open>app_run\<close> runs a script of requests in order.
  \<^item> \<open>HttpDate\<close>: \<open>time\<close>'s proleptic Gregorian calendar (year and month
    loops \<open>year_fwd\<close>, \<open>year_bwd\<close>, \<open>month_fwd\<close> with measure termination),
    \<open>Format(http.TimeFormat)\<close> as \<open>http_date\<close> and \<open>time.Parse\<close> for that
    layout as \<open>time_parse\<close> in the option monad; the date round trip.
  \<^item> \<open>CookieWire\<close>: what \<open>http.SetCookie\<close> sends and a browser reads:
    \<open>Cookie.String\<close> (\<open>cookie_string\<close>, with the name, value, path, domain
    and expiry checks of \<open>net/http\<close>), \<open>set_cookie_lines\<close>, and
    \<open>readSetCookies\<close> (\<open>read_set_cookie\<close>, \<open>read_attrs\<close>); the exact line
    \<open>Generate\<close> sends and its parse back; the \<open>Cookie\<close> request header a
    user agent builds (\<open>cookie_header\<close>) and \<open>readCookies\<close>
    (\<open>read_cookies\<close>) that \<open>r.Cookie\<close> reads it with, and their round trip.
  \<^item> This theory: example runs and the end-to-end properties (an issued
    token is accepted, acceptance is sound, tokens do not transfer between
    subjects, a request without token never reaches the route).

  \<^bold>\<open>Correspondence.\<close> Go's mutable \<open>x\<close> and \<open>w\<close> are threaded explicitly:
  \<open>Generate\<close> returns the final context and response. Both readings of the
  clock in \<open>Generate\<close> (\<open>xsrftoken.Generate\<close> and \<open>time.Now()\<close> for the expiry)
  are one argument \<open>now\<close> in nanoseconds; \<open>AddDate(0, 0, 1)\<close> is 24 hours
  (\<open>nanos_per_day\<close>, exact in UTC). \<open>ValidToken\<close> reads the clock when a handler
  calls it; \<open>csrf_iface_of mac now x\<close> fixes that reading to the time of the
  request, the same \<open>now\<close> that request's \<open>Generate\<close> run sees. Errors are values: every failure of
  \<open>xsrftoken.Valid\<close> is \<open>False\<close>, every \<open>http.Error\<close> a written status.

  \<^bold>\<open>What is proved.\<close> For each handler, its behaviour on every branch
  (Validate.thy, Generate.thy); the refinement of the spec's validation
  machine; the round trip and the soundness of token checking
  (CsrfContext.thy) over the codec's round trips (Decimal.thy, Base64.thy,
  TokenCodec.thy); that the fuel-bounded matcher computes exactly the
  reference semantics \<open>re_match\<close> (\<open>re_ends_correct\<close>, Regex.thy); that over
  whole browser sessions the page token is accepted while its cookie is
  sent and is rejected less than a second after the cookie expires
  (Browser.thy, with both clock readings of one request taken as one
  instant and \<open>AddDate(0, 0, 1)\<close> as 24 hours); that the \<open>Expires\<close> date is fixed-width and parses
  back to the same second (HttpDate.thy), and that the \<open>Set-Cookie\<close> line of
  a \<open>Generate\<close> response is exactly \<open>_csrf=<token>; Path=/; Expires=<date>\<close>
  with \<open>; Secure\<close> as configured and reads back to the cookie the handler set,
  up to whole seconds and the ignored \<open>Raw\<close> and \<open>Unparsed\<close>
  (CookieWire.thy), from where, sent back in a \<open>Cookie\<close> header, it gives
  \<open>Generate\<close> the same token to reuse; and the end-to-end properties below.

  \<^bold>\<open>Bounds and fuel.\<close> Times are unbounded integers with the int64 range as a
  hypothesis where the codec needs it (\<open>in_int64\<close>): \<open>ParseInt\<close> rejects
  anything outside it and \<open>Time.Sub\<close> saturates (\<open>duration_sub\<close>). The only
  bounded iteration is the star of the matcher, \<open>length s + 1\<close> rounds with an
  early stop at a fixpoint; matching positions lie in \<open>0..length s\<close>, so each
  round that does not stop adds one of at most \<open>length s + 1\<close> positions,
  and \<open>star_iter_reach\<close> proves the bound enough; hence the hostname check
  of \<open>Generate\<close> returns RE2's answer. The calendar loops are \<open>function\<close>s
  with measure termination, no fuel. The date round trip is proved for
  seconds \<open>0 \<le> s < 10\<^sup>1\<^sup>1\<close> (1970 to about the year 5100): the
  layout has four year digits, and an int64 clock plus one day stays
  inside that range.

  \<^bold>\<open>Findings.\<close> \<open>domainReg\<close> matches nothing in Go, so the cookie never
  has a domain; a reused \<open>_csrf\<close> cookie is never verified, so after a
  change of user on one browser every form fails for a day; \<open>clean\<close> makes
  the subject ids \<open>a:b\<close> and \<open>a_b\<close> share tokens; the token header goes
  out as \<open>X-Csrftoken\<close> and is read under any capitalisation; tokens stamped in the
  future are accepted; error bodies end in a newline; the \<open>Raw\<close>,
  \<open>RawExpires\<close> and \<open>Unparsed\<close> fields the handler fills are never sent.

  The usage example does not compile as written (misspelt import paths, a
  stray \<open>dd\<close>, a missing parenthesis); \<open>ExampleApp\<close> models its evident
  intent.

  \<^bold>\<open>Not modelled.\<close> The source calls these and the model keeps them
  abstract or leaves them out, because no property of \<open>src/csrf.go\<close> depends
  on their internals:
  \<^item> martini's injector, and the \<open>Logger\<close>, \<open>Recovery\<close> and \<open>Static\<close>
    handlers of \<open>martini.Classic\<close>: nothing in the package panics or
    serves files;
  \<^item> the session store's internals (\<open>securecookie\<close> encoding): the session
    is the partial map the handlers see;
  \<^item> HMAC-SHA1 itself, a parameter \<open>mac\<close>; the template engine of
    \<open>render.HTML\<close>, a parameter; the body \<open>http.Redirect\<close> writes;
  \<^item> the \<open>SameSite\<close> and \<open>Partitioned\<close> cookie attributes (never set)
    and \<open>RawExpires\<close> (never sent); time zones other than \<open>GMT\<close>,
    \<open>UTC\<close> and a \<open>GMT\<close> offset when parsing (other abbreviations read as
    offset zero, as \<open>time.Parse\<close> does for unknown ones in UTC); daylight
    saving in \<open>AddDate\<close> (UTC assumed);
  \<^item> continuation lines of request headers, multipart form bodies and the
    URL query part of \<open>r.Form\<close> (the form is the urlencoded body), CR/LF
    skipping in base64 decoding, IPv6 literals in \<open>r.Host\<close>;
  \<^item> the import block and package clause (lines 60-71), which declare
    nothing the model could translate.
\<close>

section \<open>Example runs\<close>

abbreviation example_token :: bytes where
  "example_token \<equiv> generate_at_time example_mac ''token123'' ''123456'' ''POST'' 0"

abbreviation example_post_token :: request where
  "example_post_token \<equiv> example_post\<lparr>req_header := [(''X-Csrftoken'', example_token)]\<rparr>"

abbreviation example_session_of :: "bytes \<Rightarrow> session" where
  "example_session_of u \<equiv> (\<lambda>k. if k = ''userId'' then Some (SessString u) else None)"

lemma example_get_Generate:
  "Generate example_mac example_opts 0 example_session example_get empty_response =
     (\<lparr>csrf_token = example_token, csrf_id = ''123456'', csrf_secret = ''token123''\<rparr>,
      header_add (set_cookie empty_response (csrf_cookie example_opts 0 example_get example_token))
        ''X-CSRFToken'' example_token)"
  by (simp add: generate_simps request_cookie_def header_get_def)

lemma example_post_Generate:
  "Generate example_mac example_opts now example_session example_post_token empty_response =
     (\<lparr>csrf_token = [], csrf_id = ''123456'', csrf_secret = ''token123''\<rparr>, empty_response)"
  by (simp add: generate_simps)

lemma example_alice_Generate:
  "GetToken (fst (Generate example_mac example_opts 0 (example_session_of ''alice'') example_get empty_response)) =
     generate_at_time example_mac ''token123'' ''alice'' ''POST'' 0"
  by (simp add: generate_simps request_cookie_def header_get_def GetToken_def)

section \<open>Properties of the whole middleware\<close>


text \<open>
  Claim C1. End to end: a token that \<open>Generate\<close> issued in the
  \<open>X-CSRFToken\<close> header of a \<open>GET\<close> response, sent back in the
  \<open>X-CSRFToken\<close> header of a later request of the same session within 24
  hours, passes \<open>Validate\<close>: the protected route runs exactly as it would
  without \<open>Validate\<close> (spec 2 data flow, spec 8 validation scenario 1).
\<close>

theorem issued_token_accepted:
  assumes "s (opt_session_key opts) = Some (SessString uid)"
    and "req_method r1 = ''GET''" and "header_get (req_header r1) ''X-API-Key'' = []"
    and "case request_cookie r1 ''_csrf'' of None \<Rightarrow> True | Some v \<Rightarrow> v = []"
    and "opt_set_header opts" and "in_int64 t1"
    and "header_get (req_header r2) ''X-CSRFToken'' =
           header_get (resp_header (snd (Generate mac opts t1 s r1 empty_response))) ''X-CSRFToken''"
    and "t2 - t1 < xsrf_timeout"
  shows "serve mac opts t2 s r2 (validate_handler r2 # hs) = serve mac opts t2 s r2 hs"
proof -
  let ?tok = "generate_at_time mac (opt_secret opts) uid ''POST'' t1"
  have "header_get (resp_header (snd (Generate mac opts t1 s r1 empty_response))) ''X-CSRFToken'' = ?tok"
    using Generate_mint_response [where s = s and opts = opts and uid = uid and r = r1 and mac = mac
        and now = t1 and w = empty_response] assms(1-5)
    by (simp add: Let_def header_get_def header_add_def set_cookie_def empty_response_def)
  with assms(7) have h: "header_get (req_header r2) ''X-CSRFToken'' = ?tok" by simp
  obtain x2 w2 where g: "Generate mac opts t2 s r2 empty_response = (x2, w2)" by fastforce
  have x2: "csrf_secret x2 = opt_secret opts \<and> csrf_id x2 = uid"
    using Generate_secret_id [of mac opts t2 s r2 empty_response] g assms(1) by simp
  have "ValidToken mac t2 x2 ?tok"
    using x2 assms(6,8) by (simp add: ValidToken_def valid_generate_iff)
  then have "Validate r2 w2 (csrf_iface_of mac t2 x2) = w2"
    using h generate_at_time_not_Nil by (simp add: validate_simps iface_valid_token_of)
  moreover have "\<not> written w2"
    using serve_Generate_unwritten [of mac opts t2 s r2] g by (simp add: written_def)
  ultimately show ?thesis
    by (simp add: serve_validate serve_def g)
qed


theorem issued_token_accepted_witness:
  "example_session (opt_session_key example_opts) = Some (SessString ''123456'') \<and>
   req_method example_get = ''GET'' \<and> header_get (req_header example_get) ''X-API-Key'' = [] \<and>
   (case request_cookie example_get ''_csrf'' of None \<Rightarrow> True | Some v \<Rightarrow> v = []) \<and>
   opt_set_header example_opts \<and> in_int64 0 \<and>
   header_get (req_header (example_post\<lparr>req_header := [(''X-Csrftoken'', example_token)]\<rparr>)) ''X-CSRFToken'' =
     header_get (resp_header (snd (Generate example_mac example_opts 0 example_session example_get empty_response)))
       ''X-CSRFToken'' \<and>
   60000000000 - 0 < xsrf_timeout \<and>
   serve example_mac example_opts 60000000000 example_session
     (example_post\<lparr>req_header := [(''X-Csrftoken'', example_token)]\<rparr>)
     [validate_handler (example_post\<lparr>req_header := [(''X-Csrftoken'', example_token)]\<rparr>)] =
   serve example_mac example_opts 60000000000 example_session
     (example_post\<lparr>req_header := [(''X-Csrftoken'', example_token)]\<rparr>) []"
  using issued_token_accepted [of example_session example_opts "''123456''" example_get 0
      "example_post\<lparr>req_header := [(''X-Csrftoken'', example_token)]\<rparr>" example_mac 60000000000 "[]"]
  by (simp add: example_get_Generate request_cookie_def header_get_def header_add_def set_cookie_def
      xsrf_timeout_def)

text \<open>
  Claim C2. End to end: when \<open>Validate\<close> lets a request through,
  the request carries, in its \<open>X-CSRFToken\<close> header or its \<open>_csrf\<close>
  form field, a non-empty candidate equal to the token of the codec for the
  configured secret, the session's subject id and \<open>POST\<close>, generated at an
  int64 time less than 24 hours ago.
\<close>

theorem validation_sound:
  assumes "\<not> written (Validate r (snd (Generate mac opts now s r empty_response))
                (csrf_iface_of mac now (fst (Generate mac opts now s r empty_response))))"
  shows "\<exists>c t. c \<in> {header_get (req_header r) ''X-CSRFToken'', form_value r ''_csrf''} \<and> c \<noteq> [] \<and>
           in_int64 t \<and> now - t < xsrf_timeout \<and>
           c = generate_at_time mac (opt_secret opts)
                 (case s (opt_session_key opts) of Some (SessString u) \<Rightarrow> u | _ \<Rightarrow> []) ''POST'' t"
proof -
  let ?x = "fst (Generate mac opts now s r empty_response)"
  let ?h = "header_get (req_header r) ''X-CSRFToken''" and ?f = "form_value r ''_csrf''"
  have "\<not> written (Validate r (snd (Generate mac opts now s r empty_response)) (csrf_iface_of mac now ?x)) \<longleftrightarrow>
    (let h = ?h; f = ?f in if h \<noteq> [] then iface_valid_token (csrf_iface_of mac now ?x) h
                           else f \<noteq> [] \<and> iface_valid_token (csrf_iface_of mac now ?x) f)"
    by (rule Validate_passes_iff [OF serve_Generate_unwritten])
  with assms have "if ?h \<noteq> [] then iface_valid_token (csrf_iface_of mac now ?x) ?h
                    else ?f \<noteq> [] \<and> iface_valid_token (csrf_iface_of mac now ?x) ?f"
    by (simp add: Let_def)
  then have pass: "if ?h \<noteq> [] then ValidToken mac now ?x ?h else ?f \<noteq> [] \<and> ValidToken mac now ?x ?f"
    by (simp only: iface_valid_token_of)
  then obtain c where c: "c \<in> {?h, ?f}" "c \<noteq> []" "ValidToken mac now ?x c"
    by (auto split: if_splits)
  then show ?thesis
    using Generate_secret_id [of mac opts now s r empty_response]
    by (auto simp: ValidToken_iff)
qed


theorem validation_sound_witness:
  "\<not> written (Validate example_post_token
      (snd (Generate example_mac example_opts 0 example_session example_post_token empty_response))
      (csrf_iface_of example_mac 0
        (fst (Generate example_mac example_opts 0 example_session example_post_token empty_response)))) \<and>
   (\<exists>c t. c \<in> {header_get (req_header example_post_token) ''X-CSRFToken'', form_value example_post_token ''_csrf''} \<and>
      c \<noteq> [] \<and> in_int64 t \<and> 0 - t < xsrf_timeout \<and>
      c = generate_at_time example_mac (opt_secret example_opts)
            (case example_session (opt_session_key example_opts) of Some (SessString u) \<Rightarrow> u | _ \<Rightarrow> [])
            ''POST'' t)"
proof -
  have v: "ValidToken example_mac 0 \<lparr>csrf_token = [], csrf_id = ''123456'', csrf_secret = ''token123''\<rparr>
      example_token"
    by (simp add: ValidToken_def valid_generate_iff xsrf_timeout_def)
  have h: "\<not> written (Validate example_post_token
      (snd (Generate example_mac example_opts 0 example_session example_post_token empty_response))
      (csrf_iface_of example_mac 0
        (fst (Generate example_mac example_opts 0 example_session example_post_token empty_response))))"
    unfolding example_post_Generate fst_conv snd_conv
    using v generate_at_time_not_Nil
    by (simp add: validate_simps header_get_def iface_valid_token_of written_def Let_def)
  from h validation_sound [OF h] show ?thesis by blast
qed

text \<open>
  Claim C4. End to end: a request with neither an \<open>X-CSRFToken\<close>
  header nor a \<open>_csrf\<close> form value is answered 400 \<open>Bad Request\<close> and the
  route's handlers after \<open>Validate\<close> never run (spec 8, last scenario).
\<close>

theorem no_token_rejected:
  assumes "header_get (req_header r) ''X-CSRFToken'' = []" and "form_value r ''_csrf'' = []"
  shows "serve mac opts now s r (validate_handler r # hs) =
           http_error (snd (Generate mac opts now s r empty_response)) ''Bad Request'' 400 \<and>
         resp_status (serve mac opts now s r (validate_handler r # hs)) = Some 400 \<and>
         resp_body (serve mac opts now s r (validate_handler r # hs)) = ''Bad Request'' @ [char_of (10::nat)]"
proof -
  obtain x2 w2 where g: "Generate mac opts now s r empty_response = (x2, w2)" by fastforce
  have w2: "resp_status w2 = None \<and> resp_body w2 = []"
    using Generate_status_body [of mac opts now s r empty_response] g by (simp add: empty_response_def)
  have v: "Validate r w2 (csrf_iface_of mac now x2) = http_error w2 ''Bad Request'' 400"
    using assms by (simp add: validate_simps)
  have "serve mac opts now s r (validate_handler r # hs) = http_error w2 ''Bad Request'' 400"
    by (simp only: serve_validate g v prod.case Let_def written_http_error if_True)
  with g w2 show ?thesis by (simp add: http_error_def)
qed


theorem no_token_rejected_witness:
  "header_get (req_header example_post) ''X-CSRFToken'' = [] \<and> form_value example_post ''_csrf'' = [] \<and>
   resp_status (serve example_mac example_opts 0 example_session example_post [validate_handler example_post]) =
     Some 400"
  using no_token_rejected [of example_post example_mac example_opts 0 example_session "[]"]
  by (simp add: header_get_def form_value_def http_error_def serve_Generate_unwritten)

text \<open>
  Claim C3. End to end: with a collision-free keyed hash, a token
  issued to the session of subject \<open>ua\<close> is rejected by \<open>Validate\<close> on a
  session of subject \<open>ub\<close> whenever the two ids differ after \<open>clean\<close>.
\<close>

theorem token_not_transferable:
  assumes "inj (mac (opt_secret opts))"
    and "sA (opt_session_key opts) = Some (SessString ua)"
    and "req_method r1 = ''GET''" and "header_get (req_header r1) ''X-API-Key'' = []"
    and "case request_cookie r1 ''_csrf'' of None \<Rightarrow> True | Some v \<Rightarrow> v = []"
    and "header_get (req_header r2) ''X-CSRFToken'' = GetToken (fst (Generate mac opts t1 sA r1 empty_response))"
    and "sB (opt_session_key opts) = Some (SessString ub)" and "clean ua \<noteq> clean ub"
  shows "written (Validate r2 (snd (Generate mac opts t2 sB r2 empty_response))
                 (csrf_iface_of mac t2 (fst (Generate mac opts t2 sB r2 empty_response))))"
proof -
  let ?tok = "generate_at_time mac (opt_secret opts) ua ''POST'' t1"
  have h: "header_get (req_header r2) ''X-CSRFToken'' = ?tok"
    using assms(6) Generate_mint_context [where s = sA and opts = opts and uid = ua and r = r1 and mac = mac
        and now = t1 and w = empty_response] assms(2-5)
    by (simp add: GetToken_def)
  obtain x2 w2 where g: "Generate mac opts t2 sB r2 empty_response = (x2, w2)" by fastforce
  have x2: "csrf_secret x2 = opt_secret opts \<and> csrf_id x2 = ub"
    using Generate_secret_id [of mac opts t2 sB r2 empty_response] g assms(7) by simp
  have "\<not> ValidToken mac t2 x2 ?tok"
  proof
    assume "ValidToken mac t2 x2 ?tok"
    with x2 have "valid_at_time mac ?tok (opt_secret opts) ub ''POST'' t2"
      by (simp add: ValidToken_def)
    with assms(1) have "clean ua = clean ub"
      using valid_at_time_binding by blast
    with assms(8) show False by simp
  qed
  then show ?thesis
    using h generate_at_time_not_Nil g by (simp add: validate_simps iface_valid_token_of)
qed


theorem token_not_transferable_witness:
  "inj (example_mac (opt_secret example_opts)) \<and>
   example_session_of ''alice'' (opt_session_key example_opts) = Some (SessString ''alice'') \<and>
   req_method example_get = ''GET'' \<and> header_get (req_header example_get) ''X-API-Key'' = [] \<and>
   (case request_cookie example_get ''_csrf'' of None \<Rightarrow> True | Some v \<Rightarrow> v = []) \<and>
   header_get (req_header (example_post\<lparr>req_header := [(''X-Csrftoken'',
       generate_at_time example_mac ''token123'' ''alice'' ''POST'' 0)]\<rparr>)) ''X-CSRFToken'' =
     GetToken (fst (Generate example_mac example_opts 0 (example_session_of ''alice'') example_get empty_response)) \<and>
   example_session_of ''bob'' (opt_session_key example_opts) = Some (SessString ''bob'') \<and>
   clean ''alice'' \<noteq> clean ''bob'' \<and>
   written (Validate (example_post\<lparr>req_header := [(''X-Csrftoken'',
       generate_at_time example_mac ''token123'' ''alice'' ''POST'' 0)]\<rparr>)
     (snd (Generate example_mac example_opts 0 (example_session_of ''bob'')
        (example_post\<lparr>req_header := [(''X-Csrftoken'',
          generate_at_time example_mac ''token123'' ''alice'' ''POST'' 0)]\<rparr>) empty_response))
     (csrf_iface_of example_mac 0 (fst (Generate example_mac example_opts 0 (example_session_of ''bob'')
        (example_post\<lparr>req_header := [(''X-Csrftoken'',
          generate_at_time example_mac ''token123'' ''alice'' ''POST'' 0)]\<rparr>) empty_response))))"
  using token_not_transferable [of example_mac example_opts "example_session_of ''alice''" "''alice''" example_get
      "example_post\<lparr>req_header := [(''X-Csrftoken'', generate_at_time example_mac ''token123'' ''alice'' ''POST'' 0)]\<rparr>"
      0 "example_session_of ''bob''" "''bob''" 0]
  by (simp add: example_alice_Generate request_cookie_def header_get_def clean_def inj_on_def)

end
